theory Spec2Isabelle
  imports Main "HOL-Library.Sublist" "HOL-Library.AList"
begin

section \<open>Session state and human handoff of the Achora chatbot\<close>

text \<open>
  The service is a Node.js process: \<^verbatim>\<open>SessionService\<close> keeps the conversation state of a
  visitor, \<^verbatim>\<open>RedisService\<close> is the adapter of the key-value store, \<^verbatim>\<open>SlackService\<close>
  publishes handoff requests to the agents and handles their button clicks,
  \<^verbatim>\<open>HandoffService\<close> decides whether a handoff may be offered and
  \<^verbatim>\<open>ChatController\<close> routes the visitor's messages.

  The embedding passes the whole process state (the store, the in-process maps and
  the scheduled timers) through every operation as one record. Conventions:
  \<^item> a JavaScript value that is a string or \<^verbatim>\<open>null\<close>/\<^verbatim>\<open>undefined\<close> is a
    \<open>string option\<close>; it is truthy when it is \<open>Some\<close> of a non-empty string;
  \<^item> strings are ASCII;
  \<^item> \<^verbatim>\<open>Date.now()\<close> is the argument \<open>now\<close> of an operation (milliseconds), read
    once per operation;
  \<^item> objects written to the store as JSON and parsed back are the same value;
  \<^item> the key families of the store (\<^verbatim>\<open>user:\<close>, \<^verbatim>\<open>session:\<close>, \<^verbatim>\<open>handoff:\<close>,
    \<^verbatim>\<open>timer:\<close>, \<^verbatim>\<open>session_state:\<close>, \<^verbatim>\<open>session:<id>:ttl\<close>, the hash
    \<^verbatim>\<open>activeSessions\<close>) are separate maps; a key written with a time to live
    keeps the number of seconds beside its value, and expiry is an event of the
    environment that does not happen inside an operation;
  \<^item> while \<^verbatim>\<open>isConnected\<close> holds, a command sent to the store succeeds;
  \<^item> \<^verbatim>\<open>console.error\<close> appends to \<open>consoleErrors\<close>; \<^verbatim>\<open>console.log\<close> is not modelled.
\<close>

subsection \<open>states.js\<close>

definition SEEKING_HANDOFF :: string where "SEEKING_HANDOFF = ''seeking_handoff''"
definition CALLBACK_REQUEST :: string where "CALLBACK_REQUEST = ''callback_request''"
definition LEAD_CAPTURE :: string where "LEAD_CAPTURE = ''lead_capture''"
definition NORMAL_CHAT :: string where "NORMAL_CHAT = ''normal_chat''"
definition HUMAN_CONNECTED :: string where "HUMAN_CONNECTED = ''human_connected''"

text \<open>\<^verbatim>\<open>Object.values(SessionState)\<close>\<close>

definition validStates :: "string list" where
  "validStates = [SEEKING_HANDOFF, CALLBACK_REQUEST, LEAD_CAPTURE, NORMAL_CHAT, HUMAN_CONNECTED]"

subsection \<open>Data\<close>

text \<open>The object \<^verbatim>\<open>SessionService\<close> keeps per session and under \<^verbatim>\<open>session_state:<user>\<close>.\<close>

record session_data =
  state :: string
  lastActivity :: int
  handoffOffered :: bool
  lastHandoffTime :: "int option"
  session_persistentUserId :: "string option"

text \<open>The pending request under \<^verbatim>\<open>handoff:<user>\<close>.\<close>

record handoff_data =
  sessionId :: string
  messageTs :: string
  requestTime :: int
  conversationHistory :: "(string \<times> string) list"
  summary :: "string option"

text \<open>The agent connection in the hash \<^verbatim>\<open>activeSessions\<close>.\<close>

record active_session =
  agentId :: string
  agentName :: string
  threadTs :: string
  originalMessageTs :: string
  connectedAt :: int
  persistentUserId :: string
  currentSessionId :: string

text \<open>An entry of \<^verbatim>\<open>SlackService.waitingSessions\<close>.\<close>

record waiting_data =
  waiting_messageTs :: string
  waiting_requestTime :: int
  waiting_persistentUserId :: "string option"

text \<open>
  A callback registered with \<^verbatim>\<open>setTimeout\<close> or \<^verbatim>\<open>setInterval\<close>, with the values its
  closure captured. The process state maps the identifier that the registration
  returned to it until the callback is cleared or, for a timeout, has fired.
\<close>

datatype timer =
    HandoffTimeout string string
  | InactivityTimeout string
  | WaitingTicker string string "string option"
  | DurationTicker string string

text \<open>What an operation sends out: calls of the Slack API, events to the visitor's
  socket room, rows for the database.\<close>

datatype slack_call =
    ChatUpdate string string
  | ChatPostMessage "string option" string

datatype io_event = Emit string string string

datatype db_event =
    LogHandoffTimeout string
  | LogAgentConnection string string string
  | LogAgentDisconnection string string
  | TrackCallbackPressed string
  | LogMessage string string string
  | CaptureLead string string string string string

record world =
  isConnected :: bool
  userHashes :: "string \<Rightarrow> (string \<times> string) list"
  sessionMappings :: "string \<rightharpoonup> nat \<times> string"
  handoffStates :: "string \<rightharpoonup> nat \<times> handoff_data"
  timerStarts :: "string \<rightharpoonup> nat \<times> int"
  activeSessionsHash :: "string \<rightharpoonup> active_session"
  activeTtlKeys :: "string \<rightharpoonup> nat"
  sessionStateKeys :: "string \<rightharpoonup> nat \<times> session_data"
  sessions :: "string \<rightharpoonup> session_data"
  scheduled :: "nat \<rightharpoonup> timer"
  nextTimerId :: nat
  updateIntervals :: "string option \<rightharpoonup> nat"
  sessionDurationIntervals :: "string \<rightharpoonup> nat"
  handoffTimeouts :: "string \<rightharpoonup> nat"
  userInactivityTimeouts :: "string \<rightharpoonup> nat"
  connectionRequestTimes :: "string \<rightharpoonup> int"
  sessionConversationHistory :: "string \<rightharpoonup> (string \<times> string) list"
  cachedSummaries :: "string \<rightharpoonup> string"
  waitingSessions :: "string \<rightharpoonup> waiting_data"
  slackCalls :: "slack_call list"
  emitted :: "io_event list"
  dbLog :: "db_event list"
  consoleErrors :: "string list"

text \<open>
  The collaborators an operation awaits: whether the calls of the Slack API that it
  makes succeed and the timestamp Slack gives a posted message, whether
  \<^verbatim>\<open>global.io\<close> is set, whether the database accepts a lead, and what the language
  model answers (whether it answers at all, the reply to the visitor, the summary
  for the agents, the handoff analysis and its reason), whether the visitor's
  message matches the agreement patterns of \<^verbatim>\<open>getChatResponse\<close>, and the text of
  \<^verbatim>\<open>new Date().toISOString()\<close>.
\<close>

record env =
  slackOk :: bool
  postedTs :: string
  ioPresent :: bool
  leadSaved :: bool
  botResponse :: string
  summaryText :: string
  shouldOffer :: bool
  offerReason :: string
  responderOk :: bool
  userAgreed :: bool
  isoNow :: string

text \<open>\<^verbatim>\<open>persistentUserId && redisService.isConnected\<close>: the key to use in the store.\<close>

definition persistKey :: "string option \<Rightarrow> bool \<Rightarrow> string option" where
  "persistKey pid connected =
     (case pid of
        None \<Rightarrow> None
      | Some p \<Rightarrow> if p \<noteq> [] \<and> connected then Some p else None)"

definition persistTarget :: "string option \<Rightarrow> world \<Rightarrow> string option" where
  "persistTarget pid s = persistKey pid (isConnected s)"

text \<open>\<^verbatim>\<open>if (persistentUserId)\<close> alone.\<close>

definition truthyId :: "string option \<Rightarrow> string option" where
  "truthyId pid = persistKey pid True"

text \<open>The part of the process state that is not output.\<close>

definition stored :: "world \<Rightarrow> world" where
  "stored s = s\<lparr>slackCalls := [], emitted := [], dbLog := [], consoleErrors := []\<rparr>"

subsection \<open>RedisService\<close>

definition getUserState :: "string \<Rightarrow> world \<Rightarrow> (string \<times> string) list option" where
  "getUserState pid s =
     (if \<not> isConnected s then None
      else if userHashes s pid = [] then None else Some (userHashes s pid))"

fun hSet :: "(string \<times> string) list \<Rightarrow> (string \<times> string) list \<Rightarrow> (string \<times> string) list" where
  "hSet h [] = h"
| "hSet h ((f, v) # fs) = hSet (AList.update f v h) fs"

definition setUserState :: "string \<Rightarrow> (string \<times> string) list \<Rightarrow> world \<Rightarrow> world" where
  "setUserState pid fvs s =
     (if \<not> isConnected s then s
      else s\<lparr>userHashes := (userHashes s)(pid := hSet (userHashes s pid) fvs)\<rparr>)"

definition updateUserField :: "string \<Rightarrow> string \<Rightarrow> string \<Rightarrow> world \<Rightarrow> world" where
  "updateUserField pid field v s =
     (if \<not> isConnected s then s
      else s\<lparr>userHashes := (userHashes s)(pid := AList.update field v (userHashes s pid))\<rparr>)"

definition updateCurrentSession :: "string \<Rightarrow> string \<Rightarrow> world \<Rightarrow> world" where
  "updateCurrentSession pid sid s = updateUserField pid ''currentSessionId'' sid s"

definition deleteUserState :: "string \<Rightarrow> world \<Rightarrow> world" where
  "deleteUserState pid s =
     (if \<not> isConnected s then s else s\<lparr>userHashes := (userHashes s)(pid := [])\<rparr>)"

definition setSessionMapping :: "string \<Rightarrow> string \<Rightarrow> world \<Rightarrow> world" where
  "setSessionMapping sid pid s =
     (if \<not> isConnected s then s
      else s\<lparr>sessionMappings := (sessionMappings s)(sid \<mapsto> (86400, pid))\<rparr>)"

definition getSessionMapping :: "string \<Rightarrow> world \<Rightarrow> string option" where
  "getSessionMapping sid s =
     (if \<not> isConnected s then None else map_option snd (sessionMappings s sid))"

definition setHandoffState :: "string \<Rightarrow> handoff_data \<Rightarrow> nat \<Rightarrow> world \<Rightarrow> world" where
  "setHandoffState pid h ttl s =
     (if \<not> isConnected s then s
      else s\<lparr>handoffStates := (handoffStates s)(pid \<mapsto> (ttl, h))\<rparr>)"

definition getHandoffState :: "string \<Rightarrow> world \<Rightarrow> handoff_data option" where
  "getHandoffState pid s =
     (if \<not> isConnected s then None else map_option snd (handoffStates s pid))"

definition deleteHandoffState :: "string \<Rightarrow> world \<Rightarrow> world" where
  "deleteHandoffState pid s =
     (if \<not> isConnected s then s else s\<lparr>handoffStates := (handoffStates s)(pid := None)\<rparr>)"

definition setTimerStart :: "string \<Rightarrow> int \<Rightarrow> world \<Rightarrow> world" where
  "setTimerStart pid t s =
     (if \<not> isConnected s then s
      else s\<lparr>timerStarts := (timerStarts s)(pid \<mapsto> (600, t))\<rparr>)"

definition deleteTimer :: "string \<Rightarrow> world \<Rightarrow> world" where
  "deleteTimer pid s =
     (if \<not> isConnected s then s else s\<lparr>timerStarts := (timerStarts s)(pid := None)\<rparr>)"

text \<open>One \<^verbatim>\<open>MULTI\<close> transaction writes the hash field and the marker key
  \<^verbatim>\<open>session:<user>:ttl\<close>; the write is unconditional.\<close>

definition setActiveSession :: "string \<Rightarrow> active_session \<Rightarrow> nat \<Rightarrow> world \<Rightarrow> bool \<times> world" where
  "setActiveSession pid a ttl s =
     (if \<not> isConnected s then (False, s)
      else (True, s\<lparr>activeSessionsHash := (activeSessionsHash s)(pid \<mapsto> a),
                     activeTtlKeys := (activeTtlKeys s)(pid \<mapsto> ttl)\<rparr>))"

text \<open>A hash field whose marker key is gone is deleted and reported as absent.\<close>

definition getActiveSession :: "string \<Rightarrow> world \<Rightarrow> active_session option \<times> world" where
  "getActiveSession pid s =
     (if \<not> isConnected s then (None, s)
      else case activeTtlKeys s pid of
        None \<Rightarrow>
          (case activeSessionsHash s pid of
             None \<Rightarrow> (None, s)
           | Some a \<Rightarrow> (None, s\<lparr>activeSessionsHash := (activeSessionsHash s)(pid := None)\<rparr>))
      | Some t \<Rightarrow> (activeSessionsHash s pid, s))"

definition deleteActiveSession :: "string \<Rightarrow> world \<Rightarrow> world" where
  "deleteActiveSession pid s =
     (if \<not> isConnected s then s
      else s\<lparr>activeSessionsHash := (activeSessionsHash s)(pid := None),
              activeTtlKeys := (activeTtlKeys s)(pid := None)\<rparr>)"

text \<open>The fields without a marker key are deleted; the sessions returned are only
  logged by the callers modelled here.\<close>

definition getAllActiveSessions :: "world \<Rightarrow> world" where
  "getAllActiveSessions s =
     (if \<not> isConnected s then s
      else s\<lparr>activeSessionsHash :=
                (\<lambda>k. case activeTtlKeys s k of None \<Rightarrow> None | Some t \<Rightarrow> activeSessionsHash s k)\<rparr>)"

definition updateActiveSessionId :: "string \<Rightarrow> string \<Rightarrow> world \<Rightarrow> world" where
  "updateActiveSessionId pid sid s =
     (if \<not> isConnected s then s
      else case getActiveSession pid s of
        (None, s1) \<Rightarrow> s1
      | (Some a, s1) \<Rightarrow> snd (setActiveSession pid (a\<lparr>currentSessionId := sid\<rparr>) 3600 s1))"

subsection \<open>SessionService\<close>

definition getSessionFromRedis :: "string \<Rightarrow> world \<Rightarrow> session_data option" where
  "getSessionFromRedis pid s =
     (if \<not> isConnected s then None else map_option snd (sessionStateKeys s pid))"

definition saveSessionToRedis :: "string \<Rightarrow> session_data \<Rightarrow> world \<Rightarrow> world" where
  "saveSessionToRedis pid d s =
     (if \<not> isConnected s then s
      else s\<lparr>sessionStateKeys := (sessionStateKeys s)(pid \<mapsto> (3600, d))\<rparr>)"

definition defaultSession :: "int \<Rightarrow> session_data" where
  "defaultSession now =
     \<lparr>state = SEEKING_HANDOFF, lastActivity = now, handoffOffered = False,
      lastHandoffTime = None, session_persistentUserId = None\<rparr>"

text \<open>The in-memory lookup of \<^verbatim>\<open>getSession\<close>, which creates the default session.\<close>

definition getSessionInMemory :: "string \<Rightarrow> string option \<Rightarrow> int \<Rightarrow> world \<Rightarrow> session_data \<times> world" where
  "getSessionInMemory sid pid now s =
     (case sessions s sid of
        Some d \<Rightarrow> (d, s)
      | None \<Rightarrow>
          (let s1 = s\<lparr>sessions := (sessions s)(sid \<mapsto> defaultSession now)\<rparr>
           in (defaultSession now,
               case persistTarget pid s1 of
                 None \<Rightarrow> s1
               | Some p \<Rightarrow> saveSessionToRedis p (defaultSession now) s1)))"

text \<open>
  \<^verbatim>\<open>getSession\<close> returns the object that \<^verbatim>\<open>this.sessions\<close> holds under the session
  id afterwards (the object just parsed from the store, or the in-memory one), so
  an assignment to a field of the result by a caller is an update of that entry:
  \<open>assignSession\<close>.
\<close>

definition getSession :: "string \<Rightarrow> string option \<Rightarrow> int \<Rightarrow> world \<Rightarrow> session_data \<times> world" where
  "getSession sid pid now s =
     (case persistTarget pid s of
        None \<Rightarrow> getSessionInMemory sid pid now s
      | Some p \<Rightarrow>
          (case getSessionFromRedis p s of
             Some d \<Rightarrow> (d, s\<lparr>sessions := (sessions s)(sid \<mapsto> d)\<rparr>)
           | None \<Rightarrow> getSessionInMemory sid pid now s))"

definition assignSession :: "string \<Rightarrow> session_data \<Rightarrow> world \<Rightarrow> world" where
  "assignSession sid d s = s\<lparr>sessions := (sessions s)(sid \<mapsto> d)\<rparr>"

definition saveIfPersistent :: "string option \<Rightarrow> session_data \<Rightarrow> world \<Rightarrow> world" where
  "saveIfPersistent pid d s =
     (case persistTarget pid s of None \<Rightarrow> s | Some p \<Rightarrow> saveSessionToRedis p d s)"

definition getSessionState :: "string \<Rightarrow> string option \<Rightarrow> int \<Rightarrow> world \<Rightarrow> string \<times> world" where
  "getSessionState sid pid now s =
     (case persistTarget pid s of
        None \<Rightarrow> (let (d, s1) = getSession sid pid now s in (state d, s1))
      | Some p \<Rightarrow>
          (case getActiveSession p s of
             (Some a, s1) \<Rightarrow>
               (let (d, s2) = getSession sid pid now s1;
                    d' = d\<lparr>state := HUMAN_CONNECTED, session_persistentUserId := Some p\<rparr>
                in (HUMAN_CONNECTED, saveSessionToRedis p d' (assignSession sid d' s2)))
           | (None, s1) \<Rightarrow> (let (d, s2) = getSession sid pid now s1 in (state d, s2))))"

definition setSessionState :: "string \<Rightarrow> string \<Rightarrow> string option \<Rightarrow> int \<Rightarrow> world \<Rightarrow> world" where
  "setSessionState sid st pid now s =
     (if st \<notin> set validStates
      then s\<lparr>consoleErrors := consoleErrors s @ [''Invalid state: '' @ st]\<rparr>
      else
        (let (previousState, s1) = getSessionState sid pid now s;
             (d, s2) = getSession sid pid now s1;
             d' = d\<lparr>state := st, lastActivity := now\<rparr>
         in saveIfPersistent pid d' (assignSession sid d' s2)))"

definition updateSessionActivity :: "string \<Rightarrow> string option \<Rightarrow> int \<Rightarrow> world \<Rightarrow> world" where
  "updateSessionActivity sid pid now s =
     (let (d, s1) = getSession sid pid now s;
          d' = d\<lparr>lastActivity := now\<rparr>
      in saveIfPersistent pid d' (assignSession sid d' s1))"

definition hasHandoffBeenOffered :: "string \<Rightarrow> string option \<Rightarrow> int \<Rightarrow> world \<Rightarrow> bool \<times> world" where
  "hasHandoffBeenOffered sid pid now s =
     (let (d, s1) = getSession sid pid now s in (handoffOffered d, s1))"

definition markHandoffOffered :: "string \<Rightarrow> string option \<Rightarrow> int \<Rightarrow> world \<Rightarrow> world" where
  "markHandoffOffered sid pid now s =
     (let (d, s1) = getSession sid pid now s;
          d' = d\<lparr>handoffOffered := True\<rparr>
      in saveIfPersistent pid d' (assignSession sid d' s1))"

definition oneHourMs :: int where
  "oneHourMs = 60 * 60 * 1000"

text \<open>\<^verbatim>\<open>!session.lastHandoffTime\<close> holds for \<^verbatim>\<open>null\<close> and for the number 0.\<close>

definition canRequestHandoffAgain :: "string \<Rightarrow> string option \<Rightarrow> int \<Rightarrow> world \<Rightarrow> bool \<times> world" where
  "canRequestHandoffAgain sid pid now s =
     (let (d, s1) = getSession sid pid now s
      in case lastHandoffTime d of
           None \<Rightarrow> (True, s1)
         | Some t \<Rightarrow> if t = 0 then (True, s1) else (now - t \<ge> oneHourMs, s1))"

definition markHumanHandoffDeclined :: "string \<Rightarrow> string option \<Rightarrow> int \<Rightarrow> world \<Rightarrow> world" where
  "markHumanHandoffDeclined sid pid now s = setSessionState sid LEAD_CAPTURE pid now s"

definition markCallbackRequested :: "string \<Rightarrow> string option \<Rightarrow> int \<Rightarrow> world \<Rightarrow> world" where
  "markCallbackRequested sid pid now s = setSessionState sid CALLBACK_REQUEST pid now s"

definition markLeadCaptured :: "string \<Rightarrow> string option \<Rightarrow> int \<Rightarrow> world \<Rightarrow> world" where
  "markLeadCaptured sid pid now s = setSessionState sid NORMAL_CHAT pid now s"

definition markHumanHandoffAccepted :: "string \<Rightarrow> string option \<Rightarrow> int \<Rightarrow> world \<Rightarrow> world" where
  "markHumanHandoffAccepted sid pid now s =
     (let (d, s1) = getSession sid pid now s;
          d' = d\<lparr>lastHandoffTime := Some now\<rparr>;
          s2 = saveIfPersistent pid d' (assignSession sid d' s1)
      in setSessionState sid NORMAL_CHAT pid now s2)"

subsection \<open>HandoffService\<close>

text \<open>The part of \<^verbatim>\<open>analyzeResponseForHandoff\<close> after the \<^verbatim>\<open>switch\<close>: the offer made
  before, then the analysis of the conversation by the language model.\<close>

definition analyzeAfterSwitch ::
  "string \<Rightarrow> string option \<Rightarrow> env \<Rightarrow> int \<Rightarrow> world \<Rightarrow> (string \<times> string) \<times> world" where
  "analyzeAfterSwitch sid pid e now s =
     (let (offered, s1) = hasHandoffBeenOffered sid pid now s
      in if offered then ((''continue_ai'', ''Human handoff already offered''), s1)
         else if shouldOffer e then ((''human_handoff'', offerReason e), s1)
         else ((''continue_ai'', ''No handoff triggers detected''), s1))"

definition analyzeResponseForHandoff ::
  "string \<Rightarrow> string option \<Rightarrow> env \<Rightarrow> int \<Rightarrow> world \<Rightarrow> (string \<times> string) \<times> world" where
  "analyzeResponseForHandoff sid pid e now s =
     (let (currentState, s1) = getSessionState sid pid now s
      in if currentState = CALLBACK_REQUEST
         then ((''continue_ai'', ''CALLBACK_REQUEST state - focusing on lead collection''), s1)
         else if currentState = LEAD_CAPTURE
         then ((''continue_ai'', ''LEAD_CAPTURE state - conversational lead capture mode''), s1)
         else if currentState = HUMAN_CONNECTED
         then ((''continue_ai'', ''HUMAN_CONNECTED state - agent handling conversation''), s1)
         else if currentState = NORMAL_CHAT
         then (let (canRequestHandoff, s2) = canRequestHandoffAgain sid pid now s1
               in if \<not> canRequestHandoff
                  then ((''continue_ai'', ''NORMAL_CHAT state - handoff cooldown active''), s2)
                  else analyzeAfterSwitch sid pid e now
                         (setSessionState sid SEEKING_HANDOFF pid now s2))
         else if currentState = SEEKING_HANDOFF
         then analyzeAfterSwitch sid pid e now s1
         else ((''continue_ai'', ''Unknown session state: '' @ currentState), s1))"

subsection \<open>Timers\<close>

text \<open>\<^verbatim>\<open>setTimeout\<close> and \<^verbatim>\<open>setInterval\<close> return a fresh identifier;
  \<^verbatim>\<open>clearTimeout\<close> and \<^verbatim>\<open>clearInterval\<close> remove the callback.\<close>

definition setTimer :: "timer \<Rightarrow> world \<Rightarrow> nat \<times> world" where
  "setTimer tm s =
     (nextTimerId s,
      s\<lparr>scheduled := (scheduled s)(nextTimerId s \<mapsto> tm), nextTimerId := Suc (nextTimerId s)\<rparr>)"

definition clearTimer :: "nat \<Rightarrow> world \<Rightarrow> world" where
  "clearTimer i s = s\<lparr>scheduled := (scheduled s)(i := None)\<rparr>"

subsection \<open>SlackService\<close>

record reply =
  status :: string
  message :: "string option"
  reply_threadTs :: "string option"

datatype error = SlackApiError | ResponderError

definition slackCall :: "slack_call \<Rightarrow> world \<Rightarrow> world" where
  "slackCall c s = s\<lparr>slackCalls := slackCalls s @ [c]\<rparr>"

definition consoleError :: "string \<Rightarrow> world \<Rightarrow> world" where
  "consoleError m s = s\<lparr>consoleErrors := consoleErrors s @ [m]\<rparr>"

definition dbWrite :: "db_event \<Rightarrow> world \<Rightarrow> world" where
  "dbWrite r s = s\<lparr>dbLog := dbLog s @ [r]\<rparr>"

text \<open>\<^verbatim>\<open>if (global.io) global.io.to(room).emit(event, {message})\<close>\<close>

definition emit :: "env \<Rightarrow> string \<Rightarrow> string \<Rightarrow> string \<Rightarrow> world \<Rightarrow> world" where
  "emit e room ev m s =
     (if ioPresent e then s\<lparr>emitted := emitted s @ [Emit room ev m]\<rparr> else s)"

definition mapUserToSession :: "string \<Rightarrow> string \<Rightarrow> world \<Rightarrow> world" where
  "mapUserToSession pid sid s =
     updateActiveSessionId pid sid (setSessionMapping sid pid (updateCurrentSession pid sid s))"

definition clearHandoffTimeout :: "string \<Rightarrow> world \<Rightarrow> world" where
  "clearHandoffTimeout pid s =
     (case handoffTimeouts s pid of
        None \<Rightarrow> s
      | Some i \<Rightarrow> (clearTimer i s)\<lparr>handoffTimeouts := (handoffTimeouts s)(pid := None)\<rparr>)"

definition setHandoffTimeout :: "string \<Rightarrow> string \<Rightarrow> world \<Rightarrow> world" where
  "setHandoffTimeout pid sid s =
     (let (i, s1) = setTimer (HandoffTimeout pid sid) (clearHandoffTimeout pid s)
      in s1\<lparr>handoffTimeouts := (handoffTimeouts s1)(pid \<mapsto> i)\<rparr>)"

definition clearUserInactivityTimeout :: "string \<Rightarrow> world \<Rightarrow> world" where
  "clearUserInactivityTimeout pid s =
     (case userInactivityTimeouts s pid of
        None \<Rightarrow> s
      | Some i \<Rightarrow>
          (clearTimer i s)\<lparr>userInactivityTimeouts := (userInactivityTimeouts s)(pid := None)\<rparr>)"

definition setUserInactivityTimeout :: "string \<Rightarrow> world \<Rightarrow> world" where
  "setUserInactivityTimeout pid s =
     (let (i, s1) = setTimer (InactivityTimeout pid) (clearUserInactivityTimeout pid s)
      in s1\<lparr>userInactivityTimeouts := (userInactivityTimeouts s1)(pid \<mapsto> i)\<rparr>)"

text \<open>The previous interval of the user is cleared; its map entry is overwritten.\<close>

definition startWaitingTimeUpdater :: "string \<Rightarrow> string \<Rightarrow> string option \<Rightarrow> world \<Rightarrow> world" where
  "startWaitingTimeUpdater sid ts pid s =
     (let s1 = (case updateIntervals s pid of None \<Rightarrow> s | Some i \<Rightarrow> clearTimer i s);
          (j, s2) = setTimer (WaitingTicker sid ts pid) s1
      in s2\<lparr>updateIntervals := (updateIntervals s2)(pid \<mapsto> j)\<rparr>)"

definition stopWaitingTimeUpdater :: "string \<Rightarrow> world \<Rightarrow> world" where
  "stopWaitingTimeUpdater pid s =
     (let s1 = (case updateIntervals s (Some pid) of
                  None \<Rightarrow> s
                | Some i \<Rightarrow>
                    (clearTimer i s)\<lparr>updateIntervals := (updateIntervals s)(Some pid := None)\<rparr>)
      in deleteHandoffState pid (deleteTimer pid s1))"

text \<open>Without an active session the function returns after clearing the previous
  interval, whose identifier stays in the map.\<close>

definition startSessionDurationUpdater :: "string \<Rightarrow> string \<Rightarrow> world \<Rightarrow> world" where
  "startSessionDurationUpdater pid ts s =
     (let s1 = (case sessionDurationIntervals s pid of None \<Rightarrow> s | Some i \<Rightarrow> clearTimer i s)
      in case getActiveSession pid s1 of
           (None, s2) \<Rightarrow> s2
         | (Some a, s2) \<Rightarrow>
             (let (j, s3) = setTimer (DurationTicker pid ts) s2
              in s3\<lparr>sessionDurationIntervals := (sessionDurationIntervals s3)(pid \<mapsto> j)\<rparr>))"

definition stopSessionDurationUpdater :: "string \<Rightarrow> world \<Rightarrow> world" where
  "stopSessionDurationUpdater k s =
     (case sessionDurationIntervals s k of
        None \<Rightarrow> s
      | Some i \<Rightarrow>
          (clearTimer i s)\<lparr>sessionDurationIntervals := (sessionDurationIntervals s)(k := None)\<rparr>)"

subsubsection \<open>requestHumanAgent\<close>

definition stillActiveMessage :: string where
  "stillActiveMessage =
     ''Your previous request for human assistance is still active. Someone will be with you shortly!''"

definition requestSentMessage :: string where
  "requestSentMessage =
     ''Human agent request sent to our team. Someone will be with you shortly!''"

text \<open>The branch taken when no request of the user is pending: the summary, the
  post to the agents' channel, the record of the request and its timers.\<close>

definition publishRequest ::
  "string \<Rightarrow> (string \<times> string) list \<Rightarrow> string option \<Rightarrow> env \<Rightarrow> int \<Rightarrow> world \<Rightarrow> reply \<times> world" where
  "publishRequest sid history pid e now s =
     (let s1 = s\<lparr>sessionConversationHistory := (sessionConversationHistory s)(sid \<mapsto> history),
                 connectionRequestTimes := (connectionRequestTimes s)(sid \<mapsto> now)\<rparr>;
          sm = (if history \<noteq> [] then Some (summaryText e) else None);
          s2 = (case sm of
                  None \<Rightarrow> s1
                | Some x \<Rightarrow> s1\<lparr>cachedSummaries := (cachedSummaries s1)(sid \<mapsto> x)\<rparr>)
      in if \<not> slackOk e
         then (\<lparr>status = ''error'',
                message = Some ''Unable to connect to human agent right now. Please try again.'',
                reply_threadTs = None\<rparr>,
               consoleError ''Error sending Slack notification'' s2)
         else
           (let s3 = slackCall (ChatPostMessage None (''New support request from session '' @ sid)) s2;
                s4 = (if postedTs e = [] then s3
                      else
                        (let s5 = s3\<lparr>waitingSessions := (waitingSessions s3)(sid \<mapsto>
                                      \<lparr>waiting_messageTs = postedTs e, waiting_requestTime = now,
                                       waiting_persistentUserId = pid\<rparr>)\<rparr>;
                             s6 = (case truthyId pid of
                                     None \<Rightarrow> s5
                                   | Some p \<Rightarrow>
                                       setHandoffTimeout p sid
                                         (setTimerStart p now
                                           (setHandoffState p
                                              \<lparr>sessionId = sid, messageTs = postedTs e,
                                               requestTime = now, conversationHistory = history,
                                               summary = sm\<rparr> 600 s5)))
                         in startWaitingTimeUpdater sid (postedTs e) pid s6))
            in (\<lparr>status = ''human_requested'', message = Some requestSentMessage,
                 reply_threadTs = None\<rparr>, s4)))"

definition requestHumanAgent ::
  "string \<Rightarrow> (string \<times> string) list \<Rightarrow> string option \<Rightarrow> env \<Rightarrow> int \<Rightarrow> world \<Rightarrow> reply \<times> world" where
  "requestHumanAgent sid history pid e now s =
     (case truthyId pid of
        None \<Rightarrow> publishRequest sid history pid e now s
      | Some p \<Rightarrow>
          (let s1 = mapUserToSession p sid s
           in case getHandoffState p s1 of
                None \<Rightarrow> publishRequest sid history pid e now s1
              | Some existingRequest \<Rightarrow>
                  (\<lparr>status = ''human_requested'', message = Some stillActiveMessage,
                    reply_threadTs = None\<rparr>,
                   emit e sid ''agent_waiting''
                     ''Your request for human assistance is still being processed. An agent will be with you shortly.''
                     (setHandoffState p (existingRequest\<lparr>sessionId := sid\<rparr>) 300 s1))))"

subsubsection \<open>handleAcceptButton\<close>

text \<open>
  The identifier of the button is a user id when the user's hash has a current
  session, otherwise it is taken for a session id and mapped to its user. Then
  the active session of the user is read. Between this read and the write of the
  new active session the function awaits the update of the Slack message, so the
  function is two steps of the event loop: \<open>acceptCheck\<close> and \<open>acceptCommit\<close>.
\<close>

datatype accept_check =
    Finished "error + reply"
  | Proceed string string

definition resolveIdentifier :: "string \<Rightarrow> world \<Rightarrow> string option \<times> string" where
  "resolveIdentifier identifier s =
     (case getUserState identifier s of
        None \<Rightarrow> (getSessionMapping identifier s, identifier)
      | Some h \<Rightarrow>
          (case truthyId (map_of h ''currentSessionId'') of
             None \<Rightarrow> (getSessionMapping identifier s, identifier)
           | Some c \<Rightarrow> (Some identifier, c)))"

definition acceptCheck :: "string \<Rightarrow> string \<Rightarrow> env \<Rightarrow> world \<Rightarrow> accept_check \<times> world" where
  "acceptCheck identifier ts e s =
     (let (pid, sid) = resolveIdentifier identifier s
      in case truthyId pid of
           None \<Rightarrow>
             (Finished (Inr \<lparr>status = ''error'', message = Some ''Session not found'',
                             reply_threadTs = None\<rparr>),
              consoleError (''Could not resolve identifiers: '' @ identifier) s)
         | Some p \<Rightarrow>
             if sid = []
             then (Finished (Inr \<lparr>status = ''error'', message = Some ''Session not found'',
                                  reply_threadTs = None\<rparr>),
                   consoleError (''Could not resolve identifiers: '' @ identifier) s)
             else
               (case getActiveSession p s of
                  (Some a, s1) \<Rightarrow>
                    if \<not> slackOk e then (Finished (Inl SlackApiError), s1)
                    else
                      (Finished (Inr \<lparr>status = ''already_taken'',
                                       message = Some (''This chat is already being handled by '' @ agentName a),
                                       reply_threadTs = None\<rparr>),
                       slackCall (ChatUpdate ts (''Already accepted by '' @ agentName a)) s1)
                | (None, s1) \<Rightarrow> (Proceed p sid, s1)))"

definition acceptCommit ::
  "string \<Rightarrow> string \<Rightarrow> string \<Rightarrow> string \<Rightarrow> string \<Rightarrow> env \<Rightarrow> int \<Rightarrow> world \<Rightarrow> (error + reply) \<times> world" where
  "acceptCommit p sid userId userName ts e now s =
     (if \<not> slackOk e
      then (Inr \<lparr>status = ''error'', message = Some ''Failed to create chat thread'',
                 reply_threadTs = None\<rparr>,
            consoleError ''Error creating thread'' s)
      else
        (let s1 = slackCall (ChatUpdate ts (''Chat accepted by '' @ userName)) s;
             s2 = s1\<lparr>sessionConversationHistory := (sessionConversationHistory s1)(sid := None)\<rparr>;
             sessionData = \<lparr>agentId = userId, agentName = userName, threadTs = ts,
                            originalMessageTs = ts, connectedAt = now, persistentUserId = p,
                            currentSessionId = sid\<rparr>;
             s3 = snd (setActiveSession p sessionData 3600 s2);
             s4 = getAllActiveSessions (snd (getActiveSession p s3));
             s5 = setUserState p
                    [(''agentConnected'', ''true''), (''agentName'', userName), (''agentId'', userId),
                     (''connectedAt'', isoNow e), (''currentSessionId'', sid)] s4;
             s6 = clearUserInactivityTimeout p
                    (clearHandoffTimeout p (deleteHandoffState p (stopWaitingTimeUpdater p s5)));
             s7 = startSessionDurationUpdater p ts s6;
             s8 = markHumanHandoffAccepted sid (Some p) now s7;
             s9 = setUserInactivityTimeout p s8;
             s10 = dbWrite (LogAgentConnection sid userName userId) s9
         in (Inr \<lparr>status = ''accepted'', message = None, reply_threadTs = Some ts\<rparr>,
             emit e sid ''agent_connected'' ''A Support Specialist has joined the conversation!'' s10)))"

definition handleAcceptButton ::
  "string \<Rightarrow> string \<Rightarrow> string \<Rightarrow> string \<Rightarrow> env \<Rightarrow> int \<Rightarrow> world \<Rightarrow> (error + reply) \<times> world" where
  "handleAcceptButton identifier userId userName ts e now s =
     (case acceptCheck identifier ts e s of
        (Finished r, s1) \<Rightarrow> (r, s1)
      | (Proceed p sid, s1) \<Rightarrow> acceptCommit p sid userId userName ts e now s1)"

subsubsection \<open>handleEndChatButton\<close>

text \<open>\<^verbatim>\<open>session.persistentUserId || persistentUserId\<close>\<close>

definition endTarget :: "active_session \<Rightarrow> string option \<Rightarrow> string option" where
  "endTarget a pid = (if persistentUserId a \<noteq> [] then Some (persistentUserId a) else truthyId pid)"

definition handleEndChatButton ::
  "string \<Rightarrow> string \<Rightarrow> string \<Rightarrow> string \<Rightarrow> env \<Rightarrow> int \<Rightarrow> world \<Rightarrow> reply \<times> world" where
  "handleEndChatButton identifier userId userName ts e now s =
     (let (found, s1) =
            (case getActiveSession identifier s of
               (Some a, s') \<Rightarrow> (Some (a, Some identifier, currentSessionId a), s')
             | (None, s') \<Rightarrow>
                 (case truthyId (getSessionMapping identifier s') of
                    None \<Rightarrow> (None, s')
                  | Some p \<Rightarrow>
                      (case getActiveSession p s' of
                         (None, s'') \<Rightarrow> (None, s'')
                       | (Some a, s'') \<Rightarrow> (Some (a, Some p, identifier), s''))))
      in case found of
           None \<Rightarrow>
             (\<lparr>status = ''session_not_found'',
               message = Some ''Session not found or already ended'', reply_threadTs = None\<rparr>, s1)
         | Some (a, pid, sid) \<Rightarrow>
             (let s2 = (case endTarget a pid of
                          None \<Rightarrow> s1
                        | Some k \<Rightarrow> stopSessionDurationUpdater k s1)
              in if \<not> slackOk e
                 then (\<lparr>status = ''error'', message = Some ''Error ending chat session'',
                        reply_threadTs = None\<rparr>,
                       consoleError ''Error in handleEndChatButton'' s2)
                 else
                   (let s3 = slackCall (ChatPostMessage (Some ts) (''Chat ended by '' @ userName))
                               (slackCall (ChatUpdate ts (''Chat Ended by '' @ userName)) s2);
                        s4 = dbWrite (LogAgentDisconnection sid ''agent_ended'') s3;
                        s5 = emit e sid ''agent_disconnected''
                               ''The Support Specialist has ended the conversation. You can continue chatting with our Assistant.''
                               s4;
                        s6 = (case endTarget a pid of
                                None \<Rightarrow> s5
                              | Some k \<Rightarrow> clearUserInactivityTimeout k (deleteActiveSession k s5))
                    in (\<lparr>status = ''ended'', message = None, reply_threadTs = None\<rparr>,
                        s6\<lparr>cachedSummaries := (cachedSummaries s6)(sid := None)\<rparr>))))"

subsubsection \<open>The callback of setHandoffTimeout\<close>

text \<open>
  The body of the function given to \<^verbatim>\<open>setTimeout\<close> by
  \<^verbatim>\<open>setHandoffTimeout(persistentUserId, sessionId)\<close>. It starts with an awaited
  write of the database log, so the rest of the body runs in whatever state
  the process has when that write returns. The body has three parts, after
  its comments: the update of the Slack message of the request, the reset of the
  session state with the events for the visitor, and the clean-up.
\<close>

definition timeoutNotifyAgents :: "string \<Rightarrow> env \<Rightarrow> world \<Rightarrow> world" where
  "timeoutNotifyAgents pid e s =
     (case getHandoffState pid s of
        None \<Rightarrow> s
      | Some h \<Rightarrow>
          if messageTs h = [] then s
          else if slackOk e
          then slackCall (ChatPostMessage (Some (messageTs h))
                            ''This handoff request has timed out after 10 minutes. The user has been returned to AI chat.'')
                 (slackCall (ChatUpdate (messageTs h)
                               (''Request Timed Out - Session '' @ sessionId h)) s)
          else consoleError ''Failed to post fallback timeout message''
                 (consoleError ''Slack error details''
                   (consoleError ''Error updating Slack message for timeout'' s)))"

text \<open>\<^verbatim>\<open>userState?.currentSessionId || sessionId\<close>\<close>

definition timeoutSession :: "string \<Rightarrow> string \<Rightarrow> world \<Rightarrow> string" where
  "timeoutSession pid sid s =
     (case getUserState pid s of
        None \<Rightarrow> sid
      | Some h \<Rightarrow> (case truthyId (map_of h ''currentSessionId'') of None \<Rightarrow> sid | Some c \<Rightarrow> c))"

definition timeoutResetState :: "string \<Rightarrow> string \<Rightarrow> env \<Rightarrow> int \<Rightarrow> world \<Rightarrow> world" where
  "timeoutResetState pid c e now s =
     (if c = [] then s
      else emit e c ''message''
             ''I apologise, but no one from our team is currently available to assist you. You can continue chatting with me, or try requesting human assistance again later.''
             (emit e c ''handoff_timeout''
                ''Our team is currently busy. You can continue chatting with our AI Assistant, or try requesting human assistance again later.''
                (setSessionState c SEEKING_HANDOFF (Some pid) now s)))"

definition timeoutCleanup :: "string \<Rightarrow> world \<Rightarrow> world" where
  "timeoutCleanup pid s =
     (let s1 = stopWaitingTimeUpdater pid (deleteTimer pid (deleteHandoffState pid s))
      in s1\<lparr>handoffTimeouts := (handoffTimeouts s1)(pid := None)\<rparr>)"

definition handoffTimeoutCallback :: "string \<Rightarrow> string \<Rightarrow> env \<Rightarrow> int \<Rightarrow> world \<Rightarrow> world" where
  "handoffTimeoutCallback pid sid e now s =
     (let s1 = timeoutNotifyAgents pid e (dbWrite (LogHandoffTimeout pid) s)
      in timeoutCleanup pid (timeoutResetState pid (timeoutSession pid sid s1) e now s1))"

text \<open>The event loop runs a scheduled timeout once and forgets it; a timer that was
  cleared does not run.\<close>

definition fireHandoffTimeout :: "nat \<Rightarrow> env \<Rightarrow> int \<Rightarrow> world \<Rightarrow> world" where
  "fireHandoffTimeout i e now s =
     (case scheduled s i of
        Some (HandoffTimeout pid sid) \<Rightarrow> handoffTimeoutCallback pid sid e now (clearTimer i s)
      | _ \<Rightarrow> s)"

subsection \<open>AIService.getChatResponse\<close>

datatype ai_response =
    BotText string
  | HandoffSuggestion string string
  | HumanConnectedNotice string

definition responseText :: "ai_response \<Rightarrow> string" where
  "responseText r =
     (case r of BotText m \<Rightarrow> m | HandoffSuggestion m su \<Rightarrow> m | HumanConnectedNotice m \<Rightarrow> m)"

definition getChatResponse ::
  "string \<Rightarrow> string option \<Rightarrow> env \<Rightarrow> int \<Rightarrow> world \<Rightarrow> (error + ai_response) \<times> world" where
  "getChatResponse sid pid e now s =
     (let (currentState, s1) = getSessionState sid pid now (updateSessionActivity sid pid now s)
      in if currentState = HUMAN_CONNECTED
         then (Inr (HumanConnectedNotice
                 ''You're currently connected to a human agent. They should respond shortly.''), s1)
         else
           (let s2 = (if currentState = LEAD_CAPTURE \<and> userAgreed e
                      then setSessionState sid CALLBACK_REQUEST pid now s1 else s1);
                (sessionState, s3) = getSessionState sid pid now s2
            in if \<not> responderOk e
               then (Inl ResponderError,
                     consoleError ''OpenAI API error''
                       (consoleError ''OpenAI API error in conversation service'' s3))
               else if sessionState = SEEKING_HANDOFF
               then
                 (let (analysis, s4) = analyzeResponseForHandoff sid pid e now s3
                  in if fst analysis = ''human_handoff''
                     then (Inr (HandoffSuggestion (botResponse e)
                             ''It seems like you might benefit from speaking with one of our office. Would you like me to connect you with someone from our team?''),
                           markHandoffOffered sid pid now s4)
                     else (Inr (BotText (botResponse e)), s4))
               else (Inr (BotText (botResponse e)), s3)))"

subsection \<open>ChatController\<close>

text \<open>
  The branch of \<^verbatim>\<open>handleChatMessage\<close> for the message of the callback button
  (\<^verbatim>\<open>"I would like to request a callback. Can you please help me schedule a call?"\<close>),
  reached when no agent session is active. Of the JSON reply the model keeps
  \<^verbatim>\<open>leadCaptureMode\<close>; an error of the responder becomes the reply 500 of the
  enclosing \<^verbatim>\<open>catch\<close>.
\<close>

definition callbackMessage :: string where
  "callbackMessage = ''I would like to request a callback. Can you please help me schedule a call?''"

definition handleCallbackRequest ::
  "string \<Rightarrow> string option \<Rightarrow> env \<Rightarrow> int \<Rightarrow> world \<Rightarrow> (error + bool) \<times> world" where
  "handleCallbackRequest sid pid e now s =
     (let (currentState, s1) = getSessionState sid pid now (dbWrite (TrackCallbackPressed sid) s);
          s2 = dbWrite (LogMessage sid ''user'' callbackMessage) s1
      in if currentState \<noteq> NORMAL_CHAT
         then
           (case getChatResponse sid pid e now (markCallbackRequested sid pid now s2) of
              (Inl err, s3) \<Rightarrow> (Inl err, consoleError ''Error processing request'' s3)
            | (Inr r, s3) \<Rightarrow> (Inr True, dbWrite (LogMessage sid ''bot'' (responseText r)) s3))
         else
           (case getChatResponse sid pid e now s2 of
              (Inl err, s3) \<Rightarrow> (Inl err, consoleError ''Error processing request'' s3)
            | (Inr r, s3) \<Rightarrow>
                (let (responseState, s4) =
                       getSessionState sid pid now (dbWrite (LogMessage sid ''bot'' (responseText r)) s3)
                 in (Inr (responseState = LEAD_CAPTURE), s4))))"

subsubsection \<open>handleLeadCapture\<close>

text \<open>\<^verbatim>\<open>String.prototype.includes\<close>, \<^verbatim>\<open>split\<close> with a non-empty separator and
  \<^verbatim>\<open>trim\<close>. A string is a list of characters with a code below 256; of these
  \<^verbatim>\<open>trim\<close> removes the space, the codes 9 to 13 and the no-break space.\<close>

fun includesStr :: "string \<Rightarrow> string \<Rightarrow> bool" where
  "includesStr sub [] = (sub = [])"
| "includesStr sub (c # cs) = (prefix sub (c # cs) \<or> includesStr sub cs)"

function splitFrom :: "string \<Rightarrow> string \<Rightarrow> string \<Rightarrow> string list" where
  "splitFrom sep cur [] = [rev cur]"
| "splitFrom sep cur (c # cs) =
     (if sep \<noteq> [] \<and> prefix sep (c # cs)
      then rev cur # splitFrom sep [] (drop (length sep) (c # cs))
      else splitFrom sep (c # cur) cs)"
  by pat_completeness auto
termination
  by (relation "measure (\<lambda>(sep, cur, rest). length rest)") auto

definition splitStr :: "string \<Rightarrow> string \<Rightarrow> string list" where
  "splitStr sep s = splitFrom sep [] s"

definition isSpace :: "char \<Rightarrow> bool" where
  "isSpace c = (c \<in> set [CHR '' '', CHR 0x09, CHR 0x0A, CHR 0x0B, CHR 0x0C, CHR 0x0D, CHR 0xA0])"

definition trim :: "string \<Rightarrow> string" where
  "trim s = rev (dropWhile isSpace (rev (dropWhile isSpace s)))"

definition leadMarker :: string where
  "leadMarker = ''LEAD_CAPTURED:''"

record lead =
  name :: string
  firstName :: string
  lastName :: string
  email :: string
  phone :: string
  lead_sessionId :: string

text \<open>The fields of the first line after the marker, or nothing.\<close>

definition leadParts :: "string \<Rightarrow> string list option" where
  "leadParts response =
     (if response = [] \<or> \<not> includesStr leadMarker response then None
      else case splitStr leadMarker response of
             x # dataString # rest \<Rightarrow>
               if dataString = [] then None
               else Some (map trim (splitStr '','' (trim (hd (splitStr [CHR 0x0A] dataString)))))
           | _ \<Rightarrow> None)"


subsection \<open>The process after start\<close>

definition initialWorld :: "bool \<Rightarrow> world" where
  "initialWorld connected =
     \<lparr>isConnected = connected, userHashes = (\<lambda>k. []), sessionMappings = Map.empty,
      handoffStates = Map.empty, timerStarts = Map.empty, activeSessionsHash = Map.empty,
      activeTtlKeys = Map.empty, sessionStateKeys = Map.empty, sessions = Map.empty,
      scheduled = Map.empty, nextTimerId = 0, updateIntervals = Map.empty,
      sessionDurationIntervals = Map.empty, handoffTimeouts = Map.empty,
      userInactivityTimeouts = Map.empty, connectionRequestTimes = Map.empty,
      sessionConversationHistory = Map.empty, cachedSummaries = Map.empty,
      waitingSessions = Map.empty, slackCalls = [], emitted = [], dbLog = [],
      consoleErrors = []\<rparr>"

subsection \<open>Views of the state used in the statements\<close>

text \<open>The session object a read for the pair of ids finds, if there is one: the
  record of the user in the store, else the in-memory entry of the session.\<close>

definition pickRecord ::
  "string option \<Rightarrow> (string \<rightharpoonup> nat \<times> session_data) \<Rightarrow> session_data option \<Rightarrow> session_data option" where
  "pickRecord k keys mem =
     (case k of
        None \<Rightarrow> mem
      | Some p \<Rightarrow> (case keys p of None \<Rightarrow> mem | Some (ttl, d) \<Rightarrow> Some d))"

definition recordOf :: "string \<Rightarrow> string option \<Rightarrow> world \<Rightarrow> session_data option" where
  "recordOf sid pid s = pickRecord (persistTarget pid s) (sessionStateKeys s) (sessions s sid)"

text \<open>The agent connection that \<^verbatim>\<open>getActiveSession\<close> reports: the field of the hash,
  if the store is connected and the marker key of the user exists.\<close>

definition pickActive :: "bool \<Rightarrow> nat option \<Rightarrow> active_session option \<Rightarrow> active_session option" where
  "pickActive connected marker field =
     (if connected then (case marker of None \<Rightarrow> None | Some t \<Rightarrow> field) else None)"

definition activeOf :: "string \<Rightarrow> world \<Rightarrow> active_session option" where
  "activeOf p s = pickActive (isConnected s) (activeTtlKeys s p) (activeSessionsHash s p)"

text \<open>The user key under which \<^verbatim>\<open>getSessionState\<close> finds an agent connection, the
  session object it leaves behind and returns the state of.\<close>

definition pickConnected ::
  "string option \<Rightarrow> (string \<Rightarrow> active_session option) \<Rightarrow> string option" where
  "pickConnected k act =
     (case k of None \<Rightarrow> None | Some p \<Rightarrow> (case act p of None \<Rightarrow> None | Some a \<Rightarrow> Some p))"

definition connectedKey :: "string option \<Rightarrow> world \<Rightarrow> string option" where
  "connectedKey pid s = pickConnected (persistTarget pid s) (\<lambda>p. activeOf p s)"

definition overlayConnected :: "string option \<Rightarrow> session_data \<Rightarrow> session_data" where
  "overlayConnected k d =
     (case k of
        None \<Rightarrow> d
      | Some p \<Rightarrow> d\<lparr>state := HUMAN_CONNECTED, session_persistentUserId := Some p\<rparr>)"

definition afterRead :: "string \<Rightarrow> string option \<Rightarrow> int \<Rightarrow> world \<Rightarrow> session_data" where
  "afterRead sid pid t s = overlayConnected (connectedKey pid s) (fst (getSession sid pid t s))"

text \<open>Two states agree on everything that the operations of \<^verbatim>\<open>SessionService\<close> leave
  alone: all but the session objects, the hash of the agent connections (a read
  deletes a field without marker key) and the error log.\<close>

definition sameRest :: "world \<Rightarrow> world \<Rightarrow> bool" where
  "sameRest s s' =
     (isConnected s' = isConnected s \<and> userHashes s' = userHashes s \<and>
      sessionMappings s' = sessionMappings s \<and> handoffStates s' = handoffStates s \<and>
      timerStarts s' = timerStarts s \<and> activeTtlKeys s' = activeTtlKeys s \<and>
      scheduled s' = scheduled s \<and> nextTimerId s' = nextTimerId s \<and>
      updateIntervals s' = updateIntervals s \<and>
      sessionDurationIntervals s' = sessionDurationIntervals s \<and>
      handoffTimeouts s' = handoffTimeouts s \<and>
      userInactivityTimeouts s' = userInactivityTimeouts s \<and>
      connectionRequestTimes s' = connectionRequestTimes s \<and>
      sessionConversationHistory s' = sessionConversationHistory s \<and>
      cachedSummaries s' = cachedSummaries s \<and> waitingSessions s' = waitingSessions s \<and>
      slackCalls s' = slackCalls s \<and> emitted s' = emitted s \<and> dbLog s' = dbLog s)"

text \<open>Two states agree on what the resolution of a button identifier reads.\<close>

definition sameIdentity :: "world \<Rightarrow> world \<Rightarrow> bool" where
  "sameIdentity s s' =
     (isConnected s' = isConnected s \<and> userHashes s' = userHashes s \<and>
      sessionMappings s' = sessionMappings s)"

text \<open>Two states agree on the pending requests.\<close>

definition samePending :: "world \<Rightarrow> world \<Rightarrow> bool" where
  "samePending s s' = (isConnected s' = isConnected s \<and> handoffStates s' = handoffStates s)"

text \<open>The connection object that \<^verbatim>\<open>handleAcceptButton\<close> stores.\<close>

definition connectionOf ::
  "string \<Rightarrow> string \<Rightarrow> string \<Rightarrow> string \<Rightarrow> string \<Rightarrow> int \<Rightarrow> active_session" where
  "connectionOf p sid userId userName ts now =
     \<lparr>agentId = userId, agentName = userName, threadTs = ts, originalMessageTs = ts,
      connectedAt = now, persistentUserId = p, currentSessionId = sid\<rparr>"

text \<open>Two states agree on what the session reads depend on, and on what the reads of
  the agent connections depend on.\<close>

definition sameSessions :: "world \<Rightarrow> world \<Rightarrow> bool" where
  "sameSessions s s' =
     (isConnected s' = isConnected s \<and> sessionStateKeys s' = sessionStateKeys s \<and>
      sessions s' = sessions s)"

definition sameActive :: "world \<Rightarrow> world \<Rightarrow> bool" where
  "sameActive s s' =
     (isConnected s' = isConnected s \<and> activeTtlKeys s' = activeTtlKeys s \<and>
      activeSessionsHash s' = activeSessionsHash s)"

subsection \<open>Example states\<close>

text \<open>A process without store that holds one session in memory, and the session of a
  visitor whose live handoff was accepted at the time \<open>T\<close>.\<close>

definition inMemoryWorld :: "string \<Rightarrow> session_data \<Rightarrow> world" where
  "inMemoryWorld sid d = (initialWorld False)\<lparr>sessions := [sid \<mapsto> d]\<rparr>"

definition postHandoffSession :: "int \<Rightarrow> session_data" where
  "postHandoffSession T =
     \<lparr>state = NORMAL_CHAT, lastActivity = T, handoffOffered = False,
      lastHandoffTime = Some T, session_persistentUserId = None\<rparr>"

text \<open>Collaborators that all answer.\<close>

definition liveEnv :: env where
  "liveEnv =
     \<lparr>slackOk = True, postedTs = ''1700000000.000100'', ioPresent = True, leadSaved = True,
      botResponse = ''Happy to help.'', summaryText = ''Asked about plan management.'',
      shouldOffer = False, offerReason = ''No handoff triggers detected'', responderOk = True,
      userAgreed = False, isoNow = ''2026-01-01T00:00:00.000Z''\<rparr>"

text \<open>The visitor \<^verbatim>\<open>u1\<close> asked for an agent from the session \<^verbatim>\<open>s1\<close> at the time 1000,
  with the store connected.\<close>

definition waitingWorld :: world where
  "waitingWorld = snd (requestHumanAgent ''s1'' [] (Some ''u1'') liveEnv 1000 (initialWorld True))"

text \<open>The agent \<^verbatim>\<open>alice\<close> accepted that request at the time 2000.\<close>

definition connectedWorld :: world where
  "connectedWorld =
     snd (handleAcceptButton ''u1'' ''A1'' ''alice'' ''1700000000.000100'' liveEnv 2000 waitingWorld)"

text \<open>Nobody accepted: the timeout of the request fired at the time 601000.\<close>

definition timedOutWorld :: world where
  "timedOutWorld = fireHandoffTimeout 0 liveEnv 601000 waitingWorld"

text \<open>Two agents clicked the accept button of that request and both clicks have been
  checked, while neither has written its connection yet.\<close>

definition bothCheckedWorld :: world where
  "bothCheckedWorld =
     snd (acceptCheck ''u1'' ''1700000000.000100'' liveEnv
           (snd (acceptCheck ''u1'' ''1700000000.000100'' liveEnv waitingWorld)))"

text \<open>The agent ended that conversation; and, before the end, the state of the session
  was read while the agent was connected.\<close>

definition endedWorld :: world where
  "endedWorld = snd (handleEndChatButton ''u1'' ''A1'' ''alice'' ''1700000000.000100'' liveEnv 5000 connectedWorld)"

definition stateReadWorld :: world where
  "stateReadWorld = snd (getSessionState ''s1'' (Some ''u1'') 2500 connectedWorld)"

text \<open>Two states agree on what a published request consists of: the messages sent to
  the agents' channel, the timers, and the users that have a pending request.\<close>

definition sameRequests :: "world \<Rightarrow> world \<Rightarrow> bool" where
  "sameRequests s s' =
     (slackCalls s' = slackCalls s \<and> scheduled s' = scheduled s \<and>
      nextTimerId s' = nextTimerId s \<and> handoffTimeouts s' = handoffTimeouts s \<and>
      updateIntervals s' = updateIntervals s \<and> timerStarts s' = timerStarts s \<and>
      waitingSessions s' = waitingSessions s \<and>
      dom (handoffStates s') = dom (handoffStates s))"

text \<open>The visitor \<^verbatim>\<open>u1\<close> reloaded the page while waiting and asked again, from the
  session \<^verbatim>\<open>s2\<close>.\<close>

definition reloadedWorld :: world where
  "reloadedWorld = snd (requestHumanAgent ''s2'' [] (Some ''u1'') liveEnv 1500 waitingWorld)"

text \<open>Two visitors whose request is known to the process only: \<^verbatim>\<open>u1\<close> asked while the
  store was not connected, and a visitor without persistent id asked from the
  session \<^verbatim>\<open>s1\<close>.\<close>

definition offlineWaitingWorld :: world where
  "offlineWaitingWorld = snd (requestHumanAgent ''s1'' [] (Some ''u1'') liveEnv 1000 (initialWorld False))"

definition anonymousWaitingWorld :: world where
  "anonymousWaitingWorld = snd (requestHumanAgent ''s1'' [] None liveEnv 1000 (initialWorld True))"

text \<open>The shape of a response that contains the marker: \<open>pre\<close> is the text before the
  first marker, and \<open>line\<close> is what follows that marker up to the next line feed, the
  next marker or the end of the response.\<close>

definition markerLine :: "string \<Rightarrow> string \<Rightarrow> string \<Rightarrow> bool" where
  "markerLine pre line tail =
     (\<not> includesStr leadMarker pre \<and> \<not> includesStr leadMarker line \<and> CHR 0x0A \<notin> set line \<and>
      (tail = [] \<or> hd tail = CHR 0x0A \<or> prefix leadMarker tail))"

section \<open>Properties\<close>

lemmas SessionState_defs =
  SEEKING_HANDOFF_def CALLBACK_REQUEST_def LEAD_CAPTURE_def NORMAL_CHAT_def HUMAN_CONNECTED_def

lemma persistKey_SomeD: "persistKey pid c = Some p \<Longrightarrow> pid = Some p \<and> p \<noteq> [] \<and> c"
  by (auto simp: persistKey_def split: option.splits if_splits)

lemma persistTarget_SomeD: "persistTarget pid s = Some p \<Longrightarrow> pid = Some p \<and> p \<noteq> [] \<and> isConnected s"
  unfolding persistTarget_def by (rule persistKey_SomeD)

lemma persistKey_Some [simp]: "p \<noteq> [] \<Longrightarrow> persistKey (Some p) True = Some p"
  by (simp add: persistKey_def)

lemma isConnected_saveSessionToRedis [simp]: "isConnected (saveSessionToRedis p d s) = isConnected s"
  by (simp add: saveSessionToRedis_def)
lemma isConnected_assignSession [simp]: "isConnected (assignSession sid d s) = isConnected s"
  by (simp add: assignSession_def)
lemma isConnected_saveIfPersistent [simp]: "isConnected (saveIfPersistent pid d s) = isConnected s"
  by (simp add: saveIfPersistent_def split: option.splits)
lemma isConnected_getSessionInMemory [simp]: "isConnected (snd (getSessionInMemory sid pid t s)) = isConnected s"
  by (simp add: getSessionInMemory_def Let_def persistTarget_def split: option.splits)
lemma isConnected_getSession [simp]: "isConnected (snd (getSession sid pid t s)) = isConnected s"
  by (simp add: getSession_def split: option.splits)
lemma isConnected_getActiveSession [simp]: "isConnected (snd (getActiveSession p s)) = isConnected s"
  by (simp add: getActiveSession_def split: option.splits)
lemma isConnected_getSessionState [simp]: "isConnected (snd (getSessionState sid pid t s)) = isConnected s"
  by (simp add: getSessionState_def split_def Let_def split: option.splits)
lemma isConnected_setSessionState [simp]: "isConnected (setSessionState sid st pid t s) = isConnected s"
  by (simp add: setSessionState_def split_def Let_def)


lemma getSession_fst:
  "fst (getSession sid pid t s) = (case recordOf sid pid s of None \<Rightarrow> defaultSession t | Some d \<Rightarrow> d)"
proof (cases "persistTarget pid s")
  case None
  then show ?thesis
    by (simp add: getSession_def getSessionInMemory_def recordOf_def pickRecord_def Let_def
        split: option.splits)
next
  case (Some p)
  then have "isConnected s" by (simp add: persistTarget_SomeD)
  with Some show ?thesis
    by (simp add: getSession_def getSessionInMemory_def recordOf_def pickRecord_def
        getSessionFromRedis_def Let_def split: option.splits)
qed

lemma recordOf_getSession:
  "recordOf sid pid (snd (getSession sid pid t s)) = Some (fst (getSession sid pid t s))"
proof (cases "persistTarget pid s")
  case None
  then show ?thesis
    by (simp add: getSession_def getSessionInMemory_def recordOf_def pickRecord_def Let_def
        persistTarget_def split: option.splits)
next
  case (Some p)
  then have c: "isConnected s" by (simp add: persistTarget_SomeD)
  with Some show ?thesis
    by (simp add: getSession_def getSessionInMemory_def recordOf_def pickRecord_def
        getSessionFromRedis_def Let_def saveSessionToRedis_def persistTarget_def
        split: option.splits)
qed

lemma recordOf_write:
  "recordOf sid pid (saveIfPersistent pid d (assignSession sid d s)) = Some d"
proof (cases "persistTarget pid s")
  case None
  then show ?thesis
    by (simp add: recordOf_def pickRecord_def saveIfPersistent_def assignSession_def
        persistTarget_def)
next
  case (Some p)
  then have c: "isConnected s" by (simp add: persistTarget_SomeD)
  with Some show ?thesis
    by (simp add: recordOf_def pickRecord_def saveIfPersistent_def assignSession_def
        saveSessionToRedis_def persistTarget_def)
qed

lemma getActiveSession_fst: "fst (getActiveSession p s) = activeOf p s"
  by (simp add: activeOf_def pickActive_def getActiveSession_def split: option.splits)

lemma getActiveSession_snd:
  "snd (getActiveSession p s) =
     s\<lparr>activeSessionsHash := activeSessionsHash (snd (getActiveSession p s))\<rparr>"
  by (simp add: getActiveSession_def split: option.splits)

lemma getActiveSession_Some:
  "activeOf p s = Some a \<Longrightarrow> getActiveSession p s = (Some a, s)"
  by (simp add: activeOf_def pickActive_def getActiveSession_def split: option.splits if_splits)

lemma recordOf_activeSessionsHash [simp]:
  "recordOf sid pid (s\<lparr>activeSessionsHash := h\<rparr>) = recordOf sid pid s"
  by (simp add: recordOf_def persistTarget_def)

lemma recordOf_getActiveSession [simp]:
  "recordOf sid pid (snd (getActiveSession p s)) = recordOf sid pid s"
  by (subst getActiveSession_snd) (rule recordOf_activeSessionsHash)

lemma activeOf_getActiveSession [simp]:
  "activeOf q (snd (getActiveSession p s)) = activeOf q s"
  by (auto simp: activeOf_def pickActive_def getActiveSession_def split: option.splits)

lemma activeOf_assignSession [simp]: "activeOf q (assignSession sid d s) = activeOf q s"
  by (simp add: activeOf_def assignSession_def)

lemma activeOf_saveSessionToRedis [simp]: "activeOf q (saveSessionToRedis p d s) = activeOf q s"
  by (simp add: activeOf_def saveSessionToRedis_def)

lemma activeOf_saveIfPersistent [simp]: "activeOf q (saveIfPersistent pid d s) = activeOf q s"
  by (simp add: saveIfPersistent_def split: option.splits)

lemma activeOf_getSessionInMemory [simp]:
  "activeOf q (snd (getSessionInMemory sid pid t s)) = activeOf q s"
  by (simp add: getSessionInMemory_def Let_def split: option.splits)
    (simp add: activeOf_def)

lemma activeOf_getSession [simp]: "activeOf q (snd (getSession sid pid t s)) = activeOf q s"
  by (simp add: getSession_def split: option.splits)
    (simp add: activeOf_def)

lemma getSession_after_getActiveSession [simp]:
  "fst (getSession sid pid t (snd (getActiveSession p s))) = fst (getSession sid pid t s)"
  by (simp add: getSession_fst)

lemma saveIfPersistent_Some:
  "persistTarget pid s = Some p \<Longrightarrow> saveIfPersistent pid d s = saveSessionToRedis p d s"
  by (simp add: saveIfPersistent_def)

lemma persistTarget_frames [simp]:
  "persistTarget pid (saveSessionToRedis p d s) = persistTarget pid s"
  "persistTarget pid (assignSession sid d s) = persistTarget pid s"
  "persistTarget pid (saveIfPersistent pid' d s) = persistTarget pid s"
  "persistTarget pid (snd (getSessionInMemory sid pid' t s)) = persistTarget pid s"
  "persistTarget pid (snd (getSession sid pid' t s)) = persistTarget pid s"
  "persistTarget pid (snd (getActiveSession p s)) = persistTarget pid s"
  "persistTarget pid (snd (getSessionState sid pid' t s)) = persistTarget pid s"
  "persistTarget pid (setSessionState sid st pid' t s) = persistTarget pid s"
  by (simp_all add: persistTarget_def)

lemma connectedKey_None:
  "persistTarget pid s = None \<Longrightarrow> connectedKey pid s = None"
  by (simp add: connectedKey_def pickConnected_def)

lemma connectedKey_inactive:
  "persistTarget pid s = Some p \<Longrightarrow> activeOf p s = None \<Longrightarrow> connectedKey pid s = None"
  by (simp add: connectedKey_def pickConnected_def)

lemma connectedKey_active:
  "persistTarget pid s = Some p \<Longrightarrow> activeOf p s = Some a \<Longrightarrow> connectedKey pid s = Some p"
  by (simp add: connectedKey_def pickConnected_def)

lemma connectedKey_SomeD:
  "connectedKey pid s = Some p \<Longrightarrow> persistTarget pid s = Some p \<and> activeOf p s \<noteq> None"
  by (auto simp: connectedKey_def pickConnected_def split: option.splits)

lemma connectedKey_NoneD:
  "connectedKey pid s = None \<Longrightarrow>
     persistTarget pid s = None \<or> (\<exists>p. persistTarget pid s = Some p \<and> activeOf p s = None)"
  by (auto simp: connectedKey_def pickConnected_def split: option.splits)

lemma getSessionState_None:
  "persistTarget pid s = None \<Longrightarrow>
     getSessionState sid pid t s = (state (fst (getSession sid pid t s)), snd (getSession sid pid t s))"
  by (simp add: getSessionState_def split_def Let_def)

lemma getSessionState_inactive:
  "persistTarget pid s = Some p \<Longrightarrow> activeOf p s = None \<Longrightarrow>
     getSessionState sid pid t s =
       (state (fst (getSession sid pid t s)), snd (getSession sid pid t (snd (getActiveSession p s))))"
proof -
  assume a: "persistTarget pid s = Some p" "activeOf p s = None"
  obtain x s1 where g: "getActiveSession p s = (x, s1)" by (cases "getActiveSession p s")
  with a have "x = None" using getActiveSession_fst[of p s] by simp
  moreover from g have s1: "s1 = snd (getActiveSession p s)" by simp
  moreover have "fst (getSession sid pid t s1) = fst (getSession sid pid t s)"
    unfolding s1 by simp
  ultimately show ?thesis using a g
    by (simp add: getSessionState_def split_def Let_def)
qed

lemma getSessionState_active:
  "persistTarget pid s = Some p \<Longrightarrow> activeOf p s = Some a \<Longrightarrow>
     getSessionState sid pid t s =
       (HUMAN_CONNECTED,
        saveSessionToRedis p
          ((fst (getSession sid pid t s))\<lparr>state := HUMAN_CONNECTED, session_persistentUserId := Some p\<rparr>)
          (assignSession sid
            ((fst (getSession sid pid t s))\<lparr>state := HUMAN_CONNECTED, session_persistentUserId := Some p\<rparr>)
            (snd (getSession sid pid t s))))"
  by (simp add: getSessionState_def split_def Let_def getActiveSession_Some)

lemma getSessionState_fst:
  "fst (getSessionState sid pid t s) = state (afterRead sid pid t s)"
proof (cases "persistTarget pid s")
  case None
  then show ?thesis
    by (simp add: getSessionState_None afterRead_def connectedKey_None overlayConnected_def)
next
  case (Some p)
  then show ?thesis
    by (cases "activeOf p s")
      (simp_all add: getSessionState_inactive getSessionState_active afterRead_def
        connectedKey_inactive connectedKey_active overlayConnected_def)
qed

lemma recordOf_getSessionState:
  "recordOf sid pid (snd (getSessionState sid pid t s)) = Some (afterRead sid pid t s)"
proof (cases "persistTarget pid s")
  case None
  then show ?thesis
    by (simp add: getSessionState_None afterRead_def recordOf_getSession connectedKey_None
        overlayConnected_def)
next
  case (Some p)
  show ?thesis
  proof (cases "activeOf p s")
    case None
    have "recordOf sid pid (snd (getSession sid pid t (snd (getActiveSession p s)))) =
            Some (fst (getSession sid pid t (snd (getActiveSession p s))))"
      by (rule recordOf_getSession)
    with None Some show ?thesis
      by (simp add: getSessionState_inactive afterRead_def connectedKey_inactive
          overlayConnected_def)
  next
    case (Some a)
    with \<open>persistTarget pid s = Some p\<close> show ?thesis
      by (simp add: getSessionState_active afterRead_def connectedKey_active overlayConnected_def
          saveIfPersistent_Some[symmetric, of pid _ p] recordOf_write)
  qed
qed

lemma activeOf_getSessionState [simp]:
  "activeOf q (snd (getSessionState sid pid t s)) = activeOf q s"
proof (cases "persistTarget pid s")
  case None
  then show ?thesis by (simp add: getSessionState_None)
next
  case (Some p)
  then show ?thesis
    by (cases "activeOf p s")
      (simp_all add: getSessionState_inactive getSessionState_active)
qed

lemma recordOf_setSessionState:
  "st \<in> set validStates \<Longrightarrow>
   recordOf sid pid (setSessionState sid st pid now s) =
     Some ((afterRead sid pid now s)\<lparr>state := st, lastActivity := now\<rparr>)"
  by (simp add: setSessionState_def split_def Let_def recordOf_write getSession_fst
      recordOf_getSessionState)

lemma activeOf_setSessionState [simp]:
  "activeOf q (setSessionState sid st pid now s) = activeOf q s"
  by (simp add: setSessionState_def split_def Let_def)
    (simp add: activeOf_def)

lemma getSession_fields:
  "state (fst (getSession sid pid t s)) = (case recordOf sid pid s of None \<Rightarrow> SEEKING_HANDOFF | Some d \<Rightarrow> state d)"
  "handoffOffered (fst (getSession sid pid t s)) = (case recordOf sid pid s of None \<Rightarrow> False | Some d \<Rightarrow> handoffOffered d)"
  "lastHandoffTime (fst (getSession sid pid t s)) = (case recordOf sid pid s of None \<Rightarrow> None | Some d \<Rightarrow> lastHandoffTime d)"
  by (simp_all add: getSession_fst defaultSession_def split: option.splits)

lemma overlayConnected_fields [simp]:
  "handoffOffered (overlayConnected k d) = handoffOffered d"
  "lastHandoffTime (overlayConnected k d) = lastHandoffTime d"
  "lastActivity (overlayConnected k d) = lastActivity d"
  "state (overlayConnected k d) = (if k = None then state d else HUMAN_CONNECTED)"
  by (simp_all add: overlayConnected_def split: option.splits)

lemma afterRead_state_time:
  "state (afterRead sid pid t s) = state (afterRead sid pid t' s)"
  by (simp add: afterRead_def getSession_fields)

lemma connectedKey_getSession [simp]:
  "connectedKey pid (snd (getSession sid pid' t s)) = connectedKey pid s"
  by (simp add: connectedKey_def)

lemma connectedKey_getSessionState [simp]:
  "connectedKey pid (snd (getSessionState sid pid' t s)) = connectedKey pid s"
  by (simp add: connectedKey_def)

lemma connectedKey_setSessionState [simp]:
  "connectedKey pid (setSessionState sid st pid' t s) = connectedKey pid s"
  by (simp add: connectedKey_def)

lemma views_consoleErrors [simp]:
  "recordOf sid pid (s\<lparr>consoleErrors := x\<rparr>) = recordOf sid pid s"
  "activeOf p (s\<lparr>consoleErrors := x\<rparr>) = activeOf p s"
  "connectedKey pid (s\<lparr>consoleErrors := x\<rparr>) = connectedKey pid s"
  by (simp_all add: recordOf_def persistTarget_def activeOf_def connectedKey_def)

lemma afterRead_consoleErrors [simp]:
  "afterRead sid pid t (s\<lparr>consoleErrors := x\<rparr>) = afterRead sid pid t s"
  by (simp add: afterRead_def getSession_fst)

text \<open>
  Claim C8. \<^verbatim>\<open>setSessionState\<close> with a value that is not one of the five states of
  \<^verbatim>\<open>SessionState\<close> is rejected: nothing of the process state changes, so the state
  read for the visitor afterwards is the one read before, and the rejection is
  written to the error log. The call itself returns normally.
\<close>

theorem setSessionState_rejects_unknown_state:
  "st \<notin> set validStates \<longrightarrow>
     stored (setSessionState sid st pid now s) = stored s \<and>
     consoleErrors (setSessionState sid st pid now s) = consoleErrors s @ [''Invalid state: '' @ st] \<and>
     fst (getSessionState sid pid t (setSessionState sid st pid now s)) =
       fst (getSessionState sid pid t s)"
  by (simp add: setSessionState_def stored_def getSessionState_fst)

theorem setSessionState_rejects_unknown_state_witness:
  "''paused'' \<notin> set validStates \<and>
     stored (setSessionState ''s1'' ''paused'' (Some ''u1'') 5 (initialWorld True)) =
       stored (initialWorld True) \<and>
     consoleErrors (setSessionState ''s1'' ''paused'' (Some ''u1'') 5 (initialWorld True)) =
       [''Invalid state: paused''] \<and>
     fst (getSessionState ''s1'' (Some ''u1'') 9 (setSessionState ''s1'' ''paused'' (Some ''u1'') 5 (initialWorld True))) =
       fst (getSessionState ''s1'' (Some ''u1'') 9 (initialWorld True))"
  using setSessionState_rejects_unknown_state[of "''paused''" "''s1''" "Some ''u1''" 5 "initialWorld True" 9]
  by (simp add: validStates_def SessionState_defs initialWorld_def)

lemma canRequest_eq:
  "fst (canRequestHandoffAgain sid pid now s) =
     (case lastHandoffTime (fst (getSession sid pid t0 s)) of None \<Rightarrow> True
      | Some T \<Rightarrow> T = 0 \<or> now - T \<ge> oneHourMs)"
  by (auto simp: canRequestHandoffAgain_def split_def Let_def getSession_fields split: option.splits)

lemma canRequest_snd: "snd (canRequestHandoffAgain sid pid now s) = snd (getSession sid pid now s)"
  by (simp add: canRequestHandoffAgain_def split_def Let_def split: option.splits)

lemma getSession_idem:
  "fst (getSession sid pid t (snd (getSession sid pid t' s))) = fst (getSession sid pid t' s)"
  by (simp add: getSession_fst[of sid pid t] recordOf_getSession)

lemma afterRead_getSession:
  "afterRead sid pid t (snd (getSession sid pid t' s)) = afterRead sid pid t' s"
  by (simp add: afterRead_def getSession_idem)

lemma getSession_after_getSessionState:
  "fst (getSession sid pid t (snd (getSessionState sid pid t' s))) = afterRead sid pid t' s"
  by (simp add: getSession_fst[of sid pid t] recordOf_getSessionState)

lemma overlayConnected_idem [simp]:
  "overlayConnected k (overlayConnected k d) = overlayConnected k d"
  by (simp add: overlayConnected_def split: option.splits)

lemma afterRead_getSessionState:
  "afterRead sid pid t (snd (getSessionState sid pid t' s)) = afterRead sid pid t' s"
  by (simp add: afterRead_def[of sid pid t] getSession_after_getSessionState)
    (simp add: afterRead_def)

lemma getSession_after_setSessionState:
  "st \<in> set validStates \<Longrightarrow>
     fst (getSession sid pid t (setSessionState sid st pid now s)) =
       (afterRead sid pid now s)\<lparr>state := st, lastActivity := now\<rparr>"
  by (simp add: getSession_fst[of sid pid t] recordOf_setSessionState)

lemma stateRead_setSessionState:
  "st \<in> set validStates \<Longrightarrow>
     fst (getSessionState sid pid t (setSessionState sid st pid now s)) =
       (if connectedKey pid s = None then st else HUMAN_CONNECTED)"
  by (simp add: getSessionState_fst afterRead_def[of sid pid t] getSession_after_setSessionState)

lemma stateRead_HUMAN_CONNECTED:
  "connectedKey pid s \<noteq> None \<Longrightarrow> fst (getSessionState sid pid t s) = HUMAN_CONNECTED"
  by (auto simp: getSessionState_fst afterRead_def)

lemma stateRead_not_connected:
  "fst (getSessionState sid pid t s) \<noteq> HUMAN_CONNECTED \<Longrightarrow> connectedKey pid s = None"
  by (cases "connectedKey pid s") (auto simp: getSessionState_fst afterRead_def)

lemma stateRead_getSession:
  "fst (getSessionState sid pid t (snd (getSession sid pid t' s))) = fst (getSessionState sid pid t s)"
  by (simp add: getSessionState_fst afterRead_getSession afterRead_state_time[of sid pid t' s t])

lemma stateRead_time:
  "fst (getSessionState sid pid t s) = fst (getSessionState sid pid t' s)"
  by (simp add: getSessionState_fst afterRead_state_time[of sid pid t s t'])

lemma canRequest_after_read:
  "fst (canRequestHandoffAgain sid pid now (snd (getSessionState sid pid t s))) =
     fst (canRequestHandoffAgain sid pid now s)"
  by (simp add: canRequest_eq[of sid pid now _ t] getSession_after_getSessionState afterRead_def)

lemma analyzeAfterSwitch_snd:
  "snd (analyzeAfterSwitch sid pid e now s) = snd (getSession sid pid now s)"
  by (simp add: analyzeAfterSwitch_def hasHandoffBeenOffered_def split_def Let_def)

lemma SEEKING_valid [simp]: "SEEKING_HANDOFF \<in> set validStates"
  by (simp add: validStates_def)

lemma states_distinct [simp]:
  "NORMAL_CHAT \<noteq> HUMAN_CONNECTED" "NORMAL_CHAT \<noteq> CALLBACK_REQUEST" "NORMAL_CHAT \<noteq> LEAD_CAPTURE"
  "NORMAL_CHAT \<noteq> SEEKING_HANDOFF" "SEEKING_HANDOFF \<noteq> HUMAN_CONNECTED"
  "CALLBACK_REQUEST \<noteq> HUMAN_CONNECTED" "LEAD_CAPTURE \<noteq> HUMAN_CONNECTED"
  "SEEKING_HANDOFF \<noteq> CALLBACK_REQUEST" "SEEKING_HANDOFF \<noteq> LEAD_CAPTURE"
  "CALLBACK_REQUEST \<noteq> LEAD_CAPTURE"
  by (simp_all add: SessionState_defs)

lemma analyze_NORMAL_CHAT:
  assumes "fst (getSessionState sid pid now s) = NORMAL_CHAT"
  shows "analyzeResponseForHandoff sid pid e now s =
     (if fst (canRequestHandoffAgain sid pid now s)
      then analyzeAfterSwitch sid pid e now
             (setSessionState sid SEEKING_HANDOFF pid now
               (snd (canRequestHandoffAgain sid pid now (snd (getSessionState sid pid now s)))))
      else ((''continue_ai'', ''NORMAL_CHAT state - handoff cooldown active''),
            snd (canRequestHandoffAgain sid pid now (snd (getSessionState sid pid now s)))))"
  using assms
  by (simp add: analyzeResponseForHandoff_def split_def Let_def canRequest_after_read)

text \<open>
  Claim C3. For a visitor whose session holds the time \<open>T\<close> of the last live handoff
  (a clock reading, which is not 0), \<^verbatim>\<open>canRequestHandoffAgain\<close> answers no at
  \<open>T\<close> plus 59 minutes and yes at \<open>T\<close> plus 61 minutes; without a recorded time it
  answers yes. In \<^verbatim>\<open>analyzeResponseForHandoff\<close>, when the state read is NORMAL_CHAT and
  the hour has passed, the state is set to SEEKING_HANDOFF and the rules after the
  \<^verbatim>\<open>switch\<close> are evaluated in that state; when the hour has not passed the answer is
  that the cooldown is active and the state stays NORMAL_CHAT.
\<close>

theorem cooldown_one_hour:
  "(lastHandoffTime (fst (getSession sid pid t0 s)) = Some T \<and> T \<noteq> 0 \<longrightarrow>
      \<not> fst (canRequestHandoffAgain sid pid (T + 59 * 60 * 1000) s) \<and>
      fst (canRequestHandoffAgain sid pid (T + 61 * 60 * 1000) s)) \<and>
   (lastHandoffTime (fst (getSession sid pid t0 s)) = None \<longrightarrow>
      fst (canRequestHandoffAgain sid pid now s)) \<and>
   (fst (getSessionState sid pid now s) = NORMAL_CHAT \<and> fst (canRequestHandoffAgain sid pid now s) \<longrightarrow>
      analyzeResponseForHandoff sid pid e now s =
        analyzeAfterSwitch sid pid e now
          (setSessionState sid SEEKING_HANDOFF pid now
            (snd (canRequestHandoffAgain sid pid now (snd (getSessionState sid pid now s))))) \<and>
      fst (getSessionState sid pid now
            (setSessionState sid SEEKING_HANDOFF pid now
              (snd (canRequestHandoffAgain sid pid now (snd (getSessionState sid pid now s)))))) =
        SEEKING_HANDOFF \<and>
      fst (getSessionState sid pid now (snd (analyzeResponseForHandoff sid pid e now s))) =
        SEEKING_HANDOFF) \<and>
   (fst (getSessionState sid pid now s) = NORMAL_CHAT \<and> \<not> fst (canRequestHandoffAgain sid pid now s) \<longrightarrow>
      fst (analyzeResponseForHandoff sid pid e now s) =
        (''continue_ai'', ''NORMAL_CHAT state - handoff cooldown active'') \<and>
      fst (getSessionState sid pid now (snd (analyzeResponseForHandoff sid pid e now s))) =
        NORMAL_CHAT)"
proof (intro conjI impI)
  assume a: "lastHandoffTime (fst (getSession sid pid t0 s)) = Some T \<and> T \<noteq> 0"
  then show "\<not> fst (canRequestHandoffAgain sid pid (T + 59 * 60 * 1000) s)"
    by (simp add: canRequest_eq[of sid pid _ s t0] oneHourMs_def)
  from a show "fst (canRequestHandoffAgain sid pid (T + 61 * 60 * 1000) s)"
    by (simp add: canRequest_eq[of sid pid _ s t0] oneHourMs_def)
next
  assume "lastHandoffTime (fst (getSession sid pid t0 s)) = None"
  then show "fst (canRequestHandoffAgain sid pid now s)"
    by (simp add: canRequest_eq[of sid pid _ s t0])
next
  assume a: "fst (getSessionState sid pid now s) = NORMAL_CHAT \<and> fst (canRequestHandoffAgain sid pid now s)"
  let ?s' = "setSessionState sid SEEKING_HANDOFF pid now
               (snd (canRequestHandoffAgain sid pid now (snd (getSessionState sid pid now s))))"
  from a have k: "connectedKey pid s = None"
    by (intro stateRead_not_connected[of sid pid now]) simp
  show r: "fst (getSessionState sid pid now ?s') = SEEKING_HANDOFF"
    by (simp add: stateRead_setSessionState canRequest_snd k)
  from a show eq: "analyzeResponseForHandoff sid pid e now s = analyzeAfterSwitch sid pid e now ?s'"
    by (simp add: analyze_NORMAL_CHAT)
  from r show "fst (getSessionState sid pid now (snd (analyzeResponseForHandoff sid pid e now s))) =
        SEEKING_HANDOFF"
    by (simp add: eq analyzeAfterSwitch_snd stateRead_getSession)
next
  assume a: "fst (getSessionState sid pid now s) = NORMAL_CHAT \<and> \<not> fst (canRequestHandoffAgain sid pid now s)"
  then show "fst (analyzeResponseForHandoff sid pid e now s) =
        (''continue_ai'', ''NORMAL_CHAT state - handoff cooldown active'')"
    by (simp add: analyze_NORMAL_CHAT)
  from a show "fst (getSessionState sid pid now (snd (analyzeResponseForHandoff sid pid e now s))) =
        NORMAL_CHAT"
    by (simp add: analyze_NORMAL_CHAT canRequest_snd stateRead_getSession
        getSessionState_fst[of sid pid now "snd (getSessionState sid pid now s)"]
        afterRead_getSessionState getSessionState_fst[symmetric])
qed

lemma inMemoryWorld_reads:
  "getSession sid None t (inMemoryWorld sid d) = (d, inMemoryWorld sid d)"
  "getSessionState sid None t (inMemoryWorld sid d) = (state d, inMemoryWorld sid d)"
  by (simp_all add: getSessionState_def getSession_def getSessionInMemory_def persistTarget_def
      persistKey_def inMemoryWorld_def Let_def)

theorem cooldown_one_hour_witness:
  "(lastHandoffTime (fst (getSession ''s1'' None 0 (inMemoryWorld ''s1'' (postHandoffSession 1000)))) =
      Some 1000 \<and> (1000::int) \<noteq> 0) \<and>
   \<not> fst (canRequestHandoffAgain ''s1'' None (1000 + 59 * 60 * 1000)
           (inMemoryWorld ''s1'' (postHandoffSession 1000))) \<and>
   fst (canRequestHandoffAgain ''s1'' None (1000 + 61 * 60 * 1000)
         (inMemoryWorld ''s1'' (postHandoffSession 1000))) \<and>
   lastHandoffTime (fst (getSession ''s1'' None 0 (initialWorld False))) = None \<and>
   fst (canRequestHandoffAgain ''s1'' None 7 (initialWorld False)) \<and>
   fst (getSessionState ''s1'' None 3661000 (inMemoryWorld ''s1'' (postHandoffSession 1000))) =
     NORMAL_CHAT \<and>
   fst (getSessionState ''s1'' None 3661000
         (snd (analyzeResponseForHandoff ''s1'' None liveEnv 3661000
                (inMemoryWorld ''s1'' (postHandoffSession 1000))))) = SEEKING_HANDOFF \<and>
   fst (getSessionState ''s1'' None 3541000 (inMemoryWorld ''s1'' (postHandoffSession 1000))) =
     NORMAL_CHAT \<and>
   fst (analyzeResponseForHandoff ''s1'' None liveEnv 3541000
         (inMemoryWorld ''s1'' (postHandoffSession 1000))) =
     (''continue_ai'', ''NORMAL_CHAT state - handoff cooldown active'') \<and>
   fst (getSessionState ''s1'' None 3541000
         (snd (analyzeResponseForHandoff ''s1'' None liveEnv 3541000
                (inMemoryWorld ''s1'' (postHandoffSession 1000))))) = NORMAL_CHAT"
proof -
  let ?w = "inMemoryWorld ''s1'' (postHandoffSession 1000)"
  have h1: "lastHandoffTime (fst (getSession ''s1'' None 0 ?w)) = Some 1000 \<and> (1000::int) \<noteq> 0"
    by (simp add: inMemoryWorld_reads postHandoffSession_def)
  have h2: "lastHandoffTime (fst (getSession ''s1'' None 0 (initialWorld False))) = None"
    by (simp add: getSession_def getSessionInMemory_def persistTarget_def persistKey_def
        initialWorld_def defaultSession_def Let_def)
  have st: "fst (getSessionState ''s1'' None t ?w) = NORMAL_CHAT" for t
    by (simp add: inMemoryWorld_reads postHandoffSession_def)
  note a = cooldown_one_hour[of "''s1''" None 0 ?w 1000 7 liveEnv]
  note b = cooldown_one_hour[of "''s1''" None 0 "initialWorld False" 1000 7 liveEnv]
  note c = cooldown_one_hour[of "''s1''" None 0 ?w 1000 3661000 liveEnv]
  note d = cooldown_one_hour[of "''s1''" None 0 ?w 1000 3541000 liveEnv]
  have c59: "\<not> fst (canRequestHandoffAgain ''s1'' None (1000 + 59 * 60 * 1000) ?w)"
    and c61: "fst (canRequestHandoffAgain ''s1'' None (1000 + 61 * 60 * 1000) ?w)"
    using a h1 by blast+
  have n: "fst (canRequestHandoffAgain ''s1'' None 7 (initialWorld False))"
    using b h2 by blast
  from c61 have c61': "fst (canRequestHandoffAgain ''s1'' None 3661000 ?w)" by simp
  from c59 have c59': "\<not> fst (canRequestHandoffAgain ''s1'' None 3541000 ?w)" by simp
  have s61: "fst (getSessionState ''s1'' None 3661000
         (snd (analyzeResponseForHandoff ''s1'' None liveEnv 3661000 ?w))) = SEEKING_HANDOFF"
    using c st[of 3661000] c61' by blast
  have s59: "fst (analyzeResponseForHandoff ''s1'' None liveEnv 3541000 ?w) =
        (''continue_ai'', ''NORMAL_CHAT state - handoff cooldown active'') \<and>
      fst (getSessionState ''s1'' None 3541000
         (snd (analyzeResponseForHandoff ''s1'' None liveEnv 3541000 ?w))) = NORMAL_CHAT"
    using d st[of 3541000] c59' by blast
  show ?thesis
    using h1 h2 c59 c61 n st[of 3661000] st[of 3541000] s61 s59 by blast
qed

lemma sameSessions_refl [simp]: "sameSessions s s" by (simp add: sameSessions_def)
lemma sameActive_refl [simp]: "sameActive s s" by (simp add: sameActive_def)
lemma sameSessions_trans: "sameSessions a b \<Longrightarrow> sameSessions b c \<Longrightarrow> sameSessions a c"
  by (simp add: sameSessions_def)
lemma sameActive_trans: "sameActive a b \<Longrightarrow> sameActive b c \<Longrightarrow> sameActive a c"
  by (simp add: sameActive_def)

lemma sameSessions_isConnected: "sameSessions s s' \<Longrightarrow> isConnected s' = isConnected s"
  by (simp add: sameSessions_def)
lemma sameSessions_persistTarget: "sameSessions s s' \<Longrightarrow> persistTarget pid s' = persistTarget pid s"
  by (simp add: sameSessions_def persistTarget_def)
lemma sameSessions_recordOf: "sameSessions s s' \<Longrightarrow> recordOf sid pid s' = recordOf sid pid s"
  by (simp add: sameSessions_def persistTarget_def recordOf_def)
lemma sameSessions_getSession:
  "sameSessions s s' \<Longrightarrow> fst (getSession sid pid t s') = fst (getSession sid pid t s)"
  by (simp add: getSession_fst sameSessions_recordOf)
lemma sameActive_activeOf: "sameActive s s' \<Longrightarrow> activeOf p s' = activeOf p s"
  by (simp add: sameActive_def activeOf_def)

lemma sameSessions_prims:
  "sameSessions s (slackCall c s)"
  "sameSessions s (consoleError m s)"
  "sameSessions s (dbWrite r s)"
  "sameSessions s (emit e room ev m s)"
  "sameSessions s (clearTimer i s)"
  "sameSessions s (snd (setTimer tm s))"
  "sameSessions s (clearHandoffTimeout p s)"
  "sameSessions s (setHandoffTimeout p sid s)"
  "sameSessions s (clearUserInactivityTimeout p s)"
  "sameSessions s (setUserInactivityTimeout p s)"
  "sameSessions s (startWaitingTimeUpdater sid ts pid s)"
  "sameSessions s (stopSessionDurationUpdater p s)"
  "sameSessions s (setUserState p fvs s)"
  "sameSessions s (updateUserField p f v s)"
  "sameSessions s (updateCurrentSession p sid s)"
  "sameSessions s (deleteUserState p s)"
  "sameSessions s (setSessionMapping sid p s)"
  "sameSessions s (setHandoffState p h ttl s)"
  "sameSessions s (deleteHandoffState p s)"
  "sameSessions s (setTimerStart p t s)"
  "sameSessions s (deleteTimer p s)"
  "sameSessions s (stopWaitingTimeUpdater p s)"
  "sameSessions s (snd (setActiveSession p a ttl s))"
  "sameSessions s (snd (getActiveSession p s))"
  "sameSessions s (deleteActiveSession p s)"
  "sameSessions s (getAllActiveSessions s)"
  "sameSessions s (updateActiveSessionId p sid s)"
  "sameSessions s (startSessionDurationUpdater p ts s)"
  "sameSessions s (mapUserToSession p sid s)"
  by (simp_all add: sameSessions_def slackCall_def consoleError_def dbWrite_def emit_def
      clearTimer_def setTimer_def
      clearHandoffTimeout_def setHandoffTimeout_def clearUserInactivityTimeout_def
      setUserInactivityTimeout_def startWaitingTimeUpdater_def stopSessionDurationUpdater_def
      setUserState_def updateUserField_def
      updateCurrentSession_def deleteUserState_def setSessionMapping_def setHandoffState_def
      deleteHandoffState_def setTimerStart_def deleteTimer_def stopWaitingTimeUpdater_def
      setActiveSession_def getActiveSession_def
      deleteActiveSession_def getAllActiveSessions_def updateActiveSessionId_def
      startSessionDurationUpdater_def mapUserToSession_def
      split_def Let_def split: option.splits prod.splits)

lemma sameActive_prims:
  "sameActive s (slackCall c s)"
  "sameActive s (consoleError m s)"
  "sameActive s (dbWrite r s)"
  "sameActive s (emit e room ev m s)"
  "sameActive s (clearTimer i s)"
  "sameActive s (snd (setTimer tm s))"
  "sameActive s (clearHandoffTimeout p s)"
  "sameActive s (setHandoffTimeout p sid s)"
  "sameActive s (clearUserInactivityTimeout p s)"
  "sameActive s (setUserInactivityTimeout p s)"
  "sameActive s (startWaitingTimeUpdater sid ts pid s)"
  "sameActive s (stopSessionDurationUpdater p s)"
  "sameActive s (setUserState p fvs s)"
  "sameActive s (updateUserField p f v s)"
  "sameActive s (updateCurrentSession p sid s)"
  "sameActive s (deleteUserState p s)"
  "sameActive s (setSessionMapping sid p s)"
  "sameActive s (setHandoffState p h ttl s)"
  "sameActive s (deleteHandoffState p s)"
  "sameActive s (setTimerStart p t s)"
  "sameActive s (deleteTimer p s)"
  "sameActive s (stopWaitingTimeUpdater p s)"
  "sameActive s (saveSessionToRedis p d s)"
  "sameActive s (assignSession sid d s)"
  "sameActive s (saveIfPersistent pid d s)"
  "sameActive s (snd (getSessionInMemory sid pid t s))"
  "sameActive s (snd (getSession sid pid t s))"
  by (simp_all add: sameActive_def slackCall_def consoleError_def dbWrite_def emit_def
      clearTimer_def setTimer_def
      clearHandoffTimeout_def setHandoffTimeout_def clearUserInactivityTimeout_def
      setUserInactivityTimeout_def startWaitingTimeUpdater_def stopSessionDurationUpdater_def
      setUserState_def updateUserField_def
      updateCurrentSession_def deleteUserState_def setSessionMapping_def setHandoffState_def
      deleteHandoffState_def setTimerStart_def deleteTimer_def stopWaitingTimeUpdater_def
      saveSessionToRedis_def assignSession_def saveIfPersistent_def
      getSessionInMemory_def getSession_def
      split_def Let_def split: option.splits)

lemmas isConnected_prims [simp] = sameSessions_prims[THEN sameSessions_isConnected]
lemmas persistTarget_prims [simp] = sameSessions_prims[THEN sameSessions_persistTarget]
lemmas recordOf_prims [simp] = sameSessions_prims[THEN sameSessions_recordOf]
lemmas getSession_prims [simp] = sameSessions_prims[THEN sameSessions_getSession]
lemmas activeOf_prims [simp] = sameActive_prims[THEN sameActive_activeOf]

lemma activeOf_getAllActiveSessions [simp]:
  "activeOf q (getAllActiveSessions s) = activeOf q s"
  by (simp add: activeOf_def pickActive_def getAllActiveSessions_def split: option.splits)

lemma activeOf_startSessionDurationUpdater [simp]:
  "activeOf q (startSessionDurationUpdater p ts s) = activeOf q s"
proof -
  let ?s1 = "case sessionDurationIntervals s p of None \<Rightarrow> s | Some i \<Rightarrow> clearTimer i s"
  have a: "activeOf q ?s1 = activeOf q s" by (simp split: option.splits)
  obtain x s2 where g: "getActiveSession p ?s1 = (x, s2)" by (cases "getActiveSession p ?s1")
  then have "s2 = snd (getActiveSession p ?s1)" by simp
  then have b: "activeOf q s2 = activeOf q s" using a by simp
  show ?thesis
    using g b
    by (cases x)
      (simp_all add: startSessionDurationUpdater_def Let_def split_def activeOf_def setTimer_def)
qed

lemma activeOf_setActiveSession:
  "isConnected s \<Longrightarrow>
     activeOf q (snd (setActiveSession p a ttl s)) = (if q = p then Some a else activeOf q s)"
  by (auto simp: activeOf_def pickActive_def setActiveSession_def split: option.splits)

lemma activeOf_deleteActiveSession:
  "activeOf q (deleteActiveSession p s) = (if q = p then None else activeOf q s)"
  by (auto simp: activeOf_def pickActive_def deleteActiveSession_def split: option.splits)

lemma connectedKey_frames [simp]:
  "connectedKey pid (saveIfPersistent pid' d s) = connectedKey pid s"
  "connectedKey pid (assignSession sid d s) = connectedKey pid s"
  by (simp_all add: connectedKey_def)

lemma recordOf_markHumanHandoffAccepted:
  "recordOf sid pid (markHumanHandoffAccepted sid pid now s) =
     Some ((overlayConnected (connectedKey pid s)
             ((fst (getSession sid pid now s))\<lparr>lastHandoffTime := Some now\<rparr>))
           \<lparr>state := NORMAL_CHAT, lastActivity := now\<rparr>)"
proof -
  have v: "NORMAL_CHAT \<in> set validStates" by (simp add: validStates_def)
  show ?thesis
    by (simp add: markHumanHandoffAccepted_def split_def Let_def recordOf_setSessionState[OF v]
        afterRead_def getSession_fst[of sid pid now "saveIfPersistent _ _ _"] recordOf_write)
qed

lemma activeOf_markHumanHandoffAccepted [simp]:
  "activeOf q (markHumanHandoffAccepted sid pid now s) = activeOf q s"
  by (simp add: markHumanHandoffAccepted_def split_def Let_def)

lemma isConnected_markHumanHandoffAccepted [simp]:
  "isConnected (markHumanHandoffAccepted sid pid now s) = isConnected s"
  by (simp add: markHumanHandoffAccepted_def split_def Let_def)

lemma sameSessions_raw:
  "sameSessions s (s\<lparr>sessionConversationHistory := a\<rparr>)"
  "sameSessions s (s\<lparr>cachedSummaries := b\<rparr>)"
  "sameSessions s (s\<lparr>handoffTimeouts := c\<rparr>)"
  "sameSessions s (s\<lparr>connectionRequestTimes := d\<rparr>)"
  "sameSessions s (s\<lparr>waitingSessions := f\<rparr>)"
  by (simp_all add: sameSessions_def)

lemma sameActive_raw:
  "sameActive s (s\<lparr>sessionConversationHistory := a\<rparr>)"
  "sameActive s (s\<lparr>cachedSummaries := b\<rparr>)"
  "sameActive s (s\<lparr>handoffTimeouts := c\<rparr>)"
  "sameActive s (s\<lparr>connectionRequestTimes := d\<rparr>)"
  "sameActive s (s\<lparr>waitingSessions := f\<rparr>)"
  by (simp_all add: sameActive_def)

lemmas isConnected_raw [simp] = sameSessions_raw[THEN sameSessions_isConnected]
lemmas persistTarget_raw [simp] = sameSessions_raw[THEN sameSessions_persistTarget]
lemmas recordOf_raw [simp] = sameSessions_raw[THEN sameSessions_recordOf]
lemmas getSession_raw [simp] = sameSessions_raw[THEN sameSessions_getSession]
lemmas activeOf_raw [simp] = sameActive_raw[THEN sameActive_activeOf]

lemma persistTarget_Some [simp]: "p \<noteq> [] \<Longrightarrow> isConnected s \<Longrightarrow> persistTarget (Some p) s = Some p"
  by (simp add: persistTarget_def persistKey_def)

lemma acceptCommit_failed:
  "\<not> slackOk e \<Longrightarrow>
     acceptCommit p sid userId userName ts e now s =
       (Inr \<lparr>status = ''error'', message = Some ''Failed to create chat thread'',
              reply_threadTs = None\<rparr>, consoleError ''Error creating thread'' s)"
  by (simp add: acceptCommit_def)

lemma acceptCommit_effects:
  assumes "slackOk e" "isConnected s" "p \<noteq> []"
  shows "fst (acceptCommit p sid userId userName ts e now s) =
           Inr \<lparr>status = ''accepted'', message = None, reply_threadTs = Some ts\<rparr>"
    and "activeOf q (snd (acceptCommit p sid userId userName ts e now s)) =
           (if q = p then Some (connectionOf p sid userId userName ts now) else activeOf q s)"
    and "recordOf sid (Some p) (snd (acceptCommit p sid userId userName ts e now s)) =
           Some ((fst (getSession sid (Some p) now s))
                  \<lparr>lastHandoffTime := Some now, session_persistentUserId := Some p,
                   state := NORMAL_CHAT, lastActivity := now\<rparr>)"
    and "isConnected (snd (acceptCommit p sid userId userName ts e now s))"
  using assms
  by (simp_all add: acceptCommit_def Let_def activeOf_setActiveSession connectionOf_def
      recordOf_markHumanHandoffAccepted connectedKey_def pickConnected_def overlayConnected_def)

lemma sameSessions_sessions: "sameSessions s s' \<Longrightarrow> sessions s' = sessions s"
  by (simp add: sameSessions_def)
lemma sameSessions_sessionStateKeys: "sameSessions s s' \<Longrightarrow> sessionStateKeys s' = sessionStateKeys s"
  by (simp add: sameSessions_def)

lemmas sessions_prims [simp] = sameSessions_prims[THEN sameSessions_sessions]
lemmas sessionStateKeys_prims [simp] = sameSessions_prims[THEN sameSessions_sessionStateKeys]

lemma truthyId_SomeD: "truthyId v = Some p \<Longrightarrow> v = Some p \<and> p \<noteq> []"
  unfolding truthyId_def by (drule persistKey_SomeD) simp

lemma truthyId_Some [simp]: "p \<noteq> [] \<Longrightarrow> truthyId (Some p) = Some p"
  by (simp add: truthyId_def)

lemma resolve_connected:
  "truthyId (fst (resolveIdentifier identifier s)) = Some p \<Longrightarrow> isConnected s"
  by (auto simp: resolveIdentifier_def getUserState_def getSessionMapping_def
      dest!: truthyId_SomeD split: option.splits if_splits)

lemma getActiveSession_None:
  "activeOf p s = None \<Longrightarrow> fst (getActiveSession p s) = None"
  by (simp add: getActiveSession_fst)

lemma acceptCheck_unresolved:
  "truthyId (fst (resolveIdentifier identifier s)) = None \<or> snd (resolveIdentifier identifier s) = [] \<Longrightarrow>
     acceptCheck identifier ts e s =
       (Finished (Inr \<lparr>status = ''error'', message = Some ''Session not found'',
                        reply_threadTs = None\<rparr>),
        consoleError (''Could not resolve identifiers: '' @ identifier) s)"
  by (auto simp: acceptCheck_def split_def Let_def split: option.splits)

lemma acceptCheck_taken:
  "truthyId (fst (resolveIdentifier identifier s)) = Some p \<Longrightarrow>
   snd (resolveIdentifier identifier s) \<noteq> [] \<Longrightarrow> activeOf p s = Some a \<Longrightarrow>
     acceptCheck identifier ts e s =
       (if slackOk e
        then (Finished (Inr \<lparr>status = ''already_taken'',
                message = Some (''This chat is already being handled by '' @ agentName a),
                reply_threadTs = None\<rparr>),
              slackCall (ChatUpdate ts (''Already accepted by '' @ agentName a)) s)
        else (Finished (Inl SlackApiError), s))"
  by (simp add: acceptCheck_def split_def Let_def getActiveSession_Some)

lemma acceptCheck_free:
  "truthyId (fst (resolveIdentifier identifier s)) = Some p \<Longrightarrow>
   snd (resolveIdentifier identifier s) \<noteq> [] \<Longrightarrow> activeOf p s = None \<Longrightarrow>
     acceptCheck identifier ts e s =
       (Proceed p (snd (resolveIdentifier identifier s)), snd (getActiveSession p s))"
proof -
  assume a: "truthyId (fst (resolveIdentifier identifier s)) = Some p"
    "snd (resolveIdentifier identifier s) \<noteq> []" "activeOf p s = None"
  obtain x s1 where g: "getActiveSession p s = (x, s1)" by (cases "getActiveSession p s")
  with a(3) have "x = None" using getActiveSession_fst[of p s] by simp
  with a g show ?thesis by (simp add: acceptCheck_def split_def Let_def)
qed

lemma acceptCheck_ProceedD:
  assumes "fst (acceptCheck identifier ts e s) = Proceed p sid"
  shows "truthyId (fst (resolveIdentifier identifier s)) = Some p"
    and "snd (resolveIdentifier identifier s) = sid" and "sid \<noteq> []"
    and "activeOf p s = None" and "isConnected s" and "p \<noteq> []"
    and "snd (acceptCheck identifier ts e s) = snd (getActiveSession p s)"
proof -
  show r: "truthyId (fst (resolveIdentifier identifier s)) = Some p"
  proof (cases "truthyId (fst (resolveIdentifier identifier s))")
    case None
    then show ?thesis using assms by (simp add: acceptCheck_unresolved)
  next
    case (Some p')
    show ?thesis
    proof (cases "snd (resolveIdentifier identifier s) = []")
      case True
      then show ?thesis using assms by (simp add: acceptCheck_unresolved)
    next
      case False
      show ?thesis
      proof (cases "activeOf p' s")
        case None
        with Some False assms show ?thesis by (simp add: acceptCheck_free)
      next
        case (Some a)
        with \<open>truthyId (fst (resolveIdentifier identifier s)) = Some p'\<close> False assms
        show ?thesis by (simp add: acceptCheck_taken split: if_splits)
      qed
    qed
  qed
  show n: "snd (resolveIdentifier identifier s) = sid" "sid \<noteq> []" "activeOf p s = None"
  proof -
    have ne: "snd (resolveIdentifier identifier s) \<noteq> []"
      using assms r by (cases "snd (resolveIdentifier identifier s) = []") (simp_all add: acceptCheck_unresolved)
    have na: "activeOf p s = None"
      using assms r ne by (cases "activeOf p s") (simp_all add: acceptCheck_taken split: if_splits)
    from assms r ne na show "snd (resolveIdentifier identifier s) = sid" by (simp add: acceptCheck_free)
    with ne show "sid \<noteq> []" by simp
    from na show "activeOf p s = None" .
  qed
  from r show "isConnected s" by (rule resolve_connected)
  from r show "p \<noteq> []" by (simp add: truthyId_SomeD)
  from r n show "snd (acceptCheck identifier ts e s) = snd (getActiveSession p s)"
    by (simp add: acceptCheck_free)
qed

lemma handleAcceptButton_accepted:
  assumes "fst (acceptCheck identifier ts e s) = Proceed p sid" "slackOk e"
  shows "fst (handleAcceptButton identifier userId userName ts e now s) =
           Inr \<lparr>status = ''accepted'', message = None, reply_threadTs = Some ts\<rparr>"
    and "activeOf q (snd (handleAcceptButton identifier userId userName ts e now s)) =
           (if q = p then Some (connectionOf p sid userId userName ts now) else activeOf q s)"
    and "recordOf sid (Some p) (snd (handleAcceptButton identifier userId userName ts e now s)) =
           Some ((fst (getSession sid (Some p) now s))
                  \<lparr>lastHandoffTime := Some now, session_persistentUserId := Some p,
                   state := NORMAL_CHAT, lastActivity := now\<rparr>)"
    and "isConnected (snd (handleAcceptButton identifier userId userName ts e now s))"
proof -
  note d = acceptCheck_ProceedD[OF assms(1)]
  obtain c s1 where c: "acceptCheck identifier ts e s = (c, s1)" by (cases "acceptCheck identifier ts e s")
  with assms(1) d(7) have c': "acceptCheck identifier ts e s = (Proceed p sid, snd (getActiveSession p s))"
    by simp
  have h: "handleAcceptButton identifier userId userName ts e now s =
             acceptCommit p sid userId userName ts e now (snd (getActiveSession p s))"
    by (simp add: handleAcceptButton_def c')
  have ic: "isConnected (snd (getActiveSession p s))" using d(5) by simp
  note ef = acceptCommit_effects[OF assms(2) ic d(6)]
  show "fst (handleAcceptButton identifier userId userName ts e now s) =
           Inr \<lparr>status = ''accepted'', message = None, reply_threadTs = Some ts\<rparr>"
    by (simp add: h ef)
  show "activeOf q (snd (handleAcceptButton identifier userId userName ts e now s)) =
           (if q = p then Some (connectionOf p sid userId userName ts now) else activeOf q s)"
    by (simp add: h ef)
  show "recordOf sid (Some p) (snd (handleAcceptButton identifier userId userName ts e now s)) =
           Some ((fst (getSession sid (Some p) now s))
                  \<lparr>lastHandoffTime := Some now, session_persistentUserId := Some p,
                   state := NORMAL_CHAT, lastActivity := now\<rparr>)"
    by (simp add: h ef)
  show "isConnected (snd (handleAcceptButton identifier userId userName ts e now s))"
    by (simp add: h ef)
qed

lemmas redis_defs = getUserState_def setUserState_def updateUserField_def updateCurrentSession_def
  deleteUserState_def setSessionMapping_def getSessionMapping_def setHandoffState_def
  getHandoffState_def deleteHandoffState_def setTimerStart_def deleteTimer_def
  setActiveSession_def getActiveSession_def deleteActiveSession_def getAllActiveSessions_def
  updateActiveSessionId_def

lemmas timer_defs = setTimer_def clearTimer_def clearHandoffTimeout_def setHandoffTimeout_def
  clearUserInactivityTimeout_def setUserInactivityTimeout_def startWaitingTimeUpdater_def
  stopWaitingTimeUpdater_def startSessionDurationUpdater_def stopSessionDurationUpdater_def

lemmas out_defs = slackCall_def consoleError_def dbWrite_def emit_def

lemma waitingWorld_eq:
  "waitingWorld =
     (initialWorld True)
       \<lparr>userHashes := (\<lambda>k. [])(''u1'' := [(''currentSessionId'', ''s1'')]),
        sessionMappings := [''s1'' \<mapsto> (86400, ''u1'')],
        handoffStates := [''u1'' \<mapsto> (600, \<lparr>sessionId = ''s1'', messageTs = ''1700000000.000100'',
           requestTime = 1000, conversationHistory = [], summary = None\<rparr>)],
        timerStarts := [''u1'' \<mapsto> (600, 1000)],
        scheduled := [0 \<mapsto> HandoffTimeout ''u1'' ''s1'', 1 \<mapsto> WaitingTicker ''s1'' ''1700000000.000100'' (Some ''u1'')],
        nextTimerId := 2,
        updateIntervals := [Some ''u1'' \<mapsto> 1],
        handoffTimeouts := [''u1'' \<mapsto> 0],
        connectionRequestTimes := [''s1'' \<mapsto> 1000],
        sessionConversationHistory := [''s1'' \<mapsto> []],
        waitingSessions := [''s1'' \<mapsto> \<lparr>waiting_messageTs = ''1700000000.000100'',
            waiting_requestTime = 1000, waiting_persistentUserId = Some ''u1''\<rparr>],
        slackCalls := [ChatPostMessage None ''New support request from session s1'']\<rparr>"
  by (simp add: waitingWorld_def requestHumanAgent_def publishRequest_def mapUserToSession_def
      truthyId_def persistKey_def liveEnv_def initialWorld_def redis_defs timer_defs out_defs
      Let_def)

lemma write_store:
  "persistTarget pid s = Some p \<Longrightarrow>
     sessionStateKeys (saveIfPersistent pid d (assignSession sid d s)) p = Some (3600, d) \<and>
     sessions (saveIfPersistent pid d (assignSession sid d s)) sid = Some d"
  by (frule persistTarget_SomeD)
    (simp add: saveIfPersistent_def saveSessionToRedis_def assignSession_def)

lemma write_memory:
  "sessions (saveIfPersistent pid d (assignSession sid d s)) sid = Some d"
  by (simp add: saveIfPersistent_def saveSessionToRedis_def assignSession_def split: option.splits)

lemma getSessionState_store:
  assumes "persistTarget pid s = Some p" "activeOf p s = Some a"
  shows "sessionStateKeys (snd (getSessionState sid pid t s)) p =
           Some (3600, (fst (getSession sid pid t s))
                         \<lparr>state := HUMAN_CONNECTED, session_persistentUserId := Some p\<rparr>)"
    and "sessions (snd (getSessionState sid pid t s)) sid =
           Some ((fst (getSession sid pid t s))
                         \<lparr>state := HUMAN_CONNECTED, session_persistentUserId := Some p\<rparr>)"
  using assms persistTarget_SomeD[OF assms(1)]
  by (simp_all add: getSessionState_active saveSessionToRedis_def assignSession_def)

lemma setSessionState_store:
  assumes "st \<in> set validStates" "persistTarget pid s = Some p"
  shows "sessionStateKeys (setSessionState sid st pid now s) p =
           Some (3600, (afterRead sid pid now s)\<lparr>state := st, lastActivity := now\<rparr>)"
    and "sessions (setSessionState sid st pid now s) sid =
           Some ((afterRead sid pid now s)\<lparr>state := st, lastActivity := now\<rparr>)"
  using assms
  by (simp_all add: setSessionState_def split_def Let_def write_store
      getSession_after_getSessionState)

lemma markHumanHandoffAccepted_store:
  assumes "persistTarget pid s = Some p"
  shows "sessionStateKeys (markHumanHandoffAccepted sid pid now s) p =
     Some (3600, (overlayConnected (connectedKey pid s)
             ((fst (getSession sid pid now s))\<lparr>lastHandoffTime := Some now\<rparr>))
           \<lparr>state := NORMAL_CHAT, lastActivity := now\<rparr>)"
proof -
  have v: "NORMAL_CHAT \<in> set validStates" by (simp add: validStates_def)
  show ?thesis using assms
    by (simp add: markHumanHandoffAccepted_def split_def Let_def setSessionState_store(1)[OF v]
        afterRead_def getSession_fst[of sid pid now "saveIfPersistent _ _ _"] recordOf_write)
qed

lemma acceptCommit_store:
  assumes "slackOk e" "isConnected s" "p \<noteq> []"
  shows "sessionStateKeys (snd (acceptCommit p sid userId userName ts e now s)) p =
           Some (3600, (fst (getSession sid (Some p) now s))
                  \<lparr>lastHandoffTime := Some now, session_persistentUserId := Some p,
                   state := NORMAL_CHAT, lastActivity := now\<rparr>)"
  using assms
  by (simp add: acceptCommit_def Let_def activeOf_setActiveSession
      markHumanHandoffAccepted_store connectedKey_def pickConnected_def overlayConnected_def)

lemma handleAcceptButton_store:
  assumes "fst (acceptCheck identifier ts e s) = Proceed p sid" "slackOk e"
  shows "sessionStateKeys (snd (handleAcceptButton identifier userId userName ts e now s)) p =
           Some (3600, (fst (getSession sid (Some p) now s))
                  \<lparr>lastHandoffTime := Some now, session_persistentUserId := Some p,
                   state := NORMAL_CHAT, lastActivity := now\<rparr>)"
proof -
  note d = acceptCheck_ProceedD[OF assms(1)]
  obtain c s1 where c: "acceptCheck identifier ts e s = (c, s1)" by (cases "acceptCheck identifier ts e s")
  with assms(1) d(7) have c': "acceptCheck identifier ts e s = (Proceed p sid, snd (getActiveSession p s))"
    by simp
  have h: "handleAcceptButton identifier userId userName ts e now s =
             acceptCommit p sid userId userName ts e now (snd (getActiveSession p s))"
    by (simp add: handleAcceptButton_def c')
  have ic: "isConnected (snd (getActiveSession p s))" using d(5) by simp
  show ?thesis by (simp add: h acceptCommit_store[OF assms(2) ic d(6)])
qed

text \<open>
  Claim C10. While \<^verbatim>\<open>getActiveSession\<close> reports an agent connection for a user,
  \<^verbatim>\<open>getSessionState\<close> for that user returns HUMAN_CONNECTED whatever state the
  session record holds, and writes HUMAN_CONNECTED into the record of the user in
  the store and into the in-memory entry of the session. An accepted click on the
  accept button leaves NORMAL_CHAT in the record of the user; the state read
  afterwards is HUMAN_CONNECTED because the connection exists.
\<close>

theorem human_connected_is_derived:
  "(fst (getActiveSession p s) = Some a \<and> p \<noteq> [] \<longrightarrow>
      fst (getSessionState sid (Some p) t s) = HUMAN_CONNECTED \<and>
      map_option (\<lambda>r. state (snd r)) (sessionStateKeys (snd (getSessionState sid (Some p) t s)) p) =
        Some HUMAN_CONNECTED \<and>
      map_option state (sessions (snd (getSessionState sid (Some p) t s)) sid) =
        Some HUMAN_CONNECTED) \<and>
   (fst (acceptCheck identifier ts e s) = Proceed p sid \<and> slackOk e \<longrightarrow>
      fst (handleAcceptButton identifier userId userName ts e now s) =
        Inr \<lparr>status = ''accepted'', message = None, reply_threadTs = Some ts\<rparr> \<and>
      map_option (\<lambda>r. state (snd r))
        (sessionStateKeys (snd (handleAcceptButton identifier userId userName ts e now s)) p) =
        Some NORMAL_CHAT \<and>
      fst (getSessionState sid (Some p) t
            (snd (handleAcceptButton identifier userId userName ts e now s))) = HUMAN_CONNECTED)"
proof (intro conjI impI)
  assume h: "fst (getActiveSession p s) = Some a \<and> p \<noteq> []"
  then have a: "activeOf p s = Some a" by (simp add: getActiveSession_fst)
  then have c: "isConnected s" by (simp add: activeOf_def pickActive_def split: if_splits)
  with h have pt: "persistTarget (Some p) s = Some p" by simp
  show "fst (getSessionState sid (Some p) t s) = HUMAN_CONNECTED"
    by (simp add: getSessionState_active[OF pt a])
  show "map_option (\<lambda>r. state (snd r)) (sessionStateKeys (snd (getSessionState sid (Some p) t s)) p) =
        Some HUMAN_CONNECTED"
    by (simp add: getSessionState_store[OF pt a])
  show "map_option state (sessions (snd (getSessionState sid (Some p) t s)) sid) =
        Some HUMAN_CONNECTED"
    by (simp add: getSessionState_store[OF pt a])
next
  assume h: "fst (acceptCheck identifier ts e s) = Proceed p sid \<and> slackOk e"
  then have h1: "fst (acceptCheck identifier ts e s) = Proceed p sid" and h2: "slackOk e" by simp_all
  note ac = handleAcceptButton_accepted[OF h1 h2]
  note d = acceptCheck_ProceedD[OF h1]
  show "fst (handleAcceptButton identifier userId userName ts e now s) =
        Inr \<lparr>status = ''accepted'', message = None, reply_threadTs = Some ts\<rparr>"
    by (rule ac(1))
  show "map_option (\<lambda>r. state (snd r))
        (sessionStateKeys (snd (handleAcceptButton identifier userId userName ts e now s)) p) =
        Some NORMAL_CHAT"
    by (simp add: handleAcceptButton_store[OF h1 h2])
  have "connectedKey (Some p) (snd (handleAcceptButton identifier userId userName ts e now s)) = Some p"
    using d(6) by (simp add: connectedKey_def pickConnected_def ac(2) ac(4))
  then show "fst (getSessionState sid (Some p) t
            (snd (handleAcceptButton identifier userId userName ts e now s))) = HUMAN_CONNECTED"
    by (simp add: stateRead_HUMAN_CONNECTED)
qed

lemma waitingWorld_facts:
  "isConnected waitingWorld"
  "resolveIdentifier ''u1'' waitingWorld = (Some ''u1'', ''s1'')"
  "activeOf ''u1'' waitingWorld = None"
  "getHandoffState ''u1'' waitingWorld \<noteq> None"
  "recordOf ''s1'' (Some ''u1'') waitingWorld = None"
  by (simp_all add: waitingWorld_eq initialWorld_def resolveIdentifier_def getUserState_def
      getSessionMapping_def getHandoffState_def truthyId_def persistKey_def activeOf_def
      pickActive_def recordOf_def pickRecord_def persistTarget_def)

lemma waitingWorld_check:
  "fst (acceptCheck ''u1'' ts e waitingWorld) = Proceed ''u1'' ''s1''"
  by (simp add: acceptCheck_free[of "''u1''" waitingWorld "''u1''"] waitingWorld_facts)

lemma liveEnv_simps [simp]:
  "slackOk liveEnv" "ioPresent liveEnv" "leadSaved liveEnv" "responderOk liveEnv"
  "postedTs liveEnv = ''1700000000.000100''"
  by (simp_all add: liveEnv_def)

lemma connectedWorld_facts:
  "isConnected connectedWorld"
  "activeOf ''u1'' connectedWorld =
     Some (connectionOf ''u1'' ''s1'' ''A1'' ''alice'' ''1700000000.000100'' 2000)"
  "recordOf ''s1'' (Some ''u1'') connectedWorld =
     Some \<lparr>state = NORMAL_CHAT, lastActivity = 2000, handoffOffered = False,
           lastHandoffTime = Some 2000, session_persistentUserId = Some ''u1''\<rparr>"
  unfolding connectedWorld_def
  by (simp_all add: handleAcceptButton_accepted[OF waitingWorld_check]
      getSession_fst waitingWorld_facts defaultSession_def SessionState_defs)

theorem human_connected_is_derived_witness:
  "(fst (getActiveSession ''u1'' connectedWorld) =
      Some (connectionOf ''u1'' ''s1'' ''A1'' ''alice'' ''1700000000.000100'' 2000) \<and> ''u1'' \<noteq> []) \<and>
   fst (getSessionState ''s1'' (Some ''u1'') 3000 connectedWorld) = HUMAN_CONNECTED \<and>
   map_option (\<lambda>r. state (snd r))
     (sessionStateKeys (snd (getSessionState ''s1'' (Some ''u1'') 3000 connectedWorld)) ''u1'') =
     Some HUMAN_CONNECTED \<and>
   (fst (acceptCheck ''u1'' ''1700000000.000100'' liveEnv waitingWorld) = Proceed ''u1'' ''s1'' \<and>
    slackOk liveEnv) \<and>
   map_option (\<lambda>r. state (snd r)) (sessionStateKeys connectedWorld ''u1'') = Some NORMAL_CHAT \<and>
   fst (getSessionState ''s1'' (Some ''u1'') 3000 connectedWorld) = HUMAN_CONNECTED"
proof -
  have h1: "fst (getActiveSession ''u1'' connectedWorld) =
      Some (connectionOf ''u1'' ''s1'' ''A1'' ''alice'' ''1700000000.000100'' 2000) \<and> ''u1'' \<noteq> []"
    by (simp add: getActiveSession_fst connectedWorld_facts)
  have h2: "fst (acceptCheck ''u1'' ''1700000000.000100'' liveEnv waitingWorld) = Proceed ''u1'' ''s1'' \<and>
    slackOk liveEnv"
    by (simp add: waitingWorld_check)
  note a = human_connected_is_derived[where p="''u1''" and s=connectedWorld
      and a="connectionOf ''u1'' ''s1'' ''A1'' ''alice'' ''1700000000.000100'' 2000"
      and sid="''s1''" and t=3000]
  note b = human_connected_is_derived[of "''u1''" waitingWorld _ "''s1''" 3000 "''u1''"
      "''1700000000.000100''" liveEnv "''A1''" "''alice''" 2000]
  show ?thesis
    using a b h1 h2 unfolding connectedWorld_def by blast
qed

lemma sameRest_refl [simp]: "sameRest s s" by (simp add: sameRest_def)
lemma sameRest_trans: "sameRest a b \<Longrightarrow> sameRest b c \<Longrightarrow> sameRest a c"
  by (simp add: sameRest_def)

lemma sameRest_step:
  "sameRest s s1 \<Longrightarrow> sameRest s (saveSessionToRedis p d s1)"
  "sameRest s s1 \<Longrightarrow> sameRest s (assignSession sid d s1)"
  "sameRest s s1 \<Longrightarrow> sameRest s (saveIfPersistent pid d s1)"
  "sameRest s s1 \<Longrightarrow> sameRest s (snd (getActiveSession p s1))"
  "sameRest s s1 \<Longrightarrow> sameRest s (consoleError m s1)"
  by (simp_all add: sameRest_def saveSessionToRedis_def assignSession_def saveIfPersistent_def
      getActiveSession_def consoleError_def split: option.splits)

lemma sameRest_getSessionInMemory:
  "sameRest s s1 \<Longrightarrow> sameRest s (snd (getSessionInMemory sid pid t s1))"
  by (simp add: getSessionInMemory_def Let_def sameRest_def saveSessionToRedis_def
      split: option.splits)

lemma sameRest_getSession:
  "sameRest s s1 \<Longrightarrow> sameRest s (snd (getSession sid pid t s1))"
proof -
  assume a: "sameRest s s1"
  have b: "sameRest s (s1\<lparr>sessions := x\<rparr>)" for x using a by (simp add: sameRest_def)
  show ?thesis
    by (simp add: getSession_def sameRest_getSessionInMemory[OF a] b split: option.splits)
qed

lemma sameRest_getSessionState:
  "sameRest s s1 \<Longrightarrow> sameRest s (snd (getSessionState sid pid t s1))"
  by (simp add: getSessionState_def split_def Let_def sameRest_step sameRest_getSession
      split: option.splits)

lemma sameRest_setSessionState:
  "sameRest s s1 \<Longrightarrow> sameRest s (setSessionState sid st pid t s1)"
proof -
  assume a: "sameRest s s1"
  have b: "sameRest s (s1\<lparr>consoleErrors := x\<rparr>)" for x using a by (simp add: sameRest_def)
  show ?thesis
    by (simp add: setSessionState_def split_def Let_def sameRest_step sameRest_getSession
        sameRest_getSessionState a b)
qed

lemma sameRest_session_ops:
  "sameRest s s1 \<Longrightarrow> sameRest s (updateSessionActivity sid pid t s1)"
  "sameRest s s1 \<Longrightarrow> sameRest s (snd (hasHandoffBeenOffered sid pid t s1))"
  "sameRest s s1 \<Longrightarrow> sameRest s (markHandoffOffered sid pid t s1)"
  "sameRest s s1 \<Longrightarrow> sameRest s (snd (canRequestHandoffAgain sid pid t s1))"
  "sameRest s s1 \<Longrightarrow> sameRest s (markHumanHandoffDeclined sid pid t s1)"
  "sameRest s s1 \<Longrightarrow> sameRest s (markCallbackRequested sid pid t s1)"
  "sameRest s s1 \<Longrightarrow> sameRest s (markLeadCaptured sid pid t s1)"
  "sameRest s s1 \<Longrightarrow> sameRest s (markHumanHandoffAccepted sid pid t s1)"
  by (simp_all add: updateSessionActivity_def hasHandoffBeenOffered_def markHandoffOffered_def
      canRequest_snd markHumanHandoffDeclined_def markCallbackRequested_def markLeadCaptured_def
      markHumanHandoffAccepted_def split_def Let_def sameRest_step sameRest_getSession
      sameRest_setSessionState)

lemmas sameRest_ops =
  sameRest_step(1-4)[OF sameRest_refl] sameRest_getSession[OF sameRest_refl]
  sameRest_getSessionState[OF sameRest_refl] sameRest_setSessionState[OF sameRest_refl]
  sameRest_session_ops[OF sameRest_refl]

lemma sameRest_fields:
  assumes "sameRest s s'"
  shows "userHashes s' = userHashes s" "sessionMappings s' = sessionMappings s"
    "handoffStates s' = handoffStates s" "timerStarts s' = timerStarts s"
    "activeTtlKeys s' = activeTtlKeys s" "scheduled s' = scheduled s"
    "nextTimerId s' = nextTimerId s" "updateIntervals s' = updateIntervals s"
    "sessionDurationIntervals s' = sessionDurationIntervals s"
    "handoffTimeouts s' = handoffTimeouts s"
    "userInactivityTimeouts s' = userInactivityTimeouts s"
    "connectionRequestTimes s' = connectionRequestTimes s"
    "sessionConversationHistory s' = sessionConversationHistory s"
    "cachedSummaries s' = cachedSummaries s" "waitingSessions s' = waitingSessions s"
    "slackCalls s' = slackCalls s" "emitted s' = emitted s" "dbLog s' = dbLog s"
  using assms by (simp_all add: sameRest_def)

lemmas rest_userHashes [simp] = sameRest_ops[THEN sameRest_fields(1)]
lemmas rest_sessionMappings [simp] = sameRest_ops[THEN sameRest_fields(2)]
lemmas rest_handoffStates [simp] = sameRest_ops[THEN sameRest_fields(3)]
lemmas rest_timerStarts [simp] = sameRest_ops[THEN sameRest_fields(4)]
lemmas rest_activeTtlKeys [simp] = sameRest_ops[THEN sameRest_fields(5)]
lemmas rest_scheduled [simp] = sameRest_ops[THEN sameRest_fields(6)]
lemmas rest_nextTimerId [simp] = sameRest_ops[THEN sameRest_fields(7)]
lemmas rest_updateIntervals [simp] = sameRest_ops[THEN sameRest_fields(8)]
lemmas rest_sessionDurationIntervals [simp] = sameRest_ops[THEN sameRest_fields(9)]
lemmas rest_handoffTimeouts [simp] = sameRest_ops[THEN sameRest_fields(10)]
lemmas rest_userInactivityTimeouts [simp] = sameRest_ops[THEN sameRest_fields(11)]
lemmas rest_connectionRequestTimes [simp] = sameRest_ops[THEN sameRest_fields(12)]
lemmas rest_sessionConversationHistory [simp] = sameRest_ops[THEN sameRest_fields(13)]
lemmas rest_cachedSummaries [simp] = sameRest_ops[THEN sameRest_fields(14)]
lemmas rest_waitingSessions [simp] = sameRest_ops[THEN sameRest_fields(15)]
lemmas rest_slackCalls [simp] = sameRest_ops[THEN sameRest_fields(16)]
lemmas rest_emitted [simp] = sameRest_ops[THEN sameRest_fields(17)]
lemmas rest_dbLog [simp] = sameRest_ops[THEN sameRest_fields(18)]

lemma resolve_cong:
  "isConnected s' = isConnected s \<Longrightarrow> userHashes s' = userHashes s \<Longrightarrow>
   sessionMappings s' = sessionMappings s \<Longrightarrow> resolveIdentifier i s' = resolveIdentifier i s"
  by (simp add: resolveIdentifier_def getUserState_def getSessionMapping_def
      cong: option.case_cong)

lemma sameRest_resolve: "sameRest s s' \<Longrightarrow> resolveIdentifier i s' = resolveIdentifier i s"
  by (rule resolve_cong) (simp_all add: sameRest_def)

lemma sameRest_getHandoffState: "sameRest s s' \<Longrightarrow> getHandoffState p s' = getHandoffState p s"
  by (simp add: sameRest_def getHandoffState_def)

lemma sameRest_getUserState: "sameRest s s' \<Longrightarrow> getUserState p s' = getUserState p s"
  by (simp add: sameRest_def getUserState_def)

lemmas resolve_ops [simp] = sameRest_ops[THEN sameRest_resolve]
lemmas getHandoffState_ops [simp] = sameRest_ops[THEN sameRest_getHandoffState]
lemmas getUserState_ops [simp] = sameRest_ops[THEN sameRest_getUserState]

lemma stored_outputs [simp]:
  "stored (slackCall c s) = stored s" "stored (consoleError m s) = stored s"
  "stored (dbWrite r s) = stored s" "stored (emit e room ev m s) = stored s"
  by (simp_all add: stored_def out_defs)

lemma stored_timeoutNotifyAgents [simp]: "stored (timeoutNotifyAgents pid e s) = stored s"
  by (simp add: timeoutNotifyAgents_def split: option.splits)

lemma stored_eqD:
  assumes "stored s' = stored s"
  shows "isConnected s' = isConnected s" "userHashes s' = userHashes s"
    "sessionMappings s' = sessionMappings s" "handoffStates s' = handoffStates s"
    "sessionStateKeys s' = sessionStateKeys s" "sessions s' = sessions s"
    "activeTtlKeys s' = activeTtlKeys s" "activeSessionsHash s' = activeSessionsHash s"
    "scheduled s' = scheduled s" "handoffTimeouts s' = handoffTimeouts s"
    "updateIntervals s' = updateIntervals s" "timerStarts s' = timerStarts s"
proof -
  have f: "f (stored s') = f (stored s)" for f :: "world \<Rightarrow> 'a" using assms by simp
  show "isConnected s' = isConnected s" using f[of isConnected] by (simp add: stored_def)
  show "userHashes s' = userHashes s" using f[of userHashes] by (simp add: stored_def)
  show "sessionMappings s' = sessionMappings s" using f[of sessionMappings] by (simp add: stored_def)
  show "handoffStates s' = handoffStates s" using f[of handoffStates] by (simp add: stored_def)
  show "sessionStateKeys s' = sessionStateKeys s" using f[of sessionStateKeys] by (simp add: stored_def)
  show "sessions s' = sessions s" using f[of sessions] by (simp add: stored_def)
  show "activeTtlKeys s' = activeTtlKeys s" using f[of activeTtlKeys] by (simp add: stored_def)
  show "activeSessionsHash s' = activeSessionsHash s" using f[of activeSessionsHash] by (simp add: stored_def)
  show "scheduled s' = scheduled s" using f[of scheduled] by (simp add: stored_def)
  show "handoffTimeouts s' = handoffTimeouts s" using f[of handoffTimeouts] by (simp add: stored_def)
  show "updateIntervals s' = updateIntervals s" using f[of updateIntervals] by (simp add: stored_def)
  show "timerStarts s' = timerStarts s" using f[of timerStarts] by (simp add: stored_def)
qed

lemma stored_sameSessions: "stored s' = stored s \<Longrightarrow> sameSessions s s'"
  using stored_eqD[of s' s] by (simp add: sameSessions_def)

lemma stored_sameActive: "stored s' = stored s \<Longrightarrow> sameActive s s'"
  using stored_eqD[of s' s] by (simp add: sameActive_def)

lemma stored_resolve: "stored s' = stored s \<Longrightarrow> resolveIdentifier i s' = resolveIdentifier i s"
  using stored_eqD[of s' s] by (intro resolve_cong) simp_all

lemma stored_getUserState: "stored s' = stored s \<Longrightarrow> getUserState p s' = getUserState p s"
  using stored_eqD[of s' s] by (simp add: getUserState_def)

lemma stored_getHandoffState: "stored s' = stored s \<Longrightarrow> getHandoffState p s' = getHandoffState p s"
  using stored_eqD[of s' s] by (simp add: getHandoffState_def)

lemmas stored_ops = stored_outputs stored_timeoutNotifyAgents
lemmas stored_ops_recordOf [simp] = stored_ops[THEN stored_sameSessions, THEN sameSessions_recordOf]
lemmas stored_ops_getSession [simp] = stored_ops[THEN stored_sameSessions, THEN sameSessions_getSession]
lemmas stored_ops_persistTarget [simp] = stored_ops[THEN stored_sameSessions, THEN sameSessions_persistTarget]
lemmas stored_ops_isConnected [simp] = stored_ops[THEN stored_sameSessions, THEN sameSessions_isConnected]
lemmas stored_ops_activeOf [simp] = stored_ops[THEN stored_sameActive, THEN sameActive_activeOf]
lemmas stored_ops_resolve [simp] = stored_ops[THEN stored_resolve]
lemmas stored_ops_getUserState [simp] = stored_ops[THEN stored_getUserState]
lemmas stored_ops_getHandoffState [simp] = stored_ops[THEN stored_getHandoffState]


lemma sameIdentity_resolve: "sameIdentity s s' \<Longrightarrow> resolveIdentifier i s' = resolveIdentifier i s"
  by (rule resolve_cong) (simp_all add: sameIdentity_def)

lemma sameIdentity_getUserState: "sameIdentity s s' \<Longrightarrow> getUserState p s' = getUserState p s"
  by (simp add: sameIdentity_def getUserState_def)

lemma sameIdentity_prims:
  "sameIdentity s (clearTimer i s)"
  "sameIdentity s (snd (setTimer tm s))"
  "sameIdentity s (clearHandoffTimeout p s)"
  "sameIdentity s (setHandoffTimeout p sid s)"
  "sameIdentity s (clearUserInactivityTimeout p s)"
  "sameIdentity s (setUserInactivityTimeout p s)"
  "sameIdentity s (startWaitingTimeUpdater sid ts pid s)"
  "sameIdentity s (stopSessionDurationUpdater p s)"
  "sameIdentity s (setHandoffState p h ttl s)"
  "sameIdentity s (deleteHandoffState p s)"
  "sameIdentity s (setTimerStart p t s)"
  "sameIdentity s (deleteTimer p s)"
  "sameIdentity s (stopWaitingTimeUpdater p s)"
  "sameIdentity s (snd (setActiveSession p a ttl s))"
  "sameIdentity s (deleteActiveSession p s)"
  "sameIdentity s (getAllActiveSessions s)"
  "sameIdentity s (updateActiveSessionId p sid s)"
  "sameIdentity s (startSessionDurationUpdater p ts s)"
  "sameIdentity s (s\<lparr>sessionConversationHistory := a'\<rparr>)"
  "sameIdentity s (s\<lparr>cachedSummaries := b'\<rparr>)"
  "sameIdentity s (s\<lparr>handoffTimeouts := c'\<rparr>)"
  "sameIdentity s (s\<lparr>connectionRequestTimes := d'\<rparr>)"
  "sameIdentity s (s\<lparr>waitingSessions := f'\<rparr>)"
  by (simp_all add: sameIdentity_def clearTimer_def setTimer_def
      clearHandoffTimeout_def setHandoffTimeout_def clearUserInactivityTimeout_def
      setUserInactivityTimeout_def startWaitingTimeUpdater_def stopSessionDurationUpdater_def
      setHandoffState_def
      deleteHandoffState_def setTimerStart_def deleteTimer_def stopWaitingTimeUpdater_def
      setActiveSession_def getActiveSession_def
      deleteActiveSession_def getAllActiveSessions_def updateActiveSessionId_def
      startSessionDurationUpdater_def
      split_def Let_def split: option.splits prod.splits)

lemmas resolve_prims [simp] = sameIdentity_prims[THEN sameIdentity_resolve]
lemmas getUserState_prims [simp] = sameIdentity_prims[THEN sameIdentity_getUserState]

lemma timeoutCleanup_views [simp]:
  "isConnected (timeoutCleanup pid s) = isConnected s"
  "recordOf sid pid' (timeoutCleanup pid s) = recordOf sid pid' s"
  "activeOf q (timeoutCleanup pid s) = activeOf q s"
  "persistTarget pid' (timeoutCleanup pid s) = persistTarget pid' s"
  "resolveIdentifier i (timeoutCleanup pid s) = resolveIdentifier i s"
  "sessionStateKeys (timeoutCleanup pid s) = sessionStateKeys s"
  "sessions (timeoutCleanup pid s) = sessions s"
  by (simp_all add: timeoutCleanup_def Let_def)

lemma stopWaitingTimeUpdater_fields:
  "handoffStates (stopWaitingTimeUpdater p s) = (if isConnected s then (handoffStates s)(p := None) else handoffStates s)"
  "handoffTimeouts (stopWaitingTimeUpdater p s) = handoffTimeouts s"
  "emitted (stopWaitingTimeUpdater p s) = emitted s"
  "dbLog (stopWaitingTimeUpdater p s) = dbLog s"
  "slackCalls (stopWaitingTimeUpdater p s) = slackCalls s"
  by (simp_all add: stopWaitingTimeUpdater_def deleteTimer_def deleteHandoffState_def clearTimer_def
      Let_def split: option.splits)

lemma timeoutCleanup_fields [simp]:
  "getHandoffState pid (timeoutCleanup pid s) = None"
  "handoffTimeouts (timeoutCleanup pid s) pid = None"
  "emitted (timeoutCleanup pid s) = emitted s"
  "dbLog (timeoutCleanup pid s) = dbLog s"
  by (simp_all add: timeoutCleanup_def Let_def getHandoffState_def stopWaitingTimeUpdater_fields
      deleteTimer_def deleteHandoffState_def)

lemma timeoutResetState_views [simp]:
  "isConnected (timeoutResetState pid c e now s) = isConnected s"
  "activeOf q (timeoutResetState pid c e now s) = activeOf q s"
  "persistTarget pid' (timeoutResetState pid c e now s) = persistTarget pid' s"
  "resolveIdentifier i (timeoutResetState pid c e now s) = resolveIdentifier i s"
  by (simp_all add: timeoutResetState_def)

lemma timeoutResetState_dbLog [simp]:
  "dbLog (timeoutResetState pid c e now s) = dbLog s"
  by (simp add: timeoutResetState_def emit_def)

lemma timeoutResetState_record:
  "c \<noteq> [] \<Longrightarrow>
     recordOf c (Some pid) (timeoutResetState pid c e now s) =
       Some ((afterRead c (Some pid) now s)\<lparr>state := SEEKING_HANDOFF, lastActivity := now\<rparr>)"
  by (simp add: timeoutResetState_def recordOf_setSessionState)

lemma timeoutResetState_emitted:
  "c \<noteq> [] \<Longrightarrow> ioPresent e \<Longrightarrow>
     emitted (timeoutResetState pid c e now s) =
       emitted s @
       [Emit c ''handoff_timeout''
          ''Our team is currently busy. You can continue chatting with our AI Assistant, or try requesting human assistance again later.'',
        Emit c ''message''
          ''I apologise, but no one from our team is currently available to assist you. You can continue chatting with me, or try requesting human assistance again later.'']"
  by (simp add: timeoutResetState_def emit_def)

lemma timeoutSession_nonempty: "sid \<noteq> [] \<Longrightarrow> timeoutSession pid sid s \<noteq> []"
  by (auto simp: timeoutSession_def dest!: truthyId_SomeD split: option.splits)

lemma callback_views:
  "isConnected (handoffTimeoutCallback pid sid e now s) = isConnected s"
  "activeOf q (handoffTimeoutCallback pid sid e now s) = activeOf q s"
  "resolveIdentifier i (handoffTimeoutCallback pid sid e now s) = resolveIdentifier i s"
  "getHandoffState pid (handoffTimeoutCallback pid sid e now s) = None"
  "handoffTimeouts (handoffTimeoutCallback pid sid e now s) pid = None"
  "dbLog (handoffTimeoutCallback pid sid e now s) = dbLog s @ [LogHandoffTimeout pid]"
  by (simp_all add: handoffTimeoutCallback_def Let_def)
    (simp add: timeoutNotifyAgents_def out_defs split: option.splits)

lemma timeoutSession_stored: "stored s' = stored s \<Longrightarrow> timeoutSession pid sid s' = timeoutSession pid sid s"
  using stored_getUserState[of s' s pid] by (simp add: timeoutSession_def)

lemma callback_record:
  assumes "sid \<noteq> []"
  shows "recordOf (timeoutSession pid sid s) (Some pid) (handoffTimeoutCallback pid sid e now s) =
       Some ((afterRead (timeoutSession pid sid s) (Some pid) now s)
              \<lparr>state := SEEKING_HANDOFF, lastActivity := now\<rparr>)"
proof -
  let ?s1 = "timeoutNotifyAgents pid e (dbWrite (LogHandoffTimeout pid) s)"
  have st: "stored ?s1 = stored s" by simp
  have c: "timeoutSession pid sid ?s1 = timeoutSession pid sid s"
    by (rule timeoutSession_stored[OF st])
  have ar: "afterRead x y z ?s1 = afterRead x y z s" for x y z
    by (simp add: afterRead_def connectedKey_def)
  show ?thesis
    by (simp add: handoffTimeoutCallback_def Let_def c timeoutResetState_record
        timeoutSession_nonempty[OF assms] ar)
qed

lemma samePending_getHandoffState: "samePending s s' \<Longrightarrow> getHandoffState p s' = getHandoffState p s"
  by (simp add: samePending_def getHandoffState_def)

lemma samePending_prims:
  "samePending s (clearTimer i s)"
  "samePending s (snd (setTimer tm s))"
  "samePending s (clearHandoffTimeout p s)"
  "samePending s (setHandoffTimeout p sid s)"
  "samePending s (clearUserInactivityTimeout p s)"
  "samePending s (setUserInactivityTimeout p s)"
  "samePending s (startWaitingTimeUpdater sid ts pid s)"
  "samePending s (stopSessionDurationUpdater p s)"
  "samePending s (setUserState p fvs s)"
  "samePending s (updateCurrentSession p sid s)"
  "samePending s (setSessionMapping sid p s)"
  "samePending s (setTimerStart p t s)"
  "samePending s (deleteTimer p s)"
  "samePending s (snd (setActiveSession p a ttl s))"
  "samePending s (deleteActiveSession p s)"
  "samePending s (getAllActiveSessions s)"
  "samePending s (updateActiveSessionId p sid s)"
  "samePending s (startSessionDurationUpdater p ts s)"
  "samePending s (mapUserToSession p sid s)"
  "samePending s (s\<lparr>sessionConversationHistory := a'\<rparr>)"
  "samePending s (s\<lparr>cachedSummaries := b'\<rparr>)"
  "samePending s (s\<lparr>handoffTimeouts := c'\<rparr>)"
  "samePending s (s\<lparr>connectionRequestTimes := d'\<rparr>)"
  "samePending s (s\<lparr>waitingSessions := f'\<rparr>)"
  by (simp_all add: samePending_def clearTimer_def setTimer_def
      clearHandoffTimeout_def setHandoffTimeout_def clearUserInactivityTimeout_def
      setUserInactivityTimeout_def startWaitingTimeUpdater_def stopSessionDurationUpdater_def
      setUserState_def updateUserField_def updateCurrentSession_def setSessionMapping_def
      setTimerStart_def deleteTimer_def
      setActiveSession_def getActiveSession_def
      deleteActiveSession_def getAllActiveSessions_def updateActiveSessionId_def
      startSessionDurationUpdater_def mapUserToSession_def
      split_def Let_def split: option.splits prod.splits)

lemmas getHandoffState_prims [simp] = samePending_prims[THEN samePending_getHandoffState]

lemma getHandoffState_deleteHandoffState [simp]:
  "getHandoffState p (deleteHandoffState p s) = None"
  by (simp add: getHandoffState_def deleteHandoffState_def)

lemma hSet_currentSession:
  "map_of (hSet h [(a1, v1), (a2, v2), (a3, v3), (a4, v4), (''currentSessionId'', sid)])
     ''currentSessionId'' = Some sid"
  by (simp add: update_conv')

lemma hSet_nonempty: "fvs \<noteq> [] \<Longrightarrow> hSet h fvs \<noteq> []"
proof (induction fvs arbitrary: h rule: rev_induct)
  case Nil
  then show ?case by simp
next
  case (snoc x xs)
  have a: "hSet h (xs @ [x]) = AList.update (fst x) (snd x) (hSet h xs)"
    by (induction xs arbitrary: h) (cases x, simp, auto)
  show ?case unfolding a by simp
qed

lemma getUserState_setUserState:
  "isConnected s \<Longrightarrow> fvs \<noteq> [] \<Longrightarrow>
     getUserState p (setUserState p fvs s) = Some (hSet (userHashes s p) fvs)"
  by (simp add: getUserState_def setUserState_def hSet_nonempty)

lemma acceptCommit_identity:
  assumes "slackOk e" "isConnected s" "sid \<noteq> []"
  shows "getHandoffState p (snd (acceptCommit p sid userId userName ts e now s)) = None"
    and "resolveIdentifier p (snd (acceptCommit p sid userId userName ts e now s)) = (Some p, sid)"
    and "timeoutSession p x (snd (acceptCommit p sid userId userName ts e now s)) = sid"
proof -
  let ?fv = "[(''agentConnected'', ''true''), (''agentName'', userName), (''agentId'', userId),
                     (''connectedAt'', isoNow e), (''currentSessionId'', sid)]"
  let ?s4 = "getAllActiveSessions (snd (getActiveSession p (snd (setActiveSession p
               (connectionOf p sid userId userName ts now) 3600
               (slackCall (ChatUpdate ts (''Chat accepted by '' @ userName)) s
                 \<lparr>sessionConversationHistory :=
                    (sessionConversationHistory (slackCall (ChatUpdate ts (''Chat accepted by '' @ userName)) s))
                    (sid := None)\<rparr>)))))"
  have c4: "isConnected ?s4" using assms(2) by simp
  have u: "getUserState p (snd (acceptCommit p sid userId userName ts e now s)) =
             Some (hSet (userHashes ?s4 p) ?fv)"
    using assms(1) c4
    by (simp add: acceptCommit_def Let_def connectionOf_def getUserState_setUserState)
  show "getHandoffState p (snd (acceptCommit p sid userId userName ts e now s)) = None"
    using assms(1) by (simp add: acceptCommit_def Let_def)
  show "resolveIdentifier p (snd (acceptCommit p sid userId userName ts e now s)) = (Some p, sid)"
    using assms(3) by (simp add: resolveIdentifier_def u update_conv')
  show "timeoutSession p x (snd (acceptCommit p sid userId userName ts e now s)) = sid"
    using assms(3) by (simp add: timeoutSession_def u update_conv')
qed


lemma handleAcceptButton_commit:
  assumes "fst (acceptCheck identifier ts e s) = Proceed p sid"
  shows "handleAcceptButton identifier userId userName ts e now s =
           acceptCommit p sid userId userName ts e now (snd (getActiveSession p s))"
proof -
  note d = acceptCheck_ProceedD[OF assms]
  obtain c s1 where c: "acceptCheck identifier ts e s = (c, s1)" by (cases "acceptCheck identifier ts e s")
  with assms d(7) have "acceptCheck identifier ts e s = (Proceed p sid, snd (getActiveSession p s))"
    by simp
  then show ?thesis by (simp add: handleAcceptButton_def)
qed

lemma handleAcceptButton_identity:
  assumes "fst (acceptCheck identifier ts e s) = Proceed p sid" "slackOk e"
  shows "getHandoffState p (snd (handleAcceptButton identifier userId userName ts e now s)) = None"
    and "resolveIdentifier p (snd (handleAcceptButton identifier userId userName ts e now s)) = (Some p, sid)"
    and "timeoutSession p x (snd (handleAcceptButton identifier userId userName ts e now s)) = sid"
proof -
  note d = acceptCheck_ProceedD[OF assms(1)]
  have ic: "isConnected (snd (getActiveSession p s))" using d(5) by simp
  note a = acceptCommit_identity[OF assms(2) ic d(3)]
  show "getHandoffState p (snd (handleAcceptButton identifier userId userName ts e now s)) = None"
    by (simp add: handleAcceptButton_commit[OF assms(1)] a)
  show "resolveIdentifier p (snd (handleAcceptButton identifier userId userName ts e now s)) = (Some p, sid)"
    by (simp add: handleAcceptButton_commit[OF assms(1)] a)
  show "timeoutSession p x (snd (handleAcceptButton identifier userId userName ts e now s)) = sid"
    by (simp add: handleAcceptButton_commit[OF assms(1)] a)
qed

lemma handleAcceptButton_cases:
  "handleAcceptButton identifier userId userName ts e now s =
     (case acceptCheck identifier ts e s of
        (Finished r, s1) \<Rightarrow> (r, s1)
      | (Proceed p sid, s1) \<Rightarrow> acceptCommit p sid userId userName ts e now s1)"
  by (simp add: handleAcceptButton_def)

text \<open>
  Claim C2, as the code has it. The click on the accept button is answered with
  \<^verbatim>\<open>already_taken\<close> and the name of the agent who holds the connection whenever
  the identifier resolves to a user with an active connection (the call throws
  instead when the update of the Slack message fails), and with
  \<^verbatim>\<open>Session not found\<close> whenever the identifier resolves to no user or to no session.
  In both cases only a Slack message or the error log is written. A pending request
  is not looked for: when the identifier resolves and the user has no active
  connection, the click is accepted if the update of the Slack message succeeds and
  answered with \<^verbatim>\<open>Failed to create chat thread\<close> if it fails.
\<close>

theorem accept_failure_cases:
  "(truthyId (fst (resolveIdentifier identifier s)) = Some p \<and>
    snd (resolveIdentifier identifier s) \<noteq> [] \<and> fst (getActiveSession p s) = Some a \<longrightarrow>
      fst (handleAcceptButton identifier userId userName ts e now s) =
        (if slackOk e
         then Inr \<lparr>status = ''already_taken'',
                    message = Some (''This chat is already being handled by '' @ agentName a),
                    reply_threadTs = None\<rparr>
         else Inl SlackApiError) \<and>
      stored (snd (handleAcceptButton identifier userId userName ts e now s)) = stored s) \<and>
   (truthyId (fst (resolveIdentifier identifier s)) = None \<or>
    snd (resolveIdentifier identifier s) = [] \<longrightarrow>
      fst (handleAcceptButton identifier userId userName ts e now s) =
        Inr \<lparr>status = ''error'', message = Some ''Session not found'', reply_threadTs = None\<rparr> \<and>
      stored (snd (handleAcceptButton identifier userId userName ts e now s)) = stored s) \<and>
   (truthyId (fst (resolveIdentifier identifier s)) = Some p \<and>
    snd (resolveIdentifier identifier s) \<noteq> [] \<and> fst (getActiveSession p s) = None \<longrightarrow>
      fst (handleAcceptButton identifier userId userName ts e now s) =
        (if slackOk e
         then Inr \<lparr>status = ''accepted'', message = None, reply_threadTs = Some ts\<rparr>
         else Inr \<lparr>status = ''error'', message = Some ''Failed to create chat thread'',
                    reply_threadTs = None\<rparr>))"
proof (intro conjI impI)
  assume h: "truthyId (fst (resolveIdentifier identifier s)) = Some p \<and>
    snd (resolveIdentifier identifier s) \<noteq> [] \<and> fst (getActiveSession p s) = Some a"
  then have h1: "truthyId (fst (resolveIdentifier identifier s)) = Some p"
    and h2: "snd (resolveIdentifier identifier s) \<noteq> []"
    and h3: "activeOf p s = Some a"
    by (simp_all add: getActiveSession_fst)
  note t = acceptCheck_taken[OF h1 h2 h3, of ts e]
  show "fst (handleAcceptButton identifier userId userName ts e now s) =
        (if slackOk e
         then Inr \<lparr>status = ''already_taken'',
                    message = Some (''This chat is already being handled by '' @ agentName a),
                    reply_threadTs = None\<rparr>
         else Inl SlackApiError)"
    by (simp add: handleAcceptButton_cases t)
  show "stored (snd (handleAcceptButton identifier userId userName ts e now s)) = stored s"
    by (simp add: handleAcceptButton_cases t)
next
  assume h: "truthyId (fst (resolveIdentifier identifier s)) = None \<or>
    snd (resolveIdentifier identifier s) = []"
  note t = acceptCheck_unresolved[OF h]
  show "fst (handleAcceptButton identifier userId userName ts e now s) =
        Inr \<lparr>status = ''error'', message = Some ''Session not found'', reply_threadTs = None\<rparr>"
    by (simp add: handleAcceptButton_cases t)
  show "stored (snd (handleAcceptButton identifier userId userName ts e now s)) = stored s"
    by (simp add: handleAcceptButton_cases t)
next
  assume h: "truthyId (fst (resolveIdentifier identifier s)) = Some p \<and>
    snd (resolveIdentifier identifier s) \<noteq> [] \<and> fst (getActiveSession p s) = None"
  then have h1: "truthyId (fst (resolveIdentifier identifier s)) = Some p"
    and h2: "snd (resolveIdentifier identifier s) \<noteq> []"
    and h3: "activeOf p s = None"
    by (simp_all add: getActiveSession_fst)
  have c: "fst (acceptCheck identifier ts e s) = Proceed p (snd (resolveIdentifier identifier s))"
    by (simp add: acceptCheck_free[OF h1 h2 h3])
  show "fst (handleAcceptButton identifier userId userName ts e now s) =
        (if slackOk e
         then Inr \<lparr>status = ''accepted'', message = None, reply_threadTs = Some ts\<rparr>
         else Inr \<lparr>status = ''error'', message = Some ''Failed to create chat thread'',
                    reply_threadTs = None\<rparr>)"
  proof (cases "slackOk e")
    case True
    then show ?thesis by (simp add: handleAcceptButton_accepted(1)[OF c True])
  next
    case False
    then show ?thesis by (simp add: handleAcceptButton_commit[OF c] acceptCommit_failed)
  qed
qed

lemma connectedWorld_identity:
  "getHandoffState ''u1'' connectedWorld = None"
  "resolveIdentifier ''u1'' connectedWorld = (Some ''u1'', ''s1'')"
  "timeoutSession ''u1'' x connectedWorld = ''s1''"
  unfolding connectedWorld_def
  by (simp_all add: handleAcceptButton_identity[OF waitingWorld_check])

lemma initialWorld_unresolved:
  "resolveIdentifier i (initialWorld c) = (None, i)"
  by (simp add: resolveIdentifier_def getUserState_def getSessionMapping_def initialWorld_def)

theorem accept_failure_cases_witness:
  "(truthyId (fst (resolveIdentifier ''u1'' connectedWorld)) = Some ''u1'' \<and>
    snd (resolveIdentifier ''u1'' connectedWorld) \<noteq> [] \<and>
    fst (getActiveSession ''u1'' connectedWorld) =
      Some (connectionOf ''u1'' ''s1'' ''A1'' ''alice'' ''1700000000.000100'' 2000)) \<and>
   fst (handleAcceptButton ''u1'' ''A2'' ''bob'' ''1700000000.000100'' liveEnv 2001 connectedWorld) =
     Inr \<lparr>status = ''already_taken'',
          message = Some ''This chat is already being handled by alice'',
          reply_threadTs = None\<rparr> \<and>
   stored (snd (handleAcceptButton ''u1'' ''A2'' ''bob'' ''1700000000.000100'' liveEnv 2001 connectedWorld)) =
     stored connectedWorld \<and>
   (truthyId (fst (resolveIdentifier ''nobody'' (initialWorld True))) = None \<or>
    snd (resolveIdentifier ''nobody'' (initialWorld True)) = []) \<and>
   fst (handleAcceptButton ''nobody'' ''A2'' ''bob'' ''1700000000.000100'' liveEnv 2001 (initialWorld True)) =
     Inr \<lparr>status = ''error'', message = Some ''Session not found'', reply_threadTs = None\<rparr> \<and>
   stored (snd (handleAcceptButton ''nobody'' ''A2'' ''bob'' ''1700000000.000100'' liveEnv 2001 (initialWorld True))) =
     stored (initialWorld True) \<and>
   (truthyId (fst (resolveIdentifier ''u1'' waitingWorld)) = Some ''u1'' \<and>
    snd (resolveIdentifier ''u1'' waitingWorld) \<noteq> [] \<and>
    fst (getActiveSession ''u1'' waitingWorld) = None) \<and>
   fst (handleAcceptButton ''u1'' ''A1'' ''alice'' ''1700000000.000100'' liveEnv 2000 waitingWorld) =
     Inr \<lparr>status = ''accepted'', message = None, reply_threadTs = Some ''1700000000.000100''\<rparr>"
proof -
  have h1: "truthyId (fst (resolveIdentifier ''u1'' connectedWorld)) = Some ''u1'' \<and>
    snd (resolveIdentifier ''u1'' connectedWorld) \<noteq> [] \<and>
    fst (getActiveSession ''u1'' connectedWorld) =
      Some (connectionOf ''u1'' ''s1'' ''A1'' ''alice'' ''1700000000.000100'' 2000)"
    by (simp add: connectedWorld_identity getActiveSession_fst connectedWorld_facts)
  have h2: "truthyId (fst (resolveIdentifier ''nobody'' (initialWorld True))) = None \<or>
    snd (resolveIdentifier ''nobody'' (initialWorld True)) = []"
    by (simp add: initialWorld_unresolved truthyId_def persistKey_def)
  have h3: "truthyId (fst (resolveIdentifier ''u1'' waitingWorld)) = Some ''u1'' \<and>
    snd (resolveIdentifier ''u1'' waitingWorld) \<noteq> [] \<and>
    fst (getActiveSession ''u1'' waitingWorld) = None"
    by (simp add: waitingWorld_facts getActiveSession_fst)
  note a = accept_failure_cases[of "''u1''" connectedWorld "''u1''"
      "connectionOf ''u1'' ''s1'' ''A1'' ''alice'' ''1700000000.000100'' 2000"
      "''A2''" "''bob''" "''1700000000.000100''" liveEnv 2001]
  note b = accept_failure_cases[of "''nobody''" "initialWorld True" "''u1''"
      "connectionOf ''u1'' ''s1'' ''A1'' ''alice'' ''1700000000.000100'' 2000"
      "''A2''" "''bob''" "''1700000000.000100''" liveEnv 2001]
  note c = accept_failure_cases[of "''u1''" waitingWorld "''u1''"
      "connectionOf ''u1'' ''s1'' ''A1'' ''alice'' ''1700000000.000100'' 2000"
      "''A1''" "''alice''" "''1700000000.000100''" liveEnv 2000]
  have n: "agentName (connectionOf ''u1'' ''s1'' ''A1'' ''alice'' ''1700000000.000100'' 2000) = ''alice''"
    by (simp add: connectionOf_def)
  from a h1 have a': "fst (handleAcceptButton ''u1'' ''A2'' ''bob'' ''1700000000.000100'' liveEnv 2001 connectedWorld) =
     Inr \<lparr>status = ''already_taken'',
          message = Some ''This chat is already being handled by alice'',
          reply_threadTs = None\<rparr> \<and>
   stored (snd (handleAcceptButton ''u1'' ''A2'' ''bob'' ''1700000000.000100'' liveEnv 2001 connectedWorld)) =
     stored connectedWorld"
    by (simp add: n)
  from b h2 have b': "fst (handleAcceptButton ''nobody'' ''A2'' ''bob'' ''1700000000.000100'' liveEnv 2001 (initialWorld True)) =
     Inr \<lparr>status = ''error'', message = Some ''Session not found'', reply_threadTs = None\<rparr> \<and>
   stored (snd (handleAcceptButton ''nobody'' ''A2'' ''bob'' ''1700000000.000100'' liveEnv 2001 (initialWorld True))) =
     stored (initialWorld True)"
    by blast
  from c h3 have c': "fst (handleAcceptButton ''u1'' ''A1'' ''alice'' ''1700000000.000100'' liveEnv 2000 waitingWorld) =
     Inr \<lparr>status = ''accepted'', message = None, reply_threadTs = Some ''1700000000.000100''\<rparr>"
    by simp
  from h1 h2 h3 a' b' c' show ?thesis by blast
qed

lemma timedOutWorld_unfold:
  "timedOutWorld = handoffTimeoutCallback ''u1'' ''s1'' liveEnv 601000 (clearTimer 0 waitingWorld)"
  by (simp add: timedOutWorld_def fireHandoffTimeout_def waitingWorld_eq)

lemma timedOutWorld_facts:
  "getHandoffState ''u1'' timedOutWorld = None"
  "resolveIdentifier ''u1'' timedOutWorld = (Some ''u1'', ''s1'')"
  "activeOf ''u1'' timedOutWorld = None"
  by (simp_all add: timedOutWorld_unfold callback_views waitingWorld_facts)

text \<open>
  Claim C2, as stated, fails where the identifier resolves and no request is
  pending: the request of \<^verbatim>\<open>u1\<close> timed out and was removed, and a click on the accept
  button of that request afterwards is accepted and creates the connection.
\<close>

theorem accept_without_pending_request:
  "getHandoffState ''u1'' timedOutWorld = None \<and>
   fst (handleAcceptButton ''u1'' ''A2'' ''bob'' ''1700000000.000100'' liveEnv 700000 timedOutWorld) =
     Inr \<lparr>status = ''accepted'', message = None, reply_threadTs = Some ''1700000000.000100''\<rparr> \<and>
   activeOf ''u1''
     (snd (handleAcceptButton ''u1'' ''A2'' ''bob'' ''1700000000.000100'' liveEnv 700000 timedOutWorld)) =
     Some (connectionOf ''u1'' ''s1'' ''A2'' ''bob'' ''1700000000.000100'' 700000)"
proof -
  have c: "fst (acceptCheck ''u1'' ''1700000000.000100'' liveEnv timedOutWorld) = Proceed ''u1'' ''s1''"
    by (simp add: acceptCheck_free[of "''u1''" timedOutWorld "''u1''"] timedOutWorld_facts)
  show ?thesis
    by (simp add: timedOutWorld_facts handleAcceptButton_accepted[OF c])
qed

lemma acceptCheck_again:
  assumes "fst (acceptCheck ident ts e s) = Proceed p sid"
  shows "fst (acceptCheck ident ts' e' (snd (acceptCheck ident ts e s))) = Proceed p sid"
    and "isConnected (snd (acceptCheck ident ts' e' (snd (acceptCheck ident ts e s))))"
proof -
  note d = acceptCheck_ProceedD[OF assms]
  let ?s1 = "snd (getActiveSession p s)"
  have r: "resolveIdentifier ident ?s1 = resolveIdentifier ident s" by simp
  have a: "activeOf p ?s1 = None" using d(4) by simp
  have f: "acceptCheck ident ts' e' ?s1 = (Proceed p sid, snd (getActiveSession p ?s1))"
    using acceptCheck_free[of ident ?s1 p ts' e'] d a by (simp add: r)
  show "fst (acceptCheck ident ts' e' (snd (acceptCheck ident ts e s))) = Proceed p sid"
    by (simp add: d(7) f)
  show "isConnected (snd (acceptCheck ident ts' e' (snd (acceptCheck ident ts e s))))"
    using d(5) by (simp add: d(7) f)
qed

text \<open>
  Claim C1 at two concurrent clicks. Both calls of \<^verbatim>\<open>handleAcceptButton\<close> read the
  active session of \<^verbatim>\<open>u1\<close> before either writes it, since each awaits the update of
  the Slack message in between: both reads find nothing, both writes are done, both
  agents are answered \<^verbatim>\<open>accepted\<close>, and the connection of the first agent is
  overwritten by that of the second.
\<close>

theorem concurrent_accepts_both_succeed:
  "fst (acceptCheck ''u1'' ''1700000000.000100'' liveEnv waitingWorld) = Proceed ''u1'' ''s1'' \<and>
   fst (acceptCheck ''u1'' ''1700000000.000100'' liveEnv
         (snd (acceptCheck ''u1'' ''1700000000.000100'' liveEnv waitingWorld))) =
     Proceed ''u1'' ''s1'' \<and>
   fst (acceptCommit ''u1'' ''s1'' ''A1'' ''alice'' ''1700000000.000100'' liveEnv 2000 bothCheckedWorld) =
     Inr \<lparr>status = ''accepted'', message = None, reply_threadTs = Some ''1700000000.000100''\<rparr> \<and>
   activeOf ''u1''
     (snd (acceptCommit ''u1'' ''s1'' ''A1'' ''alice'' ''1700000000.000100'' liveEnv 2000 bothCheckedWorld)) =
     Some (connectionOf ''u1'' ''s1'' ''A1'' ''alice'' ''1700000000.000100'' 2000) \<and>
   fst (acceptCommit ''u1'' ''s1'' ''A2'' ''bob'' ''1700000000.000100'' liveEnv 2001
         (snd (acceptCommit ''u1'' ''s1'' ''A1'' ''alice'' ''1700000000.000100'' liveEnv 2000
                bothCheckedWorld))) =
     Inr \<lparr>status = ''accepted'', message = None, reply_threadTs = Some ''1700000000.000100''\<rparr> \<and>
   activeOf ''u1''
     (snd (acceptCommit ''u1'' ''s1'' ''A2'' ''bob'' ''1700000000.000100'' liveEnv 2001
            (snd (acceptCommit ''u1'' ''s1'' ''A1'' ''alice'' ''1700000000.000100'' liveEnv 2000
                   bothCheckedWorld)))) =
     Some (connectionOf ''u1'' ''s1'' ''A2'' ''bob'' ''1700000000.000100'' 2001)"
proof -
  have c: "isConnected bothCheckedWorld"
    unfolding bothCheckedWorld_def by (rule acceptCheck_again(2)[OF waitingWorld_check])
  have u: "''u1'' \<noteq> []" by simp
  note a = acceptCommit_effects[OF liveEnv_simps(1) c u]
  have c2: "isConnected (snd (acceptCommit ''u1'' ''s1'' ''A1'' ''alice'' ''1700000000.000100'' liveEnv 2000
                bothCheckedWorld))"
    by (rule a(4))
  note b = acceptCommit_effects[OF liveEnv_simps(1) c2 u]
  show ?thesis
    by (simp add: waitingWorld_check acceptCheck_again(1)[OF waitingWorld_check] a(1,2) b(1,2))
qed

lemma emitted_timeoutNotifyAgents [simp]:
  "emitted (timeoutNotifyAgents pid e s) = emitted s"
  by (simp add: timeoutNotifyAgents_def out_defs split: option.splits)

lemma emitted_dbWrite [simp]: "emitted (dbWrite r s) = emitted s"
  by (simp add: dbWrite_def)

lemma callback_emitted:
  assumes "sid \<noteq> []" "ioPresent e"
  shows "emitted (handoffTimeoutCallback pid sid e now s) =
       emitted s @
       [Emit (timeoutSession pid sid s) ''handoff_timeout''
          ''Our team is currently busy. You can continue chatting with our AI Assistant, or try requesting human assistance again later.'',
        Emit (timeoutSession pid sid s) ''message''
          ''I apologise, but no one from our team is currently available to assist you. You can continue chatting with me, or try requesting human assistance again later.'']"
proof -
  let ?s1 = "timeoutNotifyAgents pid e (dbWrite (LogHandoffTimeout pid) s)"
  have st: "stored ?s1 = stored s" by simp
  have c: "timeoutSession pid sid ?s1 = timeoutSession pid sid s"
    by (rule timeoutSession_stored[OF st])
  show ?thesis
    by (simp add: handoffTimeoutCallback_def Let_def c
        timeoutResetState_emitted[OF timeoutSession_nonempty[OF assms(1)] assms(2)])
qed

lemma stored_recordOf: "stored s' = stored s \<Longrightarrow> recordOf sid pid s' = recordOf sid pid s"
  by (rule sameSessions_recordOf[OF stored_sameSessions])

text \<open>
  Claim C5 at a timeout that fired just before the claim. The body of the callback
  resumes after its first \<^verbatim>\<open>await\<close> in the state the accepted claim left: no request
  is pending and \<^verbatim>\<open>alice\<close> is connected. It does not look whether the request is
  still waiting: it overwrites the state NORMAL_CHAT of the record with
  SEEKING_HANDOFF and tells the visitor that nobody is available.
\<close>

theorem timeout_body_after_claim_changes_state:
  "getHandoffState ''u1'' connectedWorld = None \<and>
   activeOf ''u1'' connectedWorld =
     Some (connectionOf ''u1'' ''s1'' ''A1'' ''alice'' ''1700000000.000100'' 2000) \<and>
   map_option state (recordOf ''s1'' (Some ''u1'') connectedWorld) = Some NORMAL_CHAT \<and>
   map_option state
     (recordOf ''s1'' (Some ''u1'') (handoffTimeoutCallback ''u1'' ''s1'' liveEnv 2001 connectedWorld)) =
     Some SEEKING_HANDOFF \<and>
   emitted (handoffTimeoutCallback ''u1'' ''s1'' liveEnv 2001 connectedWorld) =
     emitted connectedWorld @
       [Emit ''s1'' ''handoff_timeout''
          ''Our team is currently busy. You can continue chatting with our AI Assistant, or try requesting human assistance again later.'',
        Emit ''s1'' ''message''
          ''I apologise, but no one from our team is currently available to assist you. You can continue chatting with me, or try requesting human assistance again later.''] \<and>
   stored (handoffTimeoutCallback ''u1'' ''s1'' liveEnv 2001 connectedWorld) \<noteq> stored connectedWorld"
proof -
  have s: "''s1'' \<noteq> []" by simp
  have r: "map_option state
     (recordOf ''s1'' (Some ''u1'') (handoffTimeoutCallback ''u1'' ''s1'' liveEnv 2001 connectedWorld)) =
     Some SEEKING_HANDOFF"
    using callback_record[OF s, of "''u1''" connectedWorld liveEnv 2001]
    by (simp add: connectedWorld_identity)
  have n: "map_option state (recordOf ''s1'' (Some ''u1'') connectedWorld) = Some NORMAL_CHAT"
    by (simp add: connectedWorld_facts)
  have d: "stored (handoffTimeoutCallback ''u1'' ''s1'' liveEnv 2001 connectedWorld) \<noteq> stored connectedWorld"
  proof
    assume "stored (handoffTimeoutCallback ''u1'' ''s1'' liveEnv 2001 connectedWorld) = stored connectedWorld"
    from stored_recordOf[OF this, of "''s1''" "Some ''u1''"] r n show False
      by (simp add: SessionState_defs)
  qed
  show ?thesis
    using r n d
    by (simp add: connectedWorld_identity connectedWorld_facts
        callback_emitted[OF s liveEnv_simps(2)])
qed

lemma cachedSummaries_views [simp]:
  "activeOf q (s\<lparr>cachedSummaries := c\<rparr>) = activeOf q s"
  "recordOf sid pid (s\<lparr>cachedSummaries := c\<rparr>) = recordOf sid pid s"
  "persistTarget pid (s\<lparr>cachedSummaries := c\<rparr>) = persistTarget pid s"
  by (simp_all add: activeOf_def recordOf_def persistTarget_def)

lemma handleEndChatButton_ended:
  assumes "activeOf p s = Some a" "persistentUserId a = p" "p \<noteq> []" "slackOk e"
  shows "fst (handleEndChatButton p userId userName ts e now s) =
           \<lparr>status = ''ended'', message = None, reply_threadTs = None\<rparr>"
    and "activeOf q (snd (handleEndChatButton p userId userName ts e now s)) =
           (if q = p then None else activeOf q s)"
    and "sessions (snd (handleEndChatButton p userId userName ts e now s)) = sessions s"
    and "sessionStateKeys (snd (handleEndChatButton p userId userName ts e now s)) = sessionStateKeys s"
    and "isConnected (snd (handleEndChatButton p userId userName ts e now s)) = isConnected s"
    and "recordOf sid pid (snd (handleEndChatButton p userId userName ts e now s)) = recordOf sid pid s"
  using assms
  by (simp_all add: handleEndChatButton_def getActiveSession_Some endTarget_def Let_def
      activeOf_deleteActiveSession)

lemma stateRead_inactive:
  assumes "isConnected s" "p \<noteq> []" "activeOf p s = None"
  shows "fst (getSessionState sid (Some p) t s) = state (fst (getSession sid (Some p) t s))"
proof -
  have pt: "persistTarget (Some p) s = Some p" using assms by (simp add: persistTarget_def)
  show ?thesis by (simp add: getSessionState_inactive[OF pt assms(3)])
qed

text \<open>
  Where the time of the last live handoff is written. An accepted click on the
  accept button stores the time of the click as \<^verbatim>\<open>lastHandoffTime\<close> of the session
  record of the user and NORMAL_CHAT as its state. A click on the end button of a
  connected user, when the Slack calls succeed, removes the connection and writes no
  session record: neither \<^verbatim>\<open>lastHandoffTime\<close> nor the state is set, and the state
  read afterwards is the one the record held.
\<close>

lemma handoff_time_set_at_accept_not_at_end:
  "(fst (acceptCheck identifier ts e s) = Proceed p sid \<and> slackOk e \<longrightarrow>
      map_option lastHandoffTime
        (recordOf sid (Some p) (snd (handleAcceptButton identifier userId userName ts e now s))) =
        Some (Some now) \<and>
      map_option state
        (recordOf sid (Some p) (snd (handleAcceptButton identifier userId userName ts e now s))) =
        Some NORMAL_CHAT) \<and>
   (activeOf p s = Some a \<and> persistentUserId a = p \<and> p \<noteq> [] \<and> slackOk e \<longrightarrow>
      fst (handleEndChatButton p userId userName ts e now s) =
        \<lparr>status = ''ended'', message = None, reply_threadTs = None\<rparr> \<and>
      activeOf p (snd (handleEndChatButton p userId userName ts e now s)) = None \<and>
      sessions (snd (handleEndChatButton p userId userName ts e now s)) = sessions s \<and>
      sessionStateKeys (snd (handleEndChatButton p userId userName ts e now s)) = sessionStateKeys s \<and>
      fst (getSessionState sid (Some p) t (snd (handleEndChatButton p userId userName ts e now s))) =
        state (fst (getSession sid (Some p) t s)))"
proof (intro conjI impI)
  assume h: "fst (acceptCheck identifier ts e s) = Proceed p sid \<and> slackOk e"
  then have h1: "fst (acceptCheck identifier ts e s) = Proceed p sid" and h2: "slackOk e" by simp_all
  note r = handleAcceptButton_accepted(3)[OF h1 h2]
  show "map_option lastHandoffTime
        (recordOf sid (Some p) (snd (handleAcceptButton identifier userId userName ts e now s))) =
        Some (Some now)"
    by (simp add: r)
  show "map_option state
        (recordOf sid (Some p) (snd (handleAcceptButton identifier userId userName ts e now s))) =
        Some NORMAL_CHAT"
    by (simp add: r)
next
  assume h: "activeOf p s = Some a \<and> persistentUserId a = p \<and> p \<noteq> [] \<and> slackOk e"
  then have h1: "activeOf p s = Some a" and h2: "persistentUserId a = p" and h3: "p \<noteq> []"
    and h4: "slackOk e" by simp_all
  note d = handleEndChatButton_ended[OF h1 h2 h3 h4]
  let ?s' = "snd (handleEndChatButton p userId userName ts e now s)"
  have c: "isConnected s" using h1 by (simp add: activeOf_def pickActive_def split: if_splits)
  show "fst (handleEndChatButton p userId userName ts e now s) =
        \<lparr>status = ''ended'', message = None, reply_threadTs = None\<rparr>" by (rule d(1))
  show "activeOf p ?s' = None" by (simp add: d(2))
  show "sessions ?s' = sessions s" by (rule d(3))
  show "sessionStateKeys ?s' = sessionStateKeys s" by (rule d(4))
  have c': "isConnected ?s'" using c by (simp add: d(5))
  have a': "activeOf p ?s' = None" by (simp add: d(2))
  show "fst (getSessionState sid (Some p) t ?s') = state (fst (getSession sid (Some p) t s))"
    by (simp add: stateRead_inactive[OF c' h3 a'] getSession_fst d(6))
qed

lemma connection_of_u1:
  "persistentUserId (connectionOf ''u1'' ''s1'' ''A1'' ''alice'' ''1700000000.000100'' 2000) = ''u1''"
  by (simp add: connectionOf_def)

lemma handoff_time_set_at_accept_then_end:
  "(fst (acceptCheck ''u1'' ''1700000000.000100'' liveEnv waitingWorld) = Proceed ''u1'' ''s1'' \<and>
    slackOk liveEnv) \<and>
   map_option lastHandoffTime (recordOf ''s1'' (Some ''u1'') connectedWorld) = Some (Some 2000) \<and>
   (activeOf ''u1'' connectedWorld =
      Some (connectionOf ''u1'' ''s1'' ''A1'' ''alice'' ''1700000000.000100'' 2000) \<and>
    persistentUserId (connectionOf ''u1'' ''s1'' ''A1'' ''alice'' ''1700000000.000100'' 2000) = ''u1'' \<and>
    ''u1'' \<noteq> [] \<and> slackOk liveEnv) \<and>
   activeOf ''u1'' endedWorld = None \<and>
   sessionStateKeys endedWorld = sessionStateKeys connectedWorld \<and>
   fst (getSessionState ''s1'' (Some ''u1'') 6000 endedWorld) = NORMAL_CHAT"
proof -
  have h1: "fst (acceptCheck ''u1'' ''1700000000.000100'' liveEnv waitingWorld) = Proceed ''u1'' ''s1'' \<and>
    slackOk liveEnv"
    by (simp add: waitingWorld_check)
  have h2: "activeOf ''u1'' connectedWorld =
      Some (connectionOf ''u1'' ''s1'' ''A1'' ''alice'' ''1700000000.000100'' 2000) \<and>
    persistentUserId (connectionOf ''u1'' ''s1'' ''A1'' ''alice'' ''1700000000.000100'' 2000) = ''u1'' \<and>
    ''u1'' \<noteq> [] \<and> slackOk liveEnv"
    by (simp add: connectedWorld_facts connection_of_u1)
  have a: "map_option lastHandoffTime (recordOf ''s1'' (Some ''u1'') connectedWorld) = Some (Some 2000)"
    using handoff_time_set_at_accept_not_at_end[of "''u1''" "''1700000000.000100''" liveEnv
        waitingWorld "''u1''" "''s1''" "''A1''" "''alice''" 2000] h1
    unfolding connectedWorld_def by blast
  note b = handoff_time_set_at_accept_not_at_end[of "''u1''" "''1700000000.000100''" liveEnv
        connectedWorld "''u1''" "''s1''" "''A1''" "''alice''" 5000
        "connectionOf ''u1'' ''s1'' ''A1'' ''alice'' ''1700000000.000100'' 2000" 6000]
  have b1: "activeOf ''u1'' endedWorld = None"
    using b h2 unfolding endedWorld_def by blast
  have b2: "sessionStateKeys endedWorld = sessionStateKeys connectedWorld"
    using b h2 unfolding endedWorld_def by blast
  have b3: "fst (getSessionState ''s1'' (Some ''u1'') 6000 endedWorld) =
      state (fst (getSession ''s1'' (Some ''u1'') 6000 connectedWorld))"
    using b h2 unfolding endedWorld_def by blast
  have b4: "fst (getSessionState ''s1'' (Some ''u1'') 6000 endedWorld) = NORMAL_CHAT"
    by (simp add: b3 getSession_fst connectedWorld_facts)
  show ?thesis using h1 h2 a b1 b2 b4 by blast
qed

lemma recordOf_updateSessionActivity:
  "recordOf sid pid (updateSessionActivity sid pid now s) =
     Some ((fst (getSession sid pid now s))\<lparr>lastActivity := now\<rparr>)"
  by (simp add: updateSessionActivity_def split_def Let_def recordOf_write)

lemma connectedKey_updateSessionActivity [simp]:
  "connectedKey pid (updateSessionActivity sid pid' now s) = connectedKey pid s"
  by (simp add: updateSessionActivity_def split_def Let_def)

lemma stateRead_updateSessionActivity:
  "fst (getSessionState sid pid t (updateSessionActivity sid pid now s)) =
     fst (getSessionState sid pid t s)"
  by (simp add: getSessionState_fst afterRead_def getSession_fields(1)[of sid pid t]
      recordOf_updateSessionActivity)
    (simp add: getSession_fields(1)[of sid pid now])

lemma getChatResponse_connected:
  assumes "fst (getSessionState sid pid now s) = HUMAN_CONNECTED"
  shows "fst (getChatResponse sid pid e now s) =
           Inr (HumanConnectedNotice
                 ''You're currently connected to a human agent. They should respond shortly.'')"
proof -
  have "fst (getSessionState sid pid now (updateSessionActivity sid pid now s)) = HUMAN_CONNECTED"
    using assms by (simp add: stateRead_updateSessionActivity)
  then show ?thesis by (simp add: getChatResponse_def split_def Let_def)
qed

text \<open>
  Claim C6 at an end that follows a state read. The state of \<^verbatim>\<open>u1\<close> was read while
  the agent was connected (the check of a decline message, for one), and that read
  wrote HUMAN_CONNECTED into the record of the user. The click on the end button
  removes the connection and never writes the record, so the state read afterwards
  is still HUMAN_CONNECTED, not NORMAL_CHAT, with no agent connected: the
  responder keeps answering that a human agent is connected.
\<close>

theorem end_after_state_read_stays_connected:
  "fst (handleEndChatButton ''u1'' ''A1'' ''alice'' ''1700000000.000100'' liveEnv 5000 stateReadWorld) =
     \<lparr>status = ''ended'', message = None, reply_threadTs = None\<rparr> \<and>
   activeOf ''u1''
     (snd (handleEndChatButton ''u1'' ''A1'' ''alice'' ''1700000000.000100'' liveEnv 5000 stateReadWorld)) =
     None \<and>
   fst (getSessionState ''s1'' (Some ''u1'') 6000
         (snd (handleEndChatButton ''u1'' ''A1'' ''alice'' ''1700000000.000100'' liveEnv 5000
                stateReadWorld))) = HUMAN_CONNECTED \<and>
   fst (getSessionState ''s1'' (Some ''u1'') 6000
         (snd (handleEndChatButton ''u1'' ''A1'' ''alice'' ''1700000000.000100'' liveEnv 5000
                stateReadWorld))) \<noteq> NORMAL_CHAT \<and>
   fst (getChatResponse ''s1'' (Some ''u1'') liveEnv 6000
         (snd (handleEndChatButton ''u1'' ''A1'' ''alice'' ''1700000000.000100'' liveEnv 5000
                stateReadWorld))) =
     Inr (HumanConnectedNotice
           ''You're currently connected to a human agent. They should respond shortly.'')"
proof -
  let ?c = "connectionOf ''u1'' ''s1'' ''A1'' ''alice'' ''1700000000.000100'' 2000"
  let ?s' = "snd (handleEndChatButton ''u1'' ''A1'' ''alice'' ''1700000000.000100'' liveEnv 5000 stateReadWorld)"
  have a: "activeOf ''u1'' stateReadWorld = Some ?c"
    by (simp add: stateReadWorld_def connectedWorld_facts)
  have u: "''u1'' \<noteq> []" by simp
  note d = handleEndChatButton_ended[OF a connection_of_u1 u liveEnv_simps(1)]
  have pt: "persistTarget (Some ''u1'') connectedWorld = Some ''u1''"
    by (simp add: persistTarget_def connectedWorld_facts)
  have k: "connectedKey (Some ''u1'') connectedWorld = Some ''u1''"
    by (rule connectedKey_active[OF pt connectedWorld_facts(2)])
  have r: "recordOf ''s1'' (Some ''u1'') stateReadWorld =
      Some (afterRead ''s1'' (Some ''u1'') 2500 connectedWorld)"
    unfolding stateReadWorld_def by (rule recordOf_getSessionState)
  have c0: "isConnected stateReadWorld" by (simp add: stateReadWorld_def connectedWorld_facts)
  have c: "isConnected ?s'" using c0 by (simp only: d(5))
  have n: "activeOf ''u1'' ?s' = None" by (simp add: d(2))
  have g: "fst (getSessionState ''s1'' (Some ''u1'') 6000 ?s') = HUMAN_CONNECTED"
    by (simp add: stateRead_inactive[OF c u n] getSession_fst d(6) r afterRead_def k
        overlayConnected_def)
  show ?thesis
    using g by (simp add: d(1) n SessionState_defs getChatResponse_connected[OF g])
qed

lemma getHandoffState_SomeD:
  "getHandoffState p s = Some h \<Longrightarrow> isConnected s \<and> (\<exists>ttl. handoffStates s p = Some (ttl, h))"
  by (auto simp: getHandoffState_def split: if_splits)

lemma sameRequests_refl [simp]: "sameRequests s s"
  by (simp add: sameRequests_def)

lemma sameRequests_trans: "sameRequests s s1 \<Longrightarrow> sameRequests s1 s2 \<Longrightarrow> sameRequests s s2"
  by (simp add: sameRequests_def)

lemma sameRequests_prims:
  "sameRequests s (mapUserToSession p sid s)"
  "sameRequests s (emit e room ev m s)"
  by (simp_all add: sameRequests_def mapUserToSession_def updateActiveSessionId_def
      setSessionMapping_def updateCurrentSession_def updateUserField_def setActiveSession_def
      getActiveSession_def emit_def split: option.splits prod.splits)

lemma sameRequests_setHandoffState:
  "handoffStates s p \<noteq> None \<Longrightarrow> sameRequests s (setHandoffState p h ttl s)"
  by (auto simp: sameRequests_def setHandoffState_def)

lemma handoffStates_prims [simp]:
  "handoffStates (mapUserToSession p sid s) = handoffStates s"
  "handoffStates (emit e room ev m s) = handoffStates s"
  using samePending_prims(19)[of s p sid]
  by (simp_all add: samePending_def emit_def)

lemma requestHumanAgent_pending:
  assumes "p \<noteq> []" "getHandoffState p s = Some h"
  shows "requestHumanAgent sid history (Some p) e now s =
           (\<lparr>status = ''human_requested'', message = Some stillActiveMessage, reply_threadTs = None\<rparr>,
            emit e sid ''agent_waiting''
              ''Your request for human assistance is still being processed. An agent will be with you shortly.''
              (setHandoffState p (h\<lparr>sessionId := sid\<rparr>) 300 (mapUserToSession p sid s)))"
  using assms by (simp add: requestHumanAgent_def truthyId_def Let_def)

lemma requestHumanAgent_pending_effects:
  assumes "p \<noteq> []" "getHandoffState p s = Some h"
  shows "sameRequests s (snd (requestHumanAgent sid history (Some p) e now s))"
    and "handoffStates (snd (requestHumanAgent sid history (Some p) e now s)) =
           (handoffStates s)(p \<mapsto> (300, h\<lparr>sessionId := sid\<rparr>))"
    and "getHandoffState p (snd (requestHumanAgent sid history (Some p) e now s)) =
           Some (h\<lparr>sessionId := sid\<rparr>)"
proof -
  note d = getHandoffState_SomeD[OF assms(2)]
  let ?m = "mapUserToSession p sid s"
  have c: "isConnected ?m" using d by simp
  have hs: "handoffStates ?m p \<noteq> None" using d by auto
  have "sameRequests ?m (setHandoffState p (h\<lparr>sessionId := sid\<rparr>) 300 ?m)"
    by (rule sameRequests_setHandoffState[OF hs])
  then have "sameRequests s (setHandoffState p (h\<lparr>sessionId := sid\<rparr>) 300 ?m)"
    by (rule sameRequests_trans[OF sameRequests_prims(1)])
  then show "sameRequests s (snd (requestHumanAgent sid history (Some p) e now s))"
    unfolding requestHumanAgent_pending[OF assms] snd_conv
    by (rule sameRequests_trans) (rule sameRequests_prims(2))
  show "handoffStates (snd (requestHumanAgent sid history (Some p) e now s)) =
           (handoffStates s)(p \<mapsto> (300, h\<lparr>sessionId := sid\<rparr>))"
    using c by (simp add: requestHumanAgent_pending[OF assms] setHandoffState_def)
  show "getHandoffState p (snd (requestHumanAgent sid history (Some p) e now s)) =
           Some (h\<lparr>sessionId := sid\<rparr>)"
    using c by (simp add: requestHumanAgent_pending[OF assms] setHandoffState_def
        getHandoffState_def emit_def)
qed

lemma getHandoffState_setHandoffState:
  "isConnected s \<Longrightarrow> getHandoffState p (setHandoffState p h ttl s) = Some h"
  by (simp add: getHandoffState_def setHandoffState_def)

lemma getHandoffState_fields [simp]:
  "getHandoffState p (s\<lparr>sessionConversationHistory := a'\<rparr>) = getHandoffState p s"
  "getHandoffState p (s\<lparr>connectionRequestTimes := b'\<rparr>) = getHandoffState p s"
  "getHandoffState p (s\<lparr>cachedSummaries := c'\<rparr>) = getHandoffState p s"
  "getHandoffState p (s\<lparr>waitingSessions := d'\<rparr>) = getHandoffState p s"
  "getHandoffState p (slackCall c s) = getHandoffState p s"
  by (simp_all add: getHandoffState_def slackCall_def)

lemma slackCalls_timers [simp]:
  "slackCalls (setHandoffTimeout p sid s) = slackCalls s"
  "slackCalls (setTimerStart p t s) = slackCalls s"
  "slackCalls (setHandoffState p h ttl s) = slackCalls s"
  "slackCalls (startWaitingTimeUpdater sid ts pid s) = slackCalls s"
  by (simp_all add: setHandoffTimeout_def clearHandoffTimeout_def setTimer_def clearTimer_def
      setTimerStart_def setHandoffState_def startWaitingTimeUpdater_def split_def Let_def
      split: option.splits)

lemma publishRequest_new:
  assumes "p \<noteq> []" "isConnected s" "slackOk e" "postedTs e \<noteq> []"
  shows "fst (publishRequest sid history (Some p) e now s) =
           \<lparr>status = ''human_requested'', message = Some requestSentMessage, reply_threadTs = None\<rparr>"
    and "getHandoffState p (snd (publishRequest sid history (Some p) e now s)) =
           Some \<lparr>sessionId = sid, messageTs = postedTs e, requestTime = now,
                 conversationHistory = history,
                 summary = (if history \<noteq> [] then Some (summaryText e) else None)\<rparr>"
    and "slackCalls (snd (publishRequest sid history (Some p) e now s)) =
           slackCalls s @ [ChatPostMessage None (''New support request from session '' @ sid)]"
  using assms
  by (simp_all add: publishRequest_def Let_def truthyId_def getHandoffState_setHandoffState
      slackCall_def)

lemma slackCalls_mapUserToSession [simp]:
  "slackCalls (mapUserToSession p sid s) = slackCalls s"
  using sameRequests_prims(1)[of s p sid] by (simp add: sameRequests_def)

lemma requestHumanAgent_new:
  assumes "p \<noteq> []" "isConnected s" "getHandoffState p s = None" "slackOk e" "postedTs e \<noteq> []"
  shows "fst (requestHumanAgent sid history (Some p) e now s) =
           \<lparr>status = ''human_requested'', message = Some requestSentMessage, reply_threadTs = None\<rparr>"
    and "getHandoffState p (snd (requestHumanAgent sid history (Some p) e now s)) =
           Some \<lparr>sessionId = sid, messageTs = postedTs e, requestTime = now,
                 conversationHistory = history,
                 summary = (if history \<noteq> [] then Some (summaryText e) else None)\<rparr>"
    and "slackCalls (snd (requestHumanAgent sid history (Some p) e now s)) =
           slackCalls s @ [ChatPostMessage None (''New support request from session '' @ sid)]"
proof -
  let ?m = "mapUserToSession p sid s"
  have r: "requestHumanAgent sid history (Some p) e now s = publishRequest sid history (Some p) e now ?m"
    using assms(1,3) by (simp add: requestHumanAgent_def truthyId_def Let_def)
  have c: "isConnected ?m" using assms(2) by simp
  note n = publishRequest_new[OF assms(1) c assms(4,5)]
  show "fst (requestHumanAgent sid history (Some p) e now s) =
           \<lparr>status = ''human_requested'', message = Some requestSentMessage, reply_threadTs = None\<rparr>"
    unfolding r by (rule n(1))
  show "getHandoffState p (snd (requestHumanAgent sid history (Some p) e now s)) =
           Some \<lparr>sessionId = sid, messageTs = postedTs e, requestTime = now,
                 conversationHistory = history,
                 summary = (if history \<noteq> [] then Some (summaryText e) else None)\<rparr>"
    unfolding r by (rule n(2))
  show "slackCalls (snd (requestHumanAgent sid history (Some p) e now s)) =
           slackCalls s @ [ChatPostMessage None (''New support request from session '' @ sid)]"
    unfolding r by (simp add: n(3))
qed

text \<open>
  Claim C7, as the code has it: for a user with a persistent id whose request is
  pending in the store. When \<^verbatim>\<open>getHandoffState\<close> finds a request of the user,
  \<^verbatim>\<open>requestHumanAgent\<close> posts nothing to the agents' channel, starts and clears no
  timer, and leaves the set of users with a pending request as it is: it stores the
  session id of the call in the pending request and answers with the message that
  the previous request is still active. So of two calls in succession for a user
  without pending request, with the store connected and the post answered with a
  timestamp, the first publishes the request and the second only moves its session
  id. The status string of both answers is \<^verbatim>\<open>human_requested\<close>; the messages differ.
\<close>

theorem repeated_request_is_not_published_again:
  "(p \<noteq> [] \<and> getHandoffState p s = Some h \<longrightarrow>
      fst (requestHumanAgent sid history (Some p) e now s) =
        \<lparr>status = ''human_requested'', message = Some stillActiveMessage, reply_threadTs = None\<rparr> \<and>
      sameRequests s (snd (requestHumanAgent sid history (Some p) e now s)) \<and>
      handoffStates (snd (requestHumanAgent sid history (Some p) e now s)) =
        (handoffStates s)(p \<mapsto> (300, h\<lparr>sessionId := sid\<rparr>))) \<and>
   (p \<noteq> [] \<and> isConnected s \<and> getHandoffState p s = None \<and> slackOk e \<and> postedTs e \<noteq> [] \<longrightarrow>
      fst (requestHumanAgent sid history (Some p) e now s) =
        \<lparr>status = ''human_requested'', message = Some requestSentMessage, reply_threadTs = None\<rparr> \<and>
      fst (requestHumanAgent sid' history' (Some p) e' now'
            (snd (requestHumanAgent sid history (Some p) e now s))) =
        \<lparr>status = ''human_requested'', message = Some stillActiveMessage, reply_threadTs = None\<rparr> \<and>
      sameRequests (snd (requestHumanAgent sid history (Some p) e now s))
        (snd (requestHumanAgent sid' history' (Some p) e' now'
               (snd (requestHumanAgent sid history (Some p) e now s)))) \<and>
      slackCalls (snd (requestHumanAgent sid' history' (Some p) e' now'
                        (snd (requestHumanAgent sid history (Some p) e now s)))) =
        slackCalls s @ [ChatPostMessage None (''New support request from session '' @ sid)] \<and>
      getHandoffState p (snd (requestHumanAgent sid' history' (Some p) e' now'
                               (snd (requestHumanAgent sid history (Some p) e now s)))) =
        Some \<lparr>sessionId = sid', messageTs = postedTs e, requestTime = now,
              conversationHistory = history,
              summary = (if history \<noteq> [] then Some (summaryText e) else None)\<rparr>) \<and>
   stillActiveMessage \<noteq> requestSentMessage"
proof (intro conjI impI)
  assume h: "p \<noteq> [] \<and> getHandoffState p s = Some h"
  then have h1: "p \<noteq> []" and h2: "getHandoffState p s = Some h" by simp_all
  show "fst (requestHumanAgent sid history (Some p) e now s) =
        \<lparr>status = ''human_requested'', message = Some stillActiveMessage, reply_threadTs = None\<rparr>"
    by (simp add: requestHumanAgent_pending[OF h1 h2])
  show "sameRequests s (snd (requestHumanAgent sid history (Some p) e now s))"
    by (rule requestHumanAgent_pending_effects(1)[OF h1 h2])
  show "handoffStates (snd (requestHumanAgent sid history (Some p) e now s)) =
        (handoffStates s)(p \<mapsto> (300, h\<lparr>sessionId := sid\<rparr>))"
    by (rule requestHumanAgent_pending_effects(2)[OF h1 h2])
next
  assume h: "p \<noteq> [] \<and> isConnected s \<and> getHandoffState p s = None \<and> slackOk e \<and> postedTs e \<noteq> []"
  then have h1: "p \<noteq> []" and h2: "isConnected s" and h3: "getHandoffState p s = None"
    and h4: "slackOk e" and h5: "postedTs e \<noteq> []" by simp_all
  note n = requestHumanAgent_new[OF h1 h2 h3 h4 h5, of sid history now]
  let ?s1 = "snd (requestHumanAgent sid history (Some p) e now s)"
  note q = requestHumanAgent_pending[OF h1 n(2), of sid' history' e' now']
  note f = requestHumanAgent_pending_effects[OF h1 n(2), of sid' history' e' now']
  show "fst (requestHumanAgent sid history (Some p) e now s) =
        \<lparr>status = ''human_requested'', message = Some requestSentMessage, reply_threadTs = None\<rparr>"
    by (rule n(1))
  show "fst (requestHumanAgent sid' history' (Some p) e' now' ?s1) =
        \<lparr>status = ''human_requested'', message = Some stillActiveMessage, reply_threadTs = None\<rparr>"
    by (simp add: q)
  show "sameRequests ?s1 (snd (requestHumanAgent sid' history' (Some p) e' now' ?s1))"
    by (rule f(1))
  show "slackCalls (snd (requestHumanAgent sid' history' (Some p) e' now' ?s1)) =
        slackCalls s @ [ChatPostMessage None (''New support request from session '' @ sid)]"
    using f(1) by (simp add: sameRequests_def n(3))
  show "getHandoffState p (snd (requestHumanAgent sid' history' (Some p) e' now' ?s1)) =
        Some \<lparr>sessionId = sid', messageTs = postedTs e, requestTime = now,
              conversationHistory = history,
              summary = (if history \<noteq> [] then Some (summaryText e) else None)\<rparr>"
    by (simp add: f(3))
next
  show "stillActiveMessage \<noteq> requestSentMessage"
    by (simp add: stillActiveMessage_def requestSentMessage_def)
qed

theorem repeated_request_is_not_published_again_witness:
  "(''u1'' \<noteq> [] \<and> isConnected (initialWorld True) \<and> getHandoffState ''u1'' (initialWorld True) = None \<and>
    slackOk liveEnv \<and> postedTs liveEnv \<noteq> []) \<and>
   (''u1'' \<noteq> [] \<and>
    getHandoffState ''u1'' waitingWorld =
      Some \<lparr>sessionId = ''s1'', messageTs = ''1700000000.000100'', requestTime = 1000,
            conversationHistory = [], summary = None\<rparr>) \<and>
   fst (requestHumanAgent ''s2'' [] (Some ''u1'') liveEnv 1500 waitingWorld) =
     \<lparr>status = ''human_requested'', message = Some stillActiveMessage, reply_threadTs = None\<rparr> \<and>
   slackCalls reloadedWorld = [ChatPostMessage None ''New support request from session s1''] \<and>
   scheduled reloadedWorld = scheduled waitingWorld \<and>
   handoffStates reloadedWorld =
     [''u1'' \<mapsto> (300, \<lparr>sessionId = ''s2'', messageTs = ''1700000000.000100'', requestTime = 1000,
                        conversationHistory = [], summary = None\<rparr>)]"
proof -
  have h1: "''u1'' \<noteq> [] \<and> isConnected (initialWorld True) \<and>
    getHandoffState ''u1'' (initialWorld True) = None \<and> slackOk liveEnv \<and> postedTs liveEnv \<noteq> []"
    by (simp add: initialWorld_def getHandoffState_def)
  have h2: "''u1'' \<noteq> [] \<and>
    getHandoffState ''u1'' waitingWorld =
      Some \<lparr>sessionId = ''s1'', messageTs = ''1700000000.000100'', requestTime = 1000,
            conversationHistory = [], summary = None\<rparr>"
    by (simp add: waitingWorld_eq getHandoffState_def initialWorld_def)
  note a = repeated_request_is_not_published_again[of "''u1''" "initialWorld True" _ "''s1''" "[]"
      liveEnv 1000 "''s2''" "[]" liveEnv 1500]
  note b = repeated_request_is_not_published_again[of "''u1''" waitingWorld
      "\<lparr>sessionId = ''s1'', messageTs = ''1700000000.000100'', requestTime = 1000,
            conversationHistory = [], summary = None\<rparr>" "''s2''" "[]" liveEnv 1500]
  have a1: "slackCalls reloadedWorld = [] @ [ChatPostMessage None (''New support request from session '' @ ''s1'')]"
    using a h1 unfolding reloadedWorld_def waitingWorld_def
    by (simp add: initialWorld_def)
  have b1: "fst (requestHumanAgent ''s2'' [] (Some ''u1'') liveEnv 1500 waitingWorld) =
     \<lparr>status = ''human_requested'', message = Some stillActiveMessage, reply_threadTs = None\<rparr>"
    using b h2 by blast
  have b2: "sameRequests waitingWorld reloadedWorld"
    using b h2 unfolding reloadedWorld_def by blast
  have b3: "handoffStates reloadedWorld =
      (handoffStates waitingWorld)(''u1'' \<mapsto> (300, \<lparr>sessionId = ''s1'', messageTs = ''1700000000.000100'',
         requestTime = 1000, conversationHistory = [], summary = None\<rparr>\<lparr>sessionId := ''s2''\<rparr>))"
    using b h2 unfolding reloadedWorld_def by blast
  have b4: "handoffStates reloadedWorld =
     [''u1'' \<mapsto> (300, \<lparr>sessionId = ''s2'', messageTs = ''1700000000.000100'', requestTime = 1000,
                        conversationHistory = [], summary = None\<rparr>)]"
    unfolding b3 by (simp add: waitingWorld_eq)
  have b5: "scheduled reloadedWorld = scheduled waitingWorld"
    using b2 by (simp add: sameRequests_def)
  show ?thesis using h1 h2 a1 b1 b4 b5 by simp
qed

lemma offlineWaitingWorld_eq:
  "offlineWaitingWorld =
     (initialWorld False)
       \<lparr>scheduled := [0 \<mapsto> HandoffTimeout ''u1'' ''s1'',
                      1 \<mapsto> WaitingTicker ''s1'' ''1700000000.000100'' (Some ''u1'')],
        nextTimerId := 2,
        updateIntervals := [Some ''u1'' \<mapsto> 1],
        handoffTimeouts := [''u1'' \<mapsto> 0],
        connectionRequestTimes := [''s1'' \<mapsto> 1000],
        sessionConversationHistory := [''s1'' \<mapsto> []],
        waitingSessions := [''s1'' \<mapsto> \<lparr>waiting_messageTs = ''1700000000.000100'',
            waiting_requestTime = 1000, waiting_persistentUserId = Some ''u1''\<rparr>],
        slackCalls := [ChatPostMessage None ''New support request from session s1'']\<rparr>"
  by (simp add: offlineWaitingWorld_def requestHumanAgent_def publishRequest_def mapUserToSession_def
      truthyId_def persistKey_def liveEnv_def initialWorld_def redis_defs timer_defs out_defs
      Let_def)

lemma anonymousWaitingWorld_eq:
  "anonymousWaitingWorld =
     (initialWorld True)
       \<lparr>scheduled := [0 \<mapsto> WaitingTicker ''s1'' ''1700000000.000100'' None],
        nextTimerId := 1,
        updateIntervals := [None \<mapsto> 0],
        connectionRequestTimes := [''s1'' \<mapsto> 1000],
        sessionConversationHistory := [''s1'' \<mapsto> []],
        waitingSessions := [''s1'' \<mapsto> \<lparr>waiting_messageTs = ''1700000000.000100'',
            waiting_requestTime = 1000, waiting_persistentUserId = None\<rparr>],
        slackCalls := [ChatPostMessage None ''New support request from session s1'']\<rparr>"
  by (simp add: anonymousWaitingWorld_def requestHumanAgent_def publishRequest_def mapUserToSession_def
      truthyId_def persistKey_def liveEnv_def initialWorld_def redis_defs timer_defs out_defs
      Let_def)

text \<open>
  Claim C7, as stated, fails for a waiting visitor whose request is not in the
  store. The pending request is looked for only under a persistent user id and only
  in the store: for \<^verbatim>\<open>u1\<close> waiting while the store is not connected, and for a
  waiting visitor without persistent id, the second call posts a second message to
  the agents' channel, answers that the request was sent, and replaces the timers
  by new ones.
\<close>

theorem repeated_request_without_store_is_published_again:
  "waitingSessions offlineWaitingWorld ''s1'' =
     Some \<lparr>waiting_messageTs = ''1700000000.000100'', waiting_requestTime = 1000,
           waiting_persistentUserId = Some ''u1''\<rparr> \<and>
   slackCalls offlineWaitingWorld = [ChatPostMessage None ''New support request from session s1''] \<and>
   scheduled offlineWaitingWorld =
     [0 \<mapsto> HandoffTimeout ''u1'' ''s1'',
      1 \<mapsto> WaitingTicker ''s1'' ''1700000000.000100'' (Some ''u1'')] \<and>
   fst (requestHumanAgent ''s1'' [] (Some ''u1'') liveEnv 1500 offlineWaitingWorld) =
     \<lparr>status = ''human_requested'', message = Some requestSentMessage, reply_threadTs = None\<rparr> \<and>
   slackCalls (snd (requestHumanAgent ''s1'' [] (Some ''u1'') liveEnv 1500 offlineWaitingWorld)) =
     [ChatPostMessage None ''New support request from session s1'',
      ChatPostMessage None ''New support request from session s1''] \<and>
   scheduled (snd (requestHumanAgent ''s1'' [] (Some ''u1'') liveEnv 1500 offlineWaitingWorld)) =
     [2 \<mapsto> HandoffTimeout ''u1'' ''s1'',
      3 \<mapsto> WaitingTicker ''s1'' ''1700000000.000100'' (Some ''u1'')] \<and>
   fst (requestHumanAgent ''s1'' [] None liveEnv 1500 anonymousWaitingWorld) =
     \<lparr>status = ''human_requested'', message = Some requestSentMessage, reply_threadTs = None\<rparr> \<and>
   slackCalls (snd (requestHumanAgent ''s1'' [] None liveEnv 1500 anonymousWaitingWorld)) =
     [ChatPostMessage None ''New support request from session s1'',
      ChatPostMessage None ''New support request from session s1'']"
proof -
  have a: "requestHumanAgent ''s1'' [] (Some ''u1'') liveEnv 1500 offlineWaitingWorld =
     (\<lparr>status = ''human_requested'', message = Some requestSentMessage, reply_threadTs = None\<rparr>,
      offlineWaitingWorld
       \<lparr>scheduled := [2 \<mapsto> HandoffTimeout ''u1'' ''s1'',
                      3 \<mapsto> WaitingTicker ''s1'' ''1700000000.000100'' (Some ''u1'')],
        nextTimerId := 4,
        updateIntervals := [Some ''u1'' \<mapsto> 3],
        handoffTimeouts := [''u1'' \<mapsto> 2],
        connectionRequestTimes := [''s1'' \<mapsto> 1500],
        waitingSessions := [''s1'' \<mapsto> \<lparr>waiting_messageTs = ''1700000000.000100'',
            waiting_requestTime = 1500, waiting_persistentUserId = Some ''u1''\<rparr>],
        slackCalls := [ChatPostMessage None ''New support request from session s1'',
                       ChatPostMessage None ''New support request from session s1'']\<rparr>)"
    unfolding offlineWaitingWorld_eq
    by (simp add: requestHumanAgent_def publishRequest_def mapUserToSession_def
      truthyId_def persistKey_def liveEnv_def initialWorld_def redis_defs timer_defs out_defs
      Let_def)
  have b: "requestHumanAgent ''s1'' [] None liveEnv 1500 anonymousWaitingWorld =
     (\<lparr>status = ''human_requested'', message = Some requestSentMessage, reply_threadTs = None\<rparr>,
      anonymousWaitingWorld
       \<lparr>scheduled := [1 \<mapsto> WaitingTicker ''s1'' ''1700000000.000100'' None],
        nextTimerId := 2,
        updateIntervals := [None \<mapsto> 1],
        connectionRequestTimes := [''s1'' \<mapsto> 1500],
        waitingSessions := [''s1'' \<mapsto> \<lparr>waiting_messageTs = ''1700000000.000100'',
            waiting_requestTime = 1500, waiting_persistentUserId = None\<rparr>],
        slackCalls := [ChatPostMessage None ''New support request from session s1'',
                       ChatPostMessage None ''New support request from session s1'']\<rparr>)"
    unfolding anonymousWaitingWorld_eq
    by (simp add: requestHumanAgent_def publishRequest_def mapUserToSession_def
      truthyId_def persistKey_def liveEnv_def initialWorld_def redis_defs timer_defs out_defs
      Let_def)
  show ?thesis
    unfolding a b by (simp add: offlineWaitingWorld_eq)
qed

lemma connectedKey_outputs [simp]:
  "connectedKey pid (dbWrite r s) = connectedKey pid s"
  "connectedKey pid (consoleError m s) = connectedKey pid s"
  by (simp_all add: connectedKey_def)

lemma stateRead_outputs [simp]:
  "fst (getSessionState sid pid t (dbWrite r s)) = fst (getSessionState sid pid t s)"
  "fst (getSessionState sid pid t (consoleError m s)) = fst (getSessionState sid pid t s)"
  by (simp_all add: getSessionState_fst afterRead_def)

lemma stateRead_getSessionState:
  "fst (getSessionState sid pid t (snd (getSessionState sid pid t' s))) =
     fst (getSessionState sid pid t' s)"
  by (simp add: getSessionState_fst afterRead_getSessionState)

lemma NORMAL_CHAT_distinct:
  "NORMAL_CHAT \<noteq> HUMAN_CONNECTED" "NORMAL_CHAT \<noteq> LEAD_CAPTURE" "NORMAL_CHAT \<noteq> SEEKING_HANDOFF"
  "NORMAL_CHAT \<noteq> CALLBACK_REQUEST"
  by (simp_all add: SessionState_defs)

lemma getChatResponse_NORMAL_CHAT:
  assumes "fst (getSessionState sid pid now s) = NORMAL_CHAT"
  shows "fst (getChatResponse sid pid e now s) =
           (if responderOk e then Inr (BotText (botResponse e)) else Inl ResponderError)"
    and "fst (getSessionState sid pid t (snd (getChatResponse sid pid e now s))) = NORMAL_CHAT"
proof -
  let ?u = "updateSessionActivity sid pid now s"
  let ?s1 = "snd (getSessionState sid pid now ?u)"
  let ?s3 = "snd (getSessionState sid pid now ?s1)"
  have a: "fst (getSessionState sid pid now ?u) = NORMAL_CHAT"
    using assms by (simp add: stateRead_updateSessionActivity)
  have b: "fst (getSessionState sid pid now ?s1) = NORMAL_CHAT"
    using a by (simp add: stateRead_getSessionState)
  have g: "getChatResponse sid pid e now s =
      (if \<not> responderOk e
       then (Inl ResponderError,
             consoleError ''OpenAI API error''
               (consoleError ''OpenAI API error in conversation service'' ?s3))
       else (Inr (BotText (botResponse e)), ?s3))"
    by (simp add: getChatResponse_def split_def Let_def a b NORMAL_CHAT_distinct)
  show "fst (getChatResponse sid pid e now s) =
           (if responderOk e then Inr (BotText (botResponse e)) else Inl ResponderError)"
    by (simp add: g)
  have c: "fst (getSessionState sid pid t ?s3) = NORMAL_CHAT"
    using b by (simp add: stateRead_getSessionState stateRead_time[of sid pid t _ now])
  show "fst (getSessionState sid pid t (snd (getChatResponse sid pid e now s))) = NORMAL_CHAT"
    using c by (simp add: g)
qed

lemma handleCallbackRequest_NORMAL_CHAT:
  assumes "fst (getSessionState sid pid now s) = NORMAL_CHAT"
  shows "fst (handleCallbackRequest sid pid e now s) =
           (if responderOk e then Inr False else Inl ResponderError)"
    and "fst (getSessionState sid pid t (snd (handleCallbackRequest sid pid e now s))) = NORMAL_CHAT"
proof -
  let ?s0 = "dbWrite (TrackCallbackPressed sid) s"
  let ?s2 = "dbWrite (LogMessage sid ''user'' callbackMessage) (snd (getSessionState sid pid now ?s0))"
  have a: "fst (getSessionState sid pid now ?s0) = NORMAL_CHAT" using assms by simp
  have b: "fst (getSessionState sid pid now ?s2) = NORMAL_CHAT"
    using a by (simp add: stateRead_getSessionState)
  note g = getChatResponse_NORMAL_CHAT[OF b]
  obtain r s3 where c: "getChatResponse sid pid e now ?s2 = (r, s3)"
    by (cases "getChatResponse sid pid e now ?s2")
  have r: "r = (if responderOk e then Inr (BotText (botResponse e)) else Inl ResponderError)"
    using g(1)[where e=e] by (simp add: c)
  have s3: "fst (getSessionState sid pid t' s3) = NORMAL_CHAT" for t'
    using g(2)[where e=e and t=t'] by (simp add: c)
  have h: "handleCallbackRequest sid pid e now s =
     (if responderOk e
      then (Inr (fst (getSessionState sid pid now
                  (dbWrite (LogMessage sid ''bot'' (botResponse e)) s3)) = LEAD_CAPTURE),
            snd (getSessionState sid pid now (dbWrite (LogMessage sid ''bot'' (botResponse e)) s3)))
      else (Inl ResponderError, consoleError ''Error processing request'' s3))"
    by (simp add: handleCallbackRequest_def split_def Let_def assms c r responseText_def)
  show "fst (handleCallbackRequest sid pid e now s) =
           (if responderOk e then Inr False else Inl ResponderError)"
    by (simp add: h s3 NORMAL_CHAT_distinct)
  show "fst (getSessionState sid pid t (snd (handleCallbackRequest sid pid e now s))) = NORMAL_CHAT"
    by (simp add: h s3 stateRead_getSessionState)
qed

lemma endedWorld_facts:
  "isConnected endedWorld"
  "activeOf ''u1'' endedWorld = None"
  "recordOf ''s1'' (Some ''u1'') endedWorld =
     Some \<lparr>state = NORMAL_CHAT, lastActivity = 2000, handoffOffered = False,
           lastHandoffTime = Some 2000, session_persistentUserId = Some ''u1''\<rparr>"
proof -
  have u: "''u1'' \<noteq> []" by simp
  note d = handleEndChatButton_ended[OF connectedWorld_facts(2) connection_of_u1 u liveEnv_simps(1)]
  show "isConnected endedWorld" unfolding endedWorld_def by (simp only: d(5) connectedWorld_facts(1))
  show "activeOf ''u1'' endedWorld = None" unfolding endedWorld_def by (simp add: d(2))
  show "recordOf ''s1'' (Some ''u1'') endedWorld =
     Some \<lparr>state = NORMAL_CHAT, lastActivity = 2000, handoffOffered = False,
           lastHandoffTime = Some 2000, session_persistentUserId = Some ''u1''\<rparr>"
    unfolding endedWorld_def by (simp add: d(6) connectedWorld_facts)
qed

text \<open>
  Claim C4 one minute after a live handoff. The agent accepted the chat of \<^verbatim>\<open>u1\<close> at
  the time 2000 and ended it; at 62000 the state of the session is NORMAL_CHAT and
  the cooldown is active. The message of the callback button then passes the guard
  \<^verbatim>\<open>currentState !== NORMAL_CHAT\<close> of the controller on its other side:
  \<^verbatim>\<open>markCallbackRequested\<close> is not called, the reply has no lead capture mode, and the
  state stays NORMAL_CHAT.
\<close>

theorem callback_after_live_handoff_is_not_taken:
  "fst (getSessionState ''s1'' (Some ''u1'') 62000 endedWorld) = NORMAL_CHAT \<and>
   fst (canRequestHandoffAgain ''s1'' (Some ''u1'') 62000 endedWorld) = False \<and>
   fst (handleCallbackRequest ''s1'' (Some ''u1'') liveEnv 62000 endedWorld) = Inr False \<and>
   fst (getSessionState ''s1'' (Some ''u1'') 62000
         (snd (handleCallbackRequest ''s1'' (Some ''u1'') liveEnv 62000 endedWorld))) = NORMAL_CHAT \<and>
   fst (getSessionState ''s1'' (Some ''u1'') 62000
         (snd (handleCallbackRequest ''s1'' (Some ''u1'') liveEnv 62000 endedWorld))) \<noteq> CALLBACK_REQUEST"
proof -
  have u: "''u1'' \<noteq> []" by simp
  have a: "fst (getSessionState ''s1'' (Some ''u1'') 62000 endedWorld) = NORMAL_CHAT"
    by (simp add: stateRead_inactive[OF endedWorld_facts(1) u endedWorld_facts(2)] getSession_fst
        endedWorld_facts(3))
  have b: "fst (canRequestHandoffAgain ''s1'' (Some ''u1'') 62000 endedWorld) = False"
    by (simp add: canRequest_eq[of _ _ _ _ 0] getSession_fst endedWorld_facts(3) oneHourMs_def)
  note c = handleCallbackRequest_NORMAL_CHAT[OF a]
  show ?thesis
    using a b c by (simp add: NORMAL_CHAT_distinct)
qed

lemma includesStr_Cons:
  "includesStr sep (c # cs) = (prefix sep (c # cs) \<or> includesStr sep cs)"
  by simp




















lemma leadMarker_props:
  "leadMarker \<noteq> []" "last leadMarker \<notin> set (butlast leadMarker)" "CHR 0x0A \<notin> set leadMarker"
  by (simp_all add: leadMarker_def)




lemma NORMAL_CHAT_valid [simp]: "NORMAL_CHAT \<in> set validStates"
  by (simp add: validStates_def)





text \<open>
  The two shapes cover every case: a response that contains the marker splits into
  \<open>pre\<close>, marker, \<open>line\<close> and \<open>tail\<close> as above, and a line with at least three commas
  splits into four fields without comma and a rest.
\<close>

lemma first_occurrence:
  assumes "sep \<noteq> []"
  shows "includesStr sep r \<Longrightarrow> \<exists>pre x. r = pre @ sep @ x \<and> \<not> includesStr sep pre"
proof (induction r)
  case Nil
  with assms show ?case by simp
next
  case (Cons c cs)
  show ?case
  proof (cases "prefix sep (c # cs)")
    case True
    then obtain x where "c # cs = sep @ x" by (auto simp: prefix_def)
    then have "c # cs = [] @ sep @ x \<and> \<not> includesStr sep []" using assms by simp
    then show ?thesis by blast
  next
    case False
    with Cons.prems have "includesStr sep cs" by simp
    then obtain pre x where p: "cs = pre @ sep @ x" "\<not> includesStr sep pre"
      using Cons.IH by blast
    have "\<not> prefix sep (c # pre)"
    proof
      assume "prefix sep (c # pre)"
      then have "prefix sep ((c # pre) @ sep @ x)" by (rule prefix_prefix)
      with False p(1) show False by simp
    qed
    with p have "c # cs = (c # pre) @ sep @ x \<and> \<not> includesStr sep (c # pre)" by simp
    then show ?thesis by blast
  qed
qed

lemma markerLine_exists:
  assumes "includesStr leadMarker response"
  shows "\<exists>pre line tail. response = pre @ leadMarker @ line @ tail \<and> markerLine pre line tail"
proof -
  obtain pre x where r: "response = pre @ leadMarker @ x" and p: "\<not> includesStr leadMarker pre"
    using first_occurrence[OF leadMarker_props(1) assms] by blast
  let ?y = "takeWhile (\<lambda>c. c \<noteq> CHR 0x0A) x"
  let ?z = "dropWhile (\<lambda>c. c \<noteq> CHR 0x0A) x"
  have x: "x = ?y @ ?z" by simp
  have ny: "CHR 0x0A \<notin> set ?y" by (auto dest: set_takeWhileD)
  show ?thesis
  proof (cases "includesStr leadMarker ?y")
    case True
    then obtain line rest where y: "?y = line @ leadMarker @ rest"
      and l: "\<not> includesStr leadMarker line"
      using first_occurrence[OF leadMarker_props(1)] by blast
    have nl: "CHR 0x0A \<notin> set line" using ny unfolding y by simp
    have "response = pre @ leadMarker @ line @ (leadMarker @ rest @ ?z)"
      using r x y by (metis append.assoc)
    moreover have "markerLine pre line (leadMarker @ rest @ ?z)"
      using p l nl by (simp add: markerLine_def)
    ultimately show ?thesis by blast
  next
    case False
    have "?z = [] \<or> hd ?z = CHR 0x0A" using hd_dropWhile[of "\<lambda>c. c \<noteq> CHR 0x0A" x] by auto
    then have "markerLine pre ?y ?z" using p False ny unfolding markerLine_def by blast
    moreover have "response = pre @ leadMarker @ ?y @ ?z" using r by simp
    ultimately show ?thesis by blast
  qed
qed

lemma first_comma:
  assumes "Suc n \<le> length (filter (\<lambda>c. c = CHR '','') s)"
  shows "\<exists>a b. s = a @ CHR '','' # b \<and> CHR '','' \<notin> set a \<and>
           n \<le> length (filter (\<lambda>c. c = CHR '','') b)"
proof -
  have "filter (\<lambda>c. c = CHR '','') s \<noteq> []" using assms by auto
  then have "CHR '','' \<in> set s" by (auto simp: filter_empty_conv)
  then obtain a b where s: "s = a @ CHR '','' # b" and a: "CHR '','' \<notin> set a"
    by (meson split_list_first)
  have "filter (\<lambda>c. c = CHR '','') a = []" using a by (auto simp: filter_empty_conv)
  then have "n \<le> length (filter (\<lambda>c. c = CHR '','') b)"
    using assms unfolding s by simp
  with s a show ?thesis by blast
qed

lemma four_fields_exist:
  assumes "3 \<le> length (filter (\<lambda>c. c = CHR '','') line)"
  shows "\<exists>f l em ph extra.
           line = f @ CHR '','' # l @ CHR '','' # em @ CHR '','' # ph @ extra \<and>
           CHR '','' \<notin> set f \<and> CHR '','' \<notin> set l \<and> CHR '','' \<notin> set em \<and> CHR '','' \<notin> set ph \<and>
           (extra = [] \<or> hd extra = CHR '','')"
proof -
  have h: "Suc 2 \<le> length (filter (\<lambda>c. c = CHR '','') line)" using assms by simp
  from first_comma[OF h] obtain f b1 where 1: "line = f @ CHR '','' # b1" "CHR '','' \<notin> set f"
    and n1: "2 \<le> length (filter (\<lambda>c. c = CHR '','') b1)"
    by blast
  have h1: "Suc 1 \<le> length (filter (\<lambda>c. c = CHR '','') b1)" using n1 by simp
  from first_comma[OF h1] obtain l b2 where 2: "b1 = l @ CHR '','' # b2" "CHR '','' \<notin> set l"
    and n2: "1 \<le> length (filter (\<lambda>c. c = CHR '','') b2)"
    by blast
  have h2: "Suc 0 \<le> length (filter (\<lambda>c. c = CHR '','') b2)" using n2 by simp
  from first_comma[OF h2] obtain em b3 where 3: "b2 = em @ CHR '','' # b3" "CHR '','' \<notin> set em"
    by blast
  let ?ph = "takeWhile (\<lambda>c. c \<noteq> CHR '','') b3"
  let ?extra = "dropWhile (\<lambda>c. c \<noteq> CHR '','') b3"
  have "line = f @ CHR '','' # l @ CHR '','' # em @ CHR '','' # ?ph @ ?extra"
    using 1(1) 2(1) 3(1) by simp
  moreover have "CHR '','' \<notin> set ?ph" by (auto dest: set_takeWhileD)
  moreover have "?extra = [] \<or> hd ?extra = CHR '',''"
    using hd_dropWhile[of "\<lambda>c. c \<noteq> CHR '',''" b3] by auto
  ultimately show ?thesis using 1(2) 2(2) 3(2) by blast
qed

end
